theory Spec2Isabelle
  imports Main "HOL-Library.Sublist"
begin

section \<open>JavaScript values used by the handlers\<close>

text \<open>
  The Numbers of the model are NaN, the two infinities and the doubles that hold an
  integer: \<open>NumInt i\<close> is the double of value \<open>i\<close>, which exists when \<open>i\<close> is
  representable (\<open>is_Number\<close>). Fractional Numbers do not occur in the properties
  below, and negative zero is not told from zero.
\<close>

datatype number = NumInt int | NumNaN | NumInfinity bool

fun digit_char :: "nat \<Rightarrow> char" where
  "digit_char d = ''0123456789'' ! d"

fun show_nat :: "nat \<Rightarrow> string" where
  "show_nat n = (if n < 10 then [digit_char n] else show_nat (n div 10) @ [digit_char (n mod 10)])"

declare show_nat.simps [simp del]

fun strip_zeros :: "string \<Rightarrow> string" where
  "strip_zeros s = rev (dropWhile (\<lambda>c. c = CHR ''0'') (rev s))"

text \<open>The number of binary digits of a natural number.\<close>

fun bitlen :: "nat \<Rightarrow> nat" where
  "bitlen n = (if n = 0 then 0 else Suc (bitlen (n div 2)))"

declare bitlen.simps [simp del]

text \<open>
  The natural number rounded to 53 significant binary digits, to the nearest and in a
  tie to the even one: the value of the double that holds it, as long as that is below
  \<open>2^1024\<close>.
\<close>

definition to_double :: "nat \<Rightarrow> nat" where
  "to_double n =
     (let e = bitlen n - 53; q = n div 2 ^ e; r = n mod 2 ^ e
      in if 2 * r < 2 ^ e \<or> (2 * r = 2 ^ e \<and> even q) then q * 2 ^ e else (q + 1) * 2 ^ e)"

text \<open>The integers that a Number holds.\<close>

fun is_Number :: "number \<Rightarrow> bool" where
  "is_Number (NumInt i) = (to_double (nat \<bar>i\<bar>) = nat \<bar>i\<bar> \<and> nat \<bar>i\<bar> < 2 ^ 1024)"
| "is_Number NumNaN = True"
| "is_Number (NumInfinity neg) = True"

declare is_Number.simps [simp del]

text \<open>
  \<open>Number::toString\<close> of ECMAScript on a double \<open>d\<close> that holds a natural number: the
  digits are those of the decimal \<open>s * 10^p\<close> with the fewest significant digits that
  the double nearest to it is \<open>d\<close> (of two such with as many digits the one nearer to
  \<open>d\<close>, and the even \<open>s\<close> when both are as near). \<open>shortest_from d p\<close> looks for it among
  the multiples of \<open>10^p\<close> next to \<open>d\<close>, from \<open>p\<close> downwards; below \<open>2^53\<close> it is \<open>d\<close>
  itself. The decimal is written with all its digits when it is below \<open>10^21\<close>, and in
  the exponent form from \<open>10^21\<close> on (first digit, the remaining significant digits
  after a point, \<open>e+\<close> and the decimal exponent).
\<close>

fun shortest_from :: "nat \<Rightarrow> nat \<Rightarrow> nat" where
  "shortest_from d 0 = d"
| "shortest_from d (Suc p) =
     (let lo = (d div 10 ^ Suc p) * 10 ^ Suc p;
          hi = lo + 10 ^ Suc p;
          lo_ok = (0 < lo \<and> to_double lo = d);
          hi_ok = (to_double hi = d)
      in if lo_ok \<and> hi_ok
         then (if d - lo < hi - d then lo
               else if hi - d < d - lo then hi
               else if even (d div 10 ^ Suc p) then lo else hi)
         else if lo_ok then lo
         else if hi_ok then hi
         else shortest_from d p)"

declare shortest_from.simps [simp del]

definition shortest :: "nat \<Rightarrow> nat" where
  "shortest d = shortest_from d (length (show_nat d))"

definition exponent_form :: "nat \<Rightarrow> string" where
  "exponent_form n =
     (let ds = show_nat n; sig = strip_zeros ds
      in (if length sig \<le> 1 then sig else hd sig # CHR ''.'' # tl sig)
         @ ''e+'' @ show_nat (length ds - 1))"

definition toString_nat :: "nat \<Rightarrow> string" where
  "toString_nat d = (let c = shortest d in if c < 10 ^ 21 then show_nat c else exponent_form c)"

text \<open>\<open>String(v)\<close> for a Number \<open>v\<close>.\<close>

fun String :: "number \<Rightarrow> string" where
  "String NumNaN = ''NaN''"
| "String (NumInfinity neg) = (if neg then ''-Infinity'' else ''Infinity'')"
| "String (NumInt i) = (if i < 0 then CHR ''-'' # toString_nat (nat (- i)) else toString_nat (nat i))"

definition is_digit :: "char \<Rightarrow> bool" where
  "is_digit c = (48 \<le> (of_char c :: nat) \<and> (of_char c :: nat) \<le> 57)"

definition is_space :: "char \<Rightarrow> bool" where
  "is_space c = ((of_char c :: nat) = 32 \<or> (9 \<le> (of_char c :: nat) \<and> (of_char c :: nat) \<le> 13))"

fun digits_value :: "nat \<Rightarrow> string \<Rightarrow> nat" where
  "digits_value acc [] = acc"
| "digits_value acc (c # cs) = digits_value (10 * acc + ((of_char c :: nat) - 48)) cs"

text \<open>The Number for an integer given by its sign and magnitude: the nearest double, and
  an infinity from \<open>2^1024\<close> on.\<close>

definition to_Number :: "bool \<Rightarrow> nat \<Rightarrow> number" where
  "to_Number neg n =
     (let d = to_double n
      in if d < 2 ^ 1024 then NumInt (if neg then - int d else int d) else NumInfinity neg)"

text \<open>
  \<open>parseInt(s, 10)\<close>: leading white space is skipped, a sign is read, then the longest
  run of decimal digits; no digit gives NaN, and the integer read is rounded to a Number.
\<close>

definition parseInt :: "string \<Rightarrow> number" where
  "parseInt s =
     (let t = dropWhile is_space s;
          neg = (t \<noteq> [] \<and> hd t = CHR ''-'');
          u = (if t \<noteq> [] \<and> (hd t = CHR ''-'' \<or> hd t = CHR ''+'') then tl t else t);
          ds = takeWhile is_digit u
      in if ds = [] then NumNaN else to_Number neg (digits_value 0 ds))"

text \<open>Truthiness of an optional string: \<open>undefined\<close> and the empty string are falsy.\<close>

fun truthy_str :: "string option \<Rightarrow> bool" where
  "truthy_str None = False"
| "truthy_str (Some s) = (s \<noteq> [])"

section \<open>Stripe Rate: tiers\<close>

text \<open>
  \<open>RateTier.upTo\<close> is a Number or the string \<open>"inf"\<close>; \<open>V2RateTier.up_to\<close> is
  declared as a Number or \<open>null\<close>, and the tier sent to the API carries \<open>upTo\<close>
  unchanged, so the values of \<open>up_to\<close> are a Number, \<open>"inf"\<close> or \<open>null\<close>.
  \<open>mapV2TierToOutput\<close> replaces \<open>null\<close> by \<open>"inf"\<close> and passes every other value on.
\<close>

datatype upTo_value = UpToNum number | UpToInf

datatype up_to_value = V2Num number | V2Inf | V2Null

record RateTier =
  upTo :: upTo_value
  unitAmount :: "number option"
  flatAmount :: "number option"

record V2RateTier =
  up_to :: up_to_value
  unit_amount :: "string option"
  flat_amount :: "string option"

text \<open>The element function of \<open>apiTiers = props.tiers?.map(...)\<close> in the Rate handler.\<close>

definition apiTier :: "RateTier \<Rightarrow> V2RateTier" where
  "apiTier tier =
     \<lparr> up_to = (case upTo tier of UpToNum n \<Rightarrow> V2Num n | UpToInf \<Rightarrow> V2Inf),
       unit_amount = (case unitAmount tier of None \<Rightarrow> None | Some a \<Rightarrow> Some (String a)),
       flat_amount = (case flatAmount tier of None \<Rightarrow> None | Some a \<Rightarrow> Some (String a)) \<rparr>"

definition mapV2TierToOutput :: "V2RateTier \<Rightarrow> RateTier" where
  "mapV2TierToOutput tier =
     \<lparr> upTo = (case up_to tier of V2Null \<Rightarrow> UpToInf | V2Num n \<Rightarrow> UpToNum n | V2Inf \<Rightarrow> UpToInf),
       unitAmount = (if truthy_str (unit_amount tier) then Some (parseInt (the (unit_amount tier))) else None),
       flatAmount = (if truthy_str (flat_amount tier) then Some (parseInt (the (flat_amount tier))) else None) \<rparr>"

text \<open>An amount is a Number that holds a non-negative integer below \<open>10^21\<close>, or absent.\<close>

fun plain_amount :: "number option \<Rightarrow> bool" where
  "plain_amount None = True"
| "plain_amount (Some (NumInt i)) = (0 \<le> i \<and> i < 10 ^ 21 \<and> is_Number (NumInt i))"
| "plain_amount (Some NumNaN) = False"
| "plain_amount (Some (NumInfinity neg)) = False"

text \<open>An amount is a Number that holds a non-negative integer, or absent.\<close>

fun nonneg_amount :: "number option \<Rightarrow> bool" where
  "nonneg_amount None = True"
| "nonneg_amount (Some (NumInt i)) = (0 \<le> i \<and> is_Number (NumInt i))"
| "nonneg_amount (Some NumNaN) = False"
| "nonneg_amount (Some (NumInfinity neg)) = False"

section \<open>Errors, requests and responses\<close>

text \<open>
  A thrown value: its class (what \<open>instanceof\<close> tests), its message and the fields the
  handlers read from it (\<open>status\<close>, \<open>statusCode\<close>, \<open>code\<close>, \<open>type\<close>).
\<close>

datatype error_class = NotAnError | Error | TypeError | CloudflareApiError | NeonProjectNotFound

record js_error =
  err_class :: error_class
  message :: string
  err_status :: "nat option"
  err_statusCode :: "nat option"
  err_code :: "string option"
  err_type :: "string option"

fun instanceof_Error :: "js_error \<Rightarrow> bool" where
  "instanceof_Error e = (err_class e \<noteq> NotAnError)"

text \<open>\<open>new Error(msg)\<close>.\<close>

definition new_Error :: "string \<Rightarrow> js_error" where
  "new_Error msg = \<lparr> err_class = Error, message = msg, err_status = None, err_statusCode = None,
                      err_code = None, err_type = None \<rparr>"

datatype json = JNull | JString string | JNumber int | JBool bool | JObject "(string \<times> json) list" | JArray "json list"

datatype http_method = GET | POST | PATCH | PUT | DELETE

text \<open>A request sent to the provider; the log of a run is the list of its requests, in order.\<close>

record request =
  req_method :: http_method
  url :: string
  body :: "json option"

text \<open>A fetch response: \<open>ok\<close>, \<open>status\<close>, \<open>statusText\<close>, the text of its body and the body as parsed
  by \<open>response.json()\<close> and cast to the type the caller expects.\<close>

record 'a response =
  ok :: bool
  status :: nat
  statusText :: string
  text_body :: string
  json_body :: 'a

text \<open>
  The Cloudflare API client (\<open>cloudflare/api.ts\<close>) and \<open>handleApiError\<close>
  (\<open>cloudflare/api-error.ts\<close>) are not among the sources. The client is a record of
  its account id and of what each HTTP verb answers; \<open>handleApiError\<close> raises, and
  the error it raises is a parameter: a function of the response's status and body text
  and of the three labels it is called with.
\<close>

record ('g, 'p) CloudflareApi =
  accountId :: string
  api_get :: "string \<Rightarrow> 'g response"
  api_post :: "string \<Rightarrow> json \<Rightarrow> 'p response"
  api_patch :: "string \<Rightarrow> json \<Rightarrow> 'p response"
  api_put :: "string \<Rightarrow> json \<Rightarrow> 'p response"
  api_delete :: "string \<Rightarrow> unit response"
  handleApiError :: "nat \<Rightarrow> string \<Rightarrow> string \<Rightarrow> string \<Rightarrow> string \<Rightarrow> js_error"

section \<open>Cloudflare tunnel routes\<close>

record CloudflareRoute =
  cr_id :: string
  cr_network :: string
  cr_tunnel_id :: string
  cr_comment :: "string option"
  cr_virtual_network_id :: "string option"
  cr_created_at :: string
  cr_deleted_at :: "string option"

record result_info =
  page :: int
  per_page :: int
  total_count :: int

text \<open>\<open>CloudflareApiResponse<T>\<close> and \<open>CloudflareApiListResponse<T>\<close>: the fields read.\<close>

record 'a CloudflareApiResponse =
  result :: 'a

record 'a CloudflareApiListResponse =
  results :: "'a list"
  result_info :: result_info

type_synonym route_api = "(CloudflareRoute CloudflareApiListResponse, CloudflareRoute CloudflareApiResponse) CloudflareApi"

text \<open>The path of page \<open>p\<close> of the route list, \<open>per_page\<close> being 100.\<close>

definition routes_page_url :: "string \<Rightarrow> nat \<Rightarrow> string" where
  "routes_page_url acct p =
     ''/accounts/'' @ acct @ ''/teamnet/routes?'' @ ''page='' @ show_nat p @ ''&per_page='' @ show_nat 100"

text \<open>\<open>limit && routes.length >= limit\<close>: a limit of 0 is falsy, as no limit is.\<close>

fun limit_reached :: "int option \<Rightarrow> nat \<Rightarrow> bool" where
  "limit_reached None len = False"
| "limit_reached (Some l) len = (l \<noteq> 0 \<and> l \<le> int len)"

text \<open>\<open>xs.slice(0, k)\<close>: a negative \<open>k\<close> counts from the end.\<close>

definition slice0 :: "'a list \<Rightarrow> int \<Rightarrow> 'a list" where
  "slice0 xs k = (if k < 0 then take (nat (int (length xs) + k)) xs else take (nat k) xs)"

text \<open>
  The loop of \<open>listTunnelRoutes\<close>: \<open>routes\<close> and \<open>page\<close> are its variables, \<open>log\<close>
  the requests sent so far. The loop has no bound of its own, so it need not return.
\<close>

partial_function (option) listTunnelRoutes_loop ::
  "route_api \<Rightarrow> int option \<Rightarrow> CloudflareRoute list \<Rightarrow> nat \<Rightarrow> request list
     \<Rightarrow> ((js_error + CloudflareRoute list) \<times> request list) option"
where
  "listTunnelRoutes_loop api limit routes pg log =
     (let path = routes_page_url (accountId api) pg;
          response = api_get api path;
          log' = log @ [\<lparr> req_method = GET, url = path, body = None \<rparr>]
      in if \<not> ok response
         then Some (Inl (handleApiError api (status response) (text_body response) ''list'' ''route'' ''all''), log')
         else
           let data = json_body response;
               routes' = routes @ results data;
               resultInfo = result_info data
           in if limit_reached limit (length routes')
              then Some (Inr (slice0 routes' (the limit)), log')
              else if page resultInfo * per_page resultInfo < total_count resultInfo
              then listTunnelRoutes_loop api limit routes' (pg + 1) log'
              else Some (Inr routes', log'))"

definition listTunnelRoutes ::
  "route_api \<Rightarrow> int option \<Rightarrow> request list \<Rightarrow> ((js_error + CloudflareRoute list) \<times> request list) option" where
  "listTunnelRoutes api limit log = listTunnelRoutes_loop api limit [] 1 log"

text \<open>What the statements about \<open>listTunnelRoutes\<close> speak of: the response to page \<open>k\<close>,
  the routes of the pages 1 to \<open>n\<close> in order, the requests for the pages 1 to \<open>n\<close>, and
  whether the loop stops after page \<open>k\<close>.\<close>

definition page_response :: "route_api \<Rightarrow> nat \<Rightarrow> CloudflareRoute CloudflareApiListResponse response" where
  "page_response api k = api_get api (routes_page_url (accountId api) k)"

definition gathered :: "route_api \<Rightarrow> nat \<Rightarrow> nat \<Rightarrow> CloudflareRoute list" where
  "gathered api p n = concat (map (\<lambda>k. results (json_body (page_response api k))) [p..<Suc n])"

definition page_requests :: "route_api \<Rightarrow> nat \<Rightarrow> nat \<Rightarrow> request list" where
  "page_requests api p n =
     map (\<lambda>k. \<lparr> req_method = GET, url = routes_page_url (accountId api) k, body = None \<rparr>) [p..<Suc n]"

definition has_more :: "route_api \<Rightarrow> nat \<Rightarrow> bool" where
  "has_more api k =
     (let i = result_info (json_body (page_response api k)) in page i * per_page i < total_count i)"

definition stops_at :: "route_api \<Rightarrow> int option \<Rightarrow> nat \<Rightarrow> bool" where
  "stops_at api limit k = (limit_reached limit (length (gathered api 1 k)) \<or> \<not> has_more api k)"

text \<open>The first \<open>n\<close> pages answer \<open>ok\<close>, and page \<open>n\<close> is the first after which the loop stops.\<close>

definition first_stop :: "route_api \<Rightarrow> int option \<Rightarrow> nat \<Rightarrow> bool" where
  "first_stop api limit n =
     (1 \<le> n \<and> list_all (\<lambda>k. ok (page_response api k)) [1..<Suc n]
      \<and> list_all (\<lambda>k. \<not> stops_at api limit k) [1..<n] \<and> stops_at api limit n)"

text \<open>A limit that is supplied and positive, or no limit.\<close>

fun positive_limit :: "int option \<Rightarrow> bool" where
  "positive_limit None = True"
| "positive_limit (Some l) = (0 < l)"

text \<open>An API for the examples: two pages of one route each, a total of two routes.\<close>

definition route_a :: CloudflareRoute where
  "route_a = \<lparr> cr_id = ''a'', cr_network = ''10.0.0.0/8'', cr_tunnel_id = ''t1'', cr_comment = None,
               cr_virtual_network_id = None, cr_created_at = ''2024'', cr_deleted_at = None \<rparr>"

definition route_b :: CloudflareRoute where
  "route_b = \<lparr> cr_id = ''b'', cr_network = ''172.16.0.0/16'', cr_tunnel_id = ''t2'', cr_comment = None,
               cr_virtual_network_id = None, cr_created_at = ''2024'', cr_deleted_at = None \<rparr>"

definition no_route_response :: "CloudflareRoute CloudflareApiResponse response" where
  "no_route_response = \<lparr> ok = False, status = 500, statusText = [], text_body = [], json_body = \<lparr> result = route_a \<rparr> \<rparr>"

definition two_page_api :: route_api where
  "two_page_api =
     \<lparr> accountId = ''acct'',
       api_get = (\<lambda>u. if u = routes_page_url ''acct'' 1
                      then \<lparr> ok = True, status = 200, statusText = [], text_body = [],
                             json_body = \<lparr> results = [route_a], result_info = \<lparr> page = 1, per_page = 1, total_count = 2 \<rparr> \<rparr> \<rparr>
                      else \<lparr> ok = True, status = 200, statusText = [], text_body = [],
                             json_body = \<lparr> results = [route_b], result_info = \<lparr> page = 2, per_page = 1, total_count = 2 \<rparr> \<rparr> \<rparr>),
       api_post = (\<lambda>u b. no_route_response),
       api_patch = (\<lambda>u b. no_route_response),
       api_put = (\<lambda>u b. no_route_response),
       api_delete = (\<lambda>u. \<lparr> ok = True, status = 200, statusText = [], text_body = [], json_body = () \<rparr>),
       handleApiError = (\<lambda>st txt a t n. \<lparr> err_class = CloudflareApiError, message = txt, err_status = Some st,
                                          err_statusCode = None, err_code = None, err_type = None \<rparr>) \<rparr>"

section \<open>The handler context\<close>

datatype phase = Create | Update | Delete

text \<open>
  The scope of a resource call, as far as the handlers read it: its \<open>adopt\<close> flag and
  its req_method \<open>createPhysicalName\<close> (\<open>scope.ts\<close> is not among the sources; the req_method is
  a function of the scope, of which nothing more is assumed).
\<close>

record Scope =
  scope_adopt :: bool
  createPhysicalName :: "string \<Rightarrow> string"

record 'o Context =
  ctx_phase :: phase
  ctx_output :: "'o option"
  ctx_scope :: Scope

text \<open>
  Modelled from the spec: the context object (\<open>context.ts\<close>) with its methods
  \<open>this.destroy()\<close> and \<open>this.replace(force)\<close> is not among the sources. Following the
  spec (4.3 and 9: a handler requests replacement by invoking the replace-mutator; the
  results of a handler are the variants Created, Updated, Replace, Destroyed), an invocation
  ends in one of: an output returned, the destroyed state (\<open>return this.destroy()\<close>),
  a replacement requested (\<open>this.replace(force)\<close> in the update phase hands control to
  the runtime, which runs the handler again in the create phase), or an error thrown.
\<close>

datatype 'o outcome = Returned 'o | Destroyed | Replace bool | Thrown js_error

text \<open>\<open>a || b\<close> on optional strings.\<close>

fun or_str :: "string option \<Rightarrow> string option \<Rightarrow> string option" where
  "or_str a b = (if truthy_str a then a else b)"

text \<open>\<open>props.adopt ?? this.scope.adopt\<close>.\<close>

fun adopt_setting :: "bool option \<Rightarrow> Scope \<Rightarrow> bool" where
  "adopt_setting None sc = scope_adopt sc"
| "adopt_setting (Some a) sc = a"

section \<open>TunnelRoute\<close>

datatype tunnel_ref = TunnelString string | TunnelResource string

record TunnelRouteProps =
  trp_network :: string
  trp_tunnel :: tunnel_ref
  trp_comment :: "string option"
  trp_virtualNetworkId :: "string option"
  trp_adopt :: "bool option"
  trp_delete :: "bool option"
  trp_routeId :: "string option"

record TunnelRoute =
  tr_id :: string
  tr_network :: string
  tr_tunnelId :: string
  tr_comment :: "string option"
  tr_virtualNetworkId :: "string option"
  tr_createdAt :: string
  tr_deletedAt :: "string option"
  tr_type :: string

definition route_url :: "route_api \<Rightarrow> string \<Rightarrow> string" where
  "route_url api routeId = ''/accounts/'' @ accountId api @ ''/teamnet/routes/'' @ routeId"

definition routes_url :: "route_api \<Rightarrow> string" where
  "routes_url api = ''/accounts/'' @ accountId api @ ''/teamnet/routes''"

definition deleteRoute :: "route_api \<Rightarrow> string \<Rightarrow> request list \<Rightarrow> (js_error + unit) \<times> request list" where
  "deleteRoute api routeId log =
     (let response = api_delete api (route_url api routeId);
          log' = log @ [\<lparr> req_method = DELETE, url = route_url api routeId, body = None \<rparr>]
      in if \<not> ok response \<and> status response \<noteq> 404
         then (Inl (handleApiError api (status response) (text_body response) ''delete'' ''route'' routeId), log')
         else (Inr (), log'))"

text \<open>The optional members of a payload: present when the prop is not \<open>undefined\<close>.\<close>

fun opt_member :: "string \<Rightarrow> string option \<Rightarrow> (string \<times> json) list" where
  "opt_member k None = []"
| "opt_member k (Some v) = [(k, JString v)]"

definition createRoute ::
  "route_api \<Rightarrow> string \<Rightarrow> string \<Rightarrow> string option \<Rightarrow> string option \<Rightarrow> request list
     \<Rightarrow> (js_error + CloudflareRoute) \<times> request list" where
  "createRoute api network tunnelId comment virtualNetworkId log =
     (let payload = JObject ([(''network'', JString network), (''tunnel_id'', JString tunnelId)]
                             @ opt_member ''comment'' comment
                             @ opt_member ''virtual_network_id'' virtualNetworkId);
          response = api_post api (routes_url api) payload;
          log' = log @ [\<lparr> req_method = POST, url = routes_url api, body = Some payload \<rparr>]
      in if \<not> ok response
         then (Inl (handleApiError api (status response) (text_body response) ''create'' ''route''
                      (network @ '' -> '' @ tunnelId)), log')
         else (Inr (result (json_body response)), log'))"

definition updateRoute ::
  "route_api \<Rightarrow> string \<Rightarrow> string option \<Rightarrow> string option \<Rightarrow> request list
     \<Rightarrow> (js_error + CloudflareRoute) \<times> request list" where
  "updateRoute api routeId comment virtualNetworkId log =
     (let payload = JObject (opt_member ''comment'' comment
                             @ opt_member ''virtual_network_id'' virtualNetworkId);
          response = api_patch api (route_url api routeId) payload;
          log' = log @ [\<lparr> req_method = PATCH, url = route_url api routeId, body = Some payload \<rparr>]
      in if \<not> ok response
         then (Inl (handleApiError api (status response) (text_body response) ''update'' ''route'' routeId), log')
         else (Inr (result (json_body response)), log'))"

definition findRouteByNetworkAndTunnel ::
  "route_api \<Rightarrow> string \<Rightarrow> string \<Rightarrow> request list
     \<Rightarrow> ((js_error + CloudflareRoute option) \<times> request list) option" where
  "findRouteByNetworkAndTunnel api network tunnelId log =
     (case listTunnelRoutes api None log of
        None \<Rightarrow> None
      | Some (Inl e, log') \<Rightarrow> Some (Inl e, log')
      | Some (Inr routes, log') \<Rightarrow>
          Some (Inr (find (\<lambda>route. cr_network route = network \<and> cr_tunnel_id route = tunnelId) routes), log'))"

text \<open>The error test of the adoption branch of TunnelRoute.\<close>

definition route_exists_error :: "js_error \<Rightarrow> bool" where
  "route_exists_error error =
     (instanceof_Error error \<and>
      (sublist ''already exists'' (message error) \<or> sublist ''duplicate'' (message error)
       \<or> err_status error = Some 409))"

text \<open>The transformation of the API's route into the output.\<close>

definition route_output :: "CloudflareRoute \<Rightarrow> TunnelRoute" where
  "route_output routeData =
     \<lparr> tr_id = cr_id routeData, tr_network = cr_network routeData, tr_tunnelId = cr_tunnel_id routeData,
       tr_comment = cr_comment routeData, tr_virtualNetworkId = cr_virtual_network_id routeData,
       tr_createdAt = cr_created_at routeData, tr_deletedAt = cr_deleted_at routeData,
       tr_type = ''cloudflare::TunnelRoute'' \<rparr>"

definition adoption_failed :: "string \<Rightarrow> string \<Rightarrow> js_error" where
  "adoption_failed network tunnelId =
     new_Error (''Failed to find existing route for network '' @ [CHR 0x27] @ network @ [CHR 0x27]
                @ '' and tunnel '' @ [CHR 0x27] @ tunnelId @ [CHR 0x27] @ '' for adoption'')"

text \<open>The \<open>catch\<close> block of the create branch: \<open>error\<close> was thrown by \<open>createRoute\<close>.\<close>

definition TunnelRoute_adopt ::
  "route_api \<Rightarrow> bool \<Rightarrow> TunnelRouteProps \<Rightarrow> string \<Rightarrow> js_error \<Rightarrow> request list
     \<Rightarrow> ((js_error + CloudflareRoute) \<times> request list) option" where
  "TunnelRoute_adopt api adopt props tunnelId error log =
     (if adopt \<and> route_exists_error error
      then (case findRouteByNetworkAndTunnel api (trp_network props) tunnelId log of
              None \<Rightarrow> None
            | Some (Inl e, log') \<Rightarrow> Some (Inl e, log')
            | Some (Inr None, log') \<Rightarrow> Some (Inl (adoption_failed (trp_network props) tunnelId), log')
            | Some (Inr (Some existingRoute), log') \<Rightarrow>
                (if trp_comment props \<noteq> None \<or> trp_virtualNetworkId props \<noteq> None
                 then Some (updateRoute api (cr_id existingRoute) (trp_comment props) (trp_virtualNetworkId props) log')
                 else Some (Inr existingRoute, log')))
      else Some (Inl error, log))"

text \<open>
  The handler. Its first argument is what \<open>createCloudflareApi(props)\<close> gave: the client,
  or the error it threw. The log holds the requests the handler sends through the client.
\<close>

definition TunnelRoute ::
  "js_error + route_api \<Rightarrow> TunnelRoute Context \<Rightarrow> string \<Rightarrow> TunnelRouteProps
     \<Rightarrow> (TunnelRoute outcome \<times> request list) option" where
  "TunnelRoute created_api this ident props =
     (case created_api of
        Inl e \<Rightarrow> Some (Thrown e, [])
      | Inr api \<Rightarrow>
          let tunnelId = (case trp_tunnel props of TunnelString s \<Rightarrow> s | TunnelResource t \<Rightarrow> t);
              routeId = or_str (trp_routeId props) (map_option tr_id (ctx_output this));
              adopt = adopt_setting (trp_adopt props) (ctx_scope this)
          in if ctx_phase this = Delete
             then (if truthy_str routeId \<and> trp_delete props \<noteq> Some False
                   then (case deleteRoute api (the routeId) [] of
                           (Inl e, log) \<Rightarrow> Some (Thrown e, log)
                         | (Inr u, log) \<Rightarrow> Some (Destroyed, log))
                   else Some (Destroyed, []))
             else if ctx_phase this = Update \<and> truthy_str (map_option tr_network (ctx_output this))
                     \<and> map_option tr_network (ctx_output this) \<noteq> Some (trp_network props)
             then Some (Replace True, [])
             else if ctx_phase this = Update \<and> truthy_str (map_option tr_tunnelId (ctx_output this))
                     \<and> map_option tr_tunnelId (ctx_output this) \<noteq> Some tunnelId
             then Some (Replace True, [])
             else
               (case (if ctx_phase this = Update \<and> truthy_str routeId
                      then Some (updateRoute api (the routeId) (trp_comment props) (trp_virtualNetworkId props) [])
                      else (case createRoute api (trp_network props) tunnelId (trp_comment props)
                                   (trp_virtualNetworkId props) [] of
                              (Inr routeData, log) \<Rightarrow> Some (Inr routeData, log)
                            | (Inl error, log) \<Rightarrow> TunnelRoute_adopt api adopt props tunnelId error log)) of
                  None \<Rightarrow> None
                | Some (Inl e, log) \<Rightarrow> Some (Thrown e, log)
                | Some (Inr routeData, log) \<Rightarrow> Some (Returned (route_output routeData), log)))"

section \<open>WarpDeviceProfile\<close>

record ServiceModeV2 =
  sm_mode :: string
  sm_port :: "int option"

record SplitTunnelEntry =
  ste_address :: "string option"
  ste_host :: "string option"
  ste_description :: "string option"

record SplitTunnelConfig =
  stc_mode :: string
  stc_entries :: "SplitTunnelEntry list"

text \<open>The settings shared by the props and the output of a profile.\<close>

record WarpSettings =
  ws_description :: "string option"
  ws_match :: "string option"
  ws_precedence :: "int option"
  ws_serviceModeV2 :: "ServiceModeV2 option"
  ws_disableAutoFallback :: "bool option"
  ws_allowModeSwitch :: "bool option"
  ws_switchLocked :: "bool option"
  ws_tunnelProtocol :: "string option"
  ws_autoConnect :: "int option"
  ws_allowedToLeave :: "bool option"
  ws_captivePortal :: "int option"
  ws_supportUrl :: "string option"
  ws_excludeOfficeIps :: "bool option"
  ws_lanAllowMinutes :: "int option"
  ws_lanAllowSubnetSize :: "int option"
  ws_splitTunnel :: "SplitTunnelConfig option"

record WarpDeviceProfileProps =
  wdp_name :: "string option"
  wdp_enabled :: "bool option"
  wdp_settings :: WarpSettings
  wdp_adopt :: "bool option"
  wdp_delete :: "bool option"

record WarpDeviceProfile =
  wd_policyId :: string
  wd_name :: string
  wd_enabled :: bool
  wd_settings :: WarpSettings
  wd_createdAt :: int
  wd_modifiedAt :: int

record CloudflarePolicyResponse =
  cp_id :: string
  cp_policy_id :: "string option"

record CloudflarePolicyListItem =
  cpl_id :: string
  cpl_policy_id :: "string option"
  cpl_name :: string

text \<open>
  The client of the profile endpoints. A GET answers the policy list (\<open>data.result\<close>,
  which may be missing); the body of a POST, PATCH or PUT answer is what
  \<open>extractCloudflareResult\<close> (\<open>cloudflare/api-response.ts\<close>, not among the sources) makes
  of it: the policy, or the error it throws.
\<close>

type_synonym policy_api = "(CloudflarePolicyListItem list option, js_error + CloudflarePolicyResponse) CloudflareApi"

text \<open>The three places where the handler reads \<open>Date.now()\<close>, each at most once.\<close>

record clock =
  now_default :: int
  now_created :: int
  now_modified :: int

fun str_member :: "string \<Rightarrow> string option \<Rightarrow> (string \<times> json) list" where
  "str_member k None = []"
| "str_member k (Some v) = [(k, JString v)]"

fun num_member :: "string \<Rightarrow> int option \<Rightarrow> (string \<times> json) list" where
  "num_member k None = []"
| "num_member k (Some v) = [(k, JNumber v)]"

fun bool_member :: "string \<Rightarrow> bool option \<Rightarrow> (string \<times> json) list" where
  "bool_member k None = []"
| "bool_member k (Some v) = [(k, JBool v)]"

text \<open>\<open>...(port && { port })\<close>: the port is sent when it is truthy, that is not 0.\<close>

fun service_mode_member :: "ServiceModeV2 option \<Rightarrow> (string \<times> json) list" where
  "service_mode_member None = []"
| "service_mode_member (Some m) =
     [(''service_mode_v2'',
       JObject ((''mode'', JString (sm_mode m))
                # (case sm_port m of None \<Rightarrow> [] | Some p \<Rightarrow> if p \<noteq> 0 then [(''port'', JNumber p)] else [])))]"

text \<open>\<open>buildRequestBody(props)\<close>, \<open>props\<close> carrying the name.\<close>

definition buildRequestBody :: "string \<Rightarrow> bool option \<Rightarrow> WarpSettings \<Rightarrow> json" where
  "buildRequestBody name enabled s =
     JObject ([(''name'', JString name)]
       @ str_member ''description'' (ws_description s)
       @ str_member ''match'' (ws_match s)
       @ num_member ''precedence'' (ws_precedence s)
       @ bool_member ''enabled'' enabled
       @ service_mode_member (ws_serviceModeV2 s)
       @ bool_member ''disable_auto_fallback'' (ws_disableAutoFallback s)
       @ bool_member ''allow_mode_switch'' (ws_allowModeSwitch s)
       @ bool_member ''switch_locked'' (ws_switchLocked s)
       @ str_member ''tunnel_protocol'' (ws_tunnelProtocol s)
       @ num_member ''auto_connect'' (ws_autoConnect s)
       @ bool_member ''allowed_to_leave'' (ws_allowedToLeave s)
       @ num_member ''captive_portal'' (ws_captivePortal s)
       @ str_member ''support_url'' (ws_supportUrl s)
       @ bool_member ''exclude_office_ips'' (ws_excludeOfficeIps s)
       @ num_member ''lan_allow_minutes'' (ws_lanAllowMinutes s)
       @ num_member ''lan_allow_subnet_size'' (ws_lanAllowSubnetSize s))"

definition policy_url :: "policy_api \<Rightarrow> string" where
  "policy_url api = ''/accounts/'' @ accountId api @ ''/devices/policy''"

definition createPolicy ::
  "policy_api \<Rightarrow> string \<Rightarrow> WarpDeviceProfileProps \<Rightarrow> request list
     \<Rightarrow> (js_error + CloudflarePolicyResponse) \<times> request list" where
  "createPolicy api name props log =
     (let requestBody = buildRequestBody name (wdp_enabled props) (wdp_settings props);
          response = api_post api (policy_url api) requestBody;
          log' = log @ [\<lparr> req_method = POST, url = policy_url api, body = Some requestBody \<rparr>]
      in if \<not> ok response
         then (Inl (handleApiError api (status response) (text_body response) ''create'' ''warp_device_profile'' name), log')
         else (json_body response, log'))"

definition updatePolicy ::
  "policy_api \<Rightarrow> string \<Rightarrow> string \<Rightarrow> WarpDeviceProfileProps \<Rightarrow> request list
     \<Rightarrow> (js_error + unit) \<times> request list" where
  "updatePolicy api policyId name props log =
     (let requestBody = buildRequestBody name (wdp_enabled props) (wdp_settings props);
          response = api_patch api (policy_url api @ ''/'' @ policyId) requestBody;
          log' = log @ [\<lparr> req_method = PATCH, url = policy_url api @ ''/'' @ policyId, body = Some requestBody \<rparr>]
      in if \<not> ok response
         then (Inl (handleApiError api (status response) (text_body response) ''update'' ''warp_device_profile'' policyId), log')
         else (Inr (), log'))"

definition deletePolicy :: "policy_api \<Rightarrow> string \<Rightarrow> request list \<Rightarrow> (js_error + unit) \<times> request list" where
  "deletePolicy api policyId log =
     (let response = api_delete api (policy_url api @ ''/'' @ policyId);
          log' = log @ [\<lparr> req_method = DELETE, url = policy_url api @ ''/'' @ policyId, body = None \<rparr>]
      in if \<not> ok response \<and> status response \<noteq> 404
         then (Inl (handleApiError api (status response) (text_body response) ''delete'' ''warp_device_profile'' policyId), log')
         else (Inr (), log'))"

text \<open>\<open>findPolicyByName\<close> returns the policy id of the first policy of that name, or null.\<close>

definition findPolicyByName ::
  "policy_api \<Rightarrow> string \<Rightarrow> request list \<Rightarrow> (js_error + string option) \<times> request list" where
  "findPolicyByName api name log =
     (let u = ''/accounts/'' @ accountId api @ ''/devices/policies'';
          response = api_get api u;
          log' = log @ [\<lparr> req_method = GET, url = u, body = None \<rparr>]
      in if \<not> ok response
         then (Inl (handleApiError api (status response) (text_body response) ''list'' ''warp_device_profile'' ''all''), log')
         else (case json_body response of
                 None \<Rightarrow> (Inr None, log')
               | Some policies \<Rightarrow>
                   (case find (\<lambda>p. cpl_name p = name) policies of
                      None \<Rightarrow> (Inr None, log')
                    | Some policy \<Rightarrow>
                        (Inr (Some (case cpl_policy_id policy of Some i \<Rightarrow> i | None \<Rightarrow> cpl_id policy)), log'))))"

fun truthy_member :: "string \<Rightarrow> string option \<Rightarrow> (string \<times> json) list" where
  "truthy_member k v = (if truthy_str v then [(k, JString (the v))] else [])"

definition split_tunnel_routes :: "SplitTunnelConfig \<Rightarrow> json" where
  "split_tunnel_routes config =
     JArray (map (\<lambda>entry. JObject (truthy_member ''address'' (ste_address entry)
                                     @ truthy_member ''host'' (ste_host entry)
                                     @ truthy_member ''description'' (ste_description entry)))
                 (stc_entries config))"

definition updateSplitTunnel ::
  "policy_api \<Rightarrow> string \<Rightarrow> SplitTunnelConfig \<Rightarrow> request list \<Rightarrow> (js_error + unit) \<times> request list" where
  "updateSplitTunnel api policyId config log =
     (let routes = split_tunnel_routes config;
          incl = (stc_mode config = ''include'');
          u = policy_url api @ ''/'' @ policyId @ (if incl then ''/include'' else ''/exclude'');
          response = api_put api u routes;
          log' = log @ [\<lparr> req_method = PUT, url = u, body = Some routes \<rparr>]
      in if \<not> ok response
         then (Inl (handleApiError api (status response) (text_body response)
                      (if incl then ''update split tunnel includes'' else ''update split tunnel excludes'')
                      ''warp_device_profile'' policyId), log')
         else (Inr (), log'))"

text \<open>The error test of the adoption branch of WarpDeviceProfile.\<close>

definition profile_exists_error :: "js_error \<Rightarrow> bool" where
  "profile_exists_error error =
     (err_class error = CloudflareApiError \<and>
      (err_status error = Some 400 \<or> err_status error = Some 409) \<and>
      (sublist ''already exists'' (message error) \<or> sublist ''duplicate'' (message error)
       \<or> sublist ''precedence must be unique'' (message error)))"

definition profile_adoption_failed :: "string \<Rightarrow> js_error" where
  "profile_adoption_failed name =
     new_Error (''Failed to find existing WARP device profile '' @ [CHR 0x27] @ name @ [CHR 0x27] @ '' for adoption'')"

text \<open>\<open>props.name ?? this.output?.name ?? this.scope.createPhysicalName(id)\<close>.\<close>

definition physical_name :: "string option \<Rightarrow> string option \<Rightarrow> Scope \<Rightarrow> string \<Rightarrow> string" where
  "physical_name prop_name output_name sc ident =
     (case prop_name of
        Some n \<Rightarrow> n
      | None \<Rightarrow> (case output_name of Some n \<Rightarrow> n | None \<Rightarrow> createPhysicalName sc ident))"

text \<open>The policy id and the creation time: by update, by create, or by adoption.\<close>

definition WarpDeviceProfile_policy ::
  "policy_api \<Rightarrow> clock \<Rightarrow> WarpDeviceProfile Context \<Rightarrow> WarpDeviceProfileProps \<Rightarrow> string \<Rightarrow> bool
     \<Rightarrow> (js_error + string \<times> int) \<times> request list" where
  "WarpDeviceProfile_policy api clk this props name adopt =
     (let createdAt = (case ctx_output this of Some out \<Rightarrow> wd_createdAt out | None \<Rightarrow> now_default clk)
      in if ctx_phase this = Update \<and> truthy_str (map_option wd_policyId (ctx_output this))
         then (case updatePolicy api (wd_policyId (the (ctx_output this))) name props [] of
                 (Inl e, log) \<Rightarrow> (Inl e, log)
               | (Inr u, log) \<Rightarrow> (Inr (wd_policyId (the (ctx_output this)), createdAt), log))
         else (case createPolicy api name props [] of
                 (Inr res, log) \<Rightarrow>
                   (Inr (case cp_policy_id res of Some i \<Rightarrow> i | None \<Rightarrow> cp_id res, now_created clk), log)
               | (Inl error, log) \<Rightarrow>
                   (if adopt \<and> profile_exists_error error
                    then (case findPolicyByName api name log of
                            (Inl e, log') \<Rightarrow> (Inl e, log')
                          | (Inr None, log') \<Rightarrow> (Inl (profile_adoption_failed name), log')
                          | (Inr (Some existing), log') \<Rightarrow> (Inr (existing, createdAt), log'))
                    else (Inl error, log))))"

definition WarpDeviceProfile ::
  "js_error + policy_api \<Rightarrow> clock \<Rightarrow> WarpDeviceProfile Context \<Rightarrow> string \<Rightarrow> WarpDeviceProfileProps
     \<Rightarrow> WarpDeviceProfile outcome \<times> request list" where
  "WarpDeviceProfile created_api clk this ident props =
     (case created_api of
        Inl e \<Rightarrow> (Thrown e, [])
      | Inr api \<Rightarrow>
          let name = physical_name (wdp_name props) (map_option wd_name (ctx_output this)) (ctx_scope this) ident;
              adopt = adopt_setting (wdp_adopt props) (ctx_scope this)
          in if ctx_phase this = Delete
             then (if truthy_str (map_option wd_policyId (ctx_output this)) \<and> wdp_delete props \<noteq> Some False
                   then (case deletePolicy api (wd_policyId (the (ctx_output this))) [] of
                           (Inl e, log) \<Rightarrow> (Thrown e, log)
                         | (Inr u, log) \<Rightarrow> (Destroyed, log))
                   else (Destroyed, []))
             else if ctx_phase this = Update \<and> map_option wd_name (ctx_output this) \<noteq> Some name
             then (Replace False, [])
             else
               (case WarpDeviceProfile_policy api clk this props name adopt of
                  (Inl e, log) \<Rightarrow> (Thrown e, log)
                | (Inr (policyId, createdAt), log) \<Rightarrow>
                    (case (case ws_splitTunnel (wdp_settings props) of
                             None \<Rightarrow> (Inr (), log)
                           | Some config \<Rightarrow> updateSplitTunnel api policyId config log) of
                       (Inl e, log') \<Rightarrow> (Thrown e, log')
                     | (Inr u, log') \<Rightarrow>
                         (Returned \<lparr> wd_policyId = policyId, wd_name = name,
                                     wd_enabled = (case wdp_enabled props of Some b \<Rightarrow> b | None \<Rightarrow> True),
                                     wd_settings = wdp_settings props,
                                     wd_createdAt = createdAt, wd_modifiedAt = now_modified clk \<rparr>, log'))))"

section \<open>Stripe v2 client\<close>

text \<open>
  What the handlers of the Stripe resources leave behind: the requests sent, in order,
  and the delays waited between attempts, in milliseconds.
\<close>

record io =
  sent :: "request list"
  slept :: "nat list"

definition io0 :: io where
  "io0 = \<lparr> sent = [], slept = [] \<rparr>"

text \<open>
  One attempt of a request at the result type \<open>'a\<close>: \<open>stripe.rawRequest\<close> followed by
  the parse of the answer gives the parsed body or throws. The answer may depend on the
  requests sent before, so that a repeated request can be answered differently.
\<close>

type_synonym 'a rawRequest = "request list \<Rightarrow> request \<Rightarrow> js_error + 'a"

definition isStripeV2RetryableError :: "js_error \<Rightarrow> bool" where
  "isStripeV2RetryableError error =
     (err_status error = Some 429 \<or> err_statusCode error = Some 429
      \<or> err_code error = Some ''rate_limit'' \<or> err_type error = Some ''rate_limit_error'')"

text \<open>
  Modelled from the spec: \<open>withExponentialBackoff\<close> (\<open>util/retry.ts\<close>) is not among the
  sources. The spec leaves retry and backoff against transient provider errors to the
  handler and gives no numbers. The model reads the four arguments of the one call, in
  \<open>v2-client.ts\<close> (an operation, \<open>isStripeV2RetryableError\<close>, 5, 1000), as the name of
  the helper and the claim on it say: the operation is attempted at most \<open>maxAttempts\<close>
  times; it is attempted again only after it failed with an error that \<open>isRetryable\<close>
  accepts, after a delay that starts at \<open>initialDelayMs\<close> and doubles with each retry;
  any other failure, and the failure of the last attempt, is thrown to the caller.
  \<open>backoff_loop\<close> is the loop, its first numeric argument the retries left.
\<close>

fun backoff_loop ::
  "(io \<Rightarrow> (js_error + 'a) \<times> io) \<Rightarrow> (js_error \<Rightarrow> bool) \<Rightarrow> nat \<Rightarrow> nat \<Rightarrow> io \<Rightarrow> (js_error + 'a) \<times> io" where
  "backoff_loop operation isRetryable 0 delay s = operation s"
| "backoff_loop operation isRetryable (Suc k) delay s =
     (case operation s of
        (Inr v, s') \<Rightarrow> (Inr v, s')
      | (Inl e, s') \<Rightarrow>
          if isRetryable e
          then backoff_loop operation isRetryable k (2 * delay) (s'\<lparr> slept := slept s' @ [delay] \<rparr>)
          else (Inl e, s'))"

definition withExponentialBackoff ::
  "(io \<Rightarrow> (js_error + 'a) \<times> io) \<Rightarrow> (js_error \<Rightarrow> bool) \<Rightarrow> nat \<Rightarrow> nat \<Rightarrow> io \<Rightarrow> (js_error + 'a) \<times> io" where
  "withExponentialBackoff operation isRetryable maxAttempts initialDelayMs s =
     backoff_loop operation isRetryable (maxAttempts - 1) initialDelayMs s"

text \<open>The helper \<open>request\<close> of \<open>createStripeV2Client\<close>.\<close>

definition request_v2 ::
  "'a rawRequest \<Rightarrow> http_method \<Rightarrow> string \<Rightarrow> json option \<Rightarrow> io \<Rightarrow> (js_error + 'a) \<times> io" where
  "request_v2 raw m path b s =
     withExponentialBackoff
       (\<lambda>s. (raw (sent s) \<lparr> req_method = m, url = path, body = b \<rparr>,
              s\<lparr> sent := sent s @ [\<lparr> req_method = m, url = path, body = b \<rparr>] \<rparr>))
       isStripeV2RetryableError 5 1000 s"

text \<open>\<open>handleStripeV2DeleteError\<close>: it returns, or throws the error it was given.\<close>

definition handleStripeV2DeleteError :: "js_error \<Rightarrow> js_error + unit" where
  "handleStripeV2DeleteError error =
     (if err_code error = Some ''resource_missing'' \<or> err_status error = Some 404
         \<or> err_statusCode error = Some 404
      then Inr () else Inl error)"

definition isStripeV2ConflictError :: "js_error \<Rightarrow> bool" where
  "isStripeV2ConflictError error = (err_status error = Some 409 \<or> err_statusCode error = Some 409)"

record V2RateCard =
  v2c_id :: string
  v2c_display_name :: string
  v2c_currency :: string
  v2c_service_interval :: string
  v2c_service_interval_count :: int
  v2c_tax_behavior :: string
  v2c_lookup_key :: "string option"
  v2c_metadata :: "(string \<times> string) list option"
  v2c_created :: int
  v2c_updated :: int
  v2c_livemode :: bool

record V2Rate =
  v2r_id :: string
  v2r_rate_card :: string
  v2r_metered_item :: string
  v2r_unit_amount :: "string option"
  v2r_tiers :: "V2RateTier list option"
  v2r_tiers_mode :: "string option"
  v2r_metadata :: "(string \<times> string) list option"
  v2r_created :: int
  v2r_updated :: int
  v2r_livemode :: bool

text \<open>\<open>stripe.rawRequest\<close> at the result types of the rate card and rate endpoints.\<close>

record stripe_raw =
  raw_rate_card :: "V2RateCard rawRequest"
  raw_rate_cards :: "V2RateCard list rawRequest"
  raw_rate :: "V2Rate rawRequest"
  raw_deleted :: "unit rawRequest"

text \<open>The members \<open>rateCards\<close> and \<open>rates\<close> of the client, as far as the handlers call them.\<close>

record StripeV2Client =
  client_apiKey :: string
  rateCards_create :: "json \<Rightarrow> io \<Rightarrow> (js_error + V2RateCard) \<times> io"
  rateCards_update :: "string \<Rightarrow> json \<Rightarrow> io \<Rightarrow> (js_error + V2RateCard) \<times> io"
  rateCards_del :: "string \<Rightarrow> io \<Rightarrow> (js_error + unit) \<times> io"
  rateCards_list :: "io \<Rightarrow> (js_error + V2RateCard list) \<times> io"
  rates_create :: "string \<Rightarrow> json \<Rightarrow> io \<Rightarrow> (js_error + V2Rate) \<times> io"
  rates_update :: "string \<Rightarrow> string \<Rightarrow> json \<Rightarrow> io \<Rightarrow> (js_error + V2Rate) \<times> io"
  rates_del :: "string \<Rightarrow> string \<Rightarrow> io \<Rightarrow> (js_error + unit) \<times> io"

datatype api_key = KeyString string | KeySecret string

text \<open>
  The surroundings of \<open>createStripeV2Client\<close>: whether the import of the \<open>stripe\<close> package
  (\<open>importPeer\<close>) throws, the environment variable \<open>STRIPE_API_KEY\<close>, and the transport.
\<close>

record stripe_env =
  importPeer :: "js_error option"
  env_STRIPE_API_KEY :: "string option"
  rawRequest :: stripe_raw

definition api_key_required :: js_error where
  "api_key_required = new_Error ''Stripe API key is required. Provide it via the apiKey parameter or set the STRIPE_API_KEY environment variable.''"

text \<open>\<open>options.apiKey\<close> is truthy when it is a Secret or a string that is not empty.\<close>

fun truthy_key :: "api_key option \<Rightarrow> bool" where
  "truthy_key None = False"
| "truthy_key (Some (KeyString s)) = (s \<noteq> [])"
| "truthy_key (Some (KeySecret s)) = True"

definition createStripeV2Client :: "stripe_env \<Rightarrow> api_key option \<Rightarrow> js_error + StripeV2Client" where
  "createStripeV2Client env apiKey =
     (case importPeer env of
        Some e \<Rightarrow> Inl e
      | None \<Rightarrow>
          (case (if truthy_key apiKey
                 then Inr (case the apiKey of KeyString s \<Rightarrow> s | KeySecret s \<Rightarrow> s)
                 else if truthy_str (env_STRIPE_API_KEY env) then Inr (the (env_STRIPE_API_KEY env))
                 else Inl api_key_required) of
             Inl e \<Rightarrow> Inl e
           | Inr key \<Rightarrow>
               Inr \<lparr> client_apiKey = key,
                     rateCards_create = (\<lambda>params. request_v2 (raw_rate_card (rawRequest env)) POST ''/v2/billing/rate_cards'' (Some params)),
                     rateCards_update = (\<lambda>i params. request_v2 (raw_rate_card (rawRequest env)) POST (''/v2/billing/rate_cards/'' @ i) (Some params)),
                     rateCards_del = (\<lambda>i. request_v2 (raw_deleted (rawRequest env)) DELETE (''/v2/billing/rate_cards/'' @ i) None),
                     rateCards_list = request_v2 (raw_rate_cards (rawRequest env)) GET ''/v2/billing/rate_cards'' None,
                     rates_create = (\<lambda>rateCardId params.
                        request_v2 (raw_rate (rawRequest env)) POST (''/v2/billing/rate_cards/'' @ rateCardId @ ''/rates'') (Some params)),
                     rates_update = (\<lambda>rateCardId rateId params.
                        request_v2 (raw_rate (rawRequest env)) POST (''/v2/billing/rate_cards/'' @ rateCardId @ ''/rates/'' @ rateId) (Some params)),
                     rates_del = (\<lambda>rateCardId rateId.
                        request_v2 (raw_deleted (rawRequest env)) DELETE (''/v2/billing/rate_cards/'' @ rateCardId @ ''/rates/'' @ rateId) None) \<rparr>))"

section \<open>RateCard\<close>

record RateCardProps =
  rcp_displayName :: string
  rcp_currency :: string
  rcp_serviceInterval :: "string option"
  rcp_serviceIntervalCount :: "int option"
  rcp_taxBehavior :: "string option"
  rcp_lookupKey :: "string option"
  rcp_metadata :: "(string \<times> string) list option"
  rcp_apiKey :: "string option"
  rcp_adopt :: "bool option"

record RateCard =
  rc_id :: string
  rc_displayName :: string
  rc_currency :: string
  rc_serviceInterval :: string
  rc_serviceIntervalCount :: int
  rc_taxBehavior :: string
  rc_lookupKey :: "string option"
  rc_metadata :: "(string \<times> string) list option"
  rc_createdAt :: int
  rc_updatedAt :: int
  rc_livemode :: bool

definition mapV2RateCardToOutput :: "V2RateCard \<Rightarrow> RateCard" where
  "mapV2RateCardToOutput rateCard =
     \<lparr> rc_id = v2c_id rateCard, rc_displayName = v2c_display_name rateCard, rc_currency = v2c_currency rateCard,
       rc_serviceInterval = v2c_service_interval rateCard,
       rc_serviceIntervalCount = v2c_service_interval_count rateCard,
       rc_taxBehavior = v2c_tax_behavior rateCard, rc_lookupKey = v2c_lookup_key rateCard,
       rc_metadata = v2c_metadata rateCard, rc_createdAt = v2c_created rateCard,
       rc_updatedAt = v2c_updated rateCard, rc_livemode = v2c_livemode rateCard \<rparr>"

text \<open>Members of a JSON body: an \<open>undefined\<close> member is not sent.\<close>

fun metadata_member :: "(string \<times> string) list option \<Rightarrow> (string \<times> json) list" where
  "metadata_member None = []"
| "metadata_member (Some kv) = [(''metadata'', JObject (map (\<lambda>(k, v). (k, JString v)) kv))]"

text \<open>
  The delete branch shared by the Stripe handlers: \<open>del\<close> is the delete call of the client.
  A 404 is logged and passed over; any other error goes to \<open>handleStripeV2DeleteError\<close>.
\<close>

definition stripe_delete :: "(io \<Rightarrow> (js_error + unit) \<times> io) \<Rightarrow> io \<Rightarrow> 'o outcome \<times> io" where
  "stripe_delete del s =
     (case del s of
        (Inr u, s') \<Rightarrow> (Destroyed, s')
      | (Inl error, s') \<Rightarrow>
          if err_status error = Some 404 \<or> err_statusCode error = Some 404
          then (Destroyed, s')
          else (case handleStripeV2DeleteError error of
                  Inl e \<Rightarrow> (Thrown e, s')
                | Inr u \<Rightarrow> (Destroyed, s')))"

text \<open>The \<open>catch\<close> block of the create branch: \<open>error\<close> was thrown by \<open>rateCards.create\<close>.\<close>

definition RateCard_adopt ::
  "StripeV2Client \<Rightarrow> bool \<Rightarrow> RateCardProps \<Rightarrow> js_error \<Rightarrow> io \<Rightarrow> (js_error + V2RateCard) \<times> io" where
  "RateCard_adopt client adopt props error s =
     (if isStripeV2ConflictError error \<and> adopt \<and> truthy_str (rcp_lookupKey props)
      then (case rateCards_list client s of
              (Inl e, s') \<Rightarrow> (Inl e, s')
            | (Inr existingRateCards, s') \<Rightarrow>
                (case find (\<lambda>rc. v2c_lookup_key rc = rcp_lookupKey props) existingRateCards of
                   Some existingRateCard \<Rightarrow>
                     rateCards_update client (v2c_id existingRateCard)
                       (JObject ([(''display_name'', JString (rcp_displayName props))]
                                 @ metadata_member (rcp_metadata props))) s'
                 | None \<Rightarrow> (Inl error, s')))
      else (Inl error, s))"

definition RateCard ::
  "stripe_env \<Rightarrow> RateCard Context \<Rightarrow> string \<Rightarrow> RateCardProps \<Rightarrow> RateCard outcome \<times> io" where
  "RateCard env this ident props =
     (let adopt = adopt_setting (rcp_adopt props) (ctx_scope this)
      in case createStripeV2Client env (map_option KeySecret (rcp_apiKey props)) of
           Inl e \<Rightarrow> (Thrown e, io0)
         | Inr client \<Rightarrow>
             let serviceInterval = (case rcp_serviceInterval props of Some v \<Rightarrow> v | None \<Rightarrow> ''month'');
                 serviceIntervalCount = (case rcp_serviceIntervalCount props of Some v \<Rightarrow> v | None \<Rightarrow> 1);
                 taxBehavior = (case rcp_taxBehavior props of Some v \<Rightarrow> v | None \<Rightarrow> ''exclusive'')
             in if ctx_phase this = Delete
                then (if truthy_str (map_option rc_id (ctx_output this))
                      then stripe_delete (rateCards_del client (rc_id (the (ctx_output this)))) io0
                      else (Destroyed, io0))
                else
                  (case (if ctx_phase this = Update \<and> truthy_str (map_option rc_id (ctx_output this))
                         then rateCards_update client (rc_id (the (ctx_output this)))
                                (JObject ([(''display_name'', JString (rcp_displayName props))]
                                          @ str_member ''lookup_key'' (rcp_lookupKey props)
                                          @ metadata_member (rcp_metadata props))) io0
                         else (case rateCards_create client
                                      (JObject ([(''display_name'', JString (rcp_displayName props)),
                                                 (''currency'', JString (rcp_currency props)),
                                                 (''service_interval'', JString serviceInterval),
                                                 (''service_interval_count'', JNumber serviceIntervalCount),
                                                 (''tax_behavior'', JString taxBehavior)]
                                                @ str_member ''lookup_key'' (rcp_lookupKey props)
                                                @ metadata_member (rcp_metadata props))) io0 of
                                 (Inr rateCard, s) \<Rightarrow> (Inr rateCard, s)
                               | (Inl error, s) \<Rightarrow> RateCard_adopt client adopt props error s)) of
                     (Inl e, s) \<Rightarrow> (Thrown e, s)
                   | (Inr rateCard, s) \<Rightarrow> (Returned (mapV2RateCardToOutput rateCard), s)))"

section \<open>Rate\<close>

text \<open>A prop that is an id or a resource, which carries its id.\<close>

datatype resource_ref = RefString string | RefResource string

fun ref_id :: "resource_ref \<Rightarrow> string" where
  "ref_id (RefString s) = s"
| "ref_id (RefResource i) = i"

record RateProps =
  rp_rateCard :: resource_ref
  rp_meteredItem :: resource_ref
  rp_unitAmount :: "number option"
  rp_tiers :: "RateTier list option"
  rp_tiersMode :: "string option"
  rp_metadata :: "(string \<times> string) list option"
  rp_apiKey :: "string option"

record Rate =
  r_id :: string
  r_rateCard :: string
  r_meteredItem :: string
  r_unitAmount :: "string option"
  r_tiers :: "RateTier list option"
  r_tiersMode :: "string option"
  r_metadata :: "(string \<times> string) list option"
  r_createdAt :: int
  r_updatedAt :: int
  r_livemode :: bool

definition mapV2RateToOutput :: "V2Rate \<Rightarrow> Rate" where
  "mapV2RateToOutput rate =
     \<lparr> r_id = v2r_id rate, r_rateCard = v2r_rate_card rate, r_meteredItem = v2r_metered_item rate,
       r_unitAmount = v2r_unit_amount rate, r_tiers = map_option (map mapV2TierToOutput) (v2r_tiers rate),
       r_tiersMode = v2r_tiers_mode rate, r_metadata = v2r_metadata rate,
       r_createdAt = v2r_created rate, r_updatedAt = v2r_updated rate, r_livemode = v2r_livemode rate \<rparr>"

text \<open>The JSON of a tier sent to the API (NaN and the infinities are written as \<open>null\<close>).\<close>

fun number_json :: "number \<Rightarrow> json" where
  "number_json (NumInt i) = JNumber i"
| "number_json NumNaN = JNull"
| "number_json (NumInfinity neg) = JNull"

fun up_to_json :: "up_to_value \<Rightarrow> json" where
  "up_to_json (V2Num n) = number_json n"
| "up_to_json V2Inf = JString ''inf''"
| "up_to_json V2Null = JNull"

definition tier_json :: "V2RateTier \<Rightarrow> json" where
  "tier_json t = JObject ([(''up_to'', up_to_json (up_to t))]
                          @ str_member ''unit_amount'' (unit_amount t)
                          @ str_member ''flat_amount'' (flat_amount t))"

fun tiers_member :: "V2RateTier list option \<Rightarrow> (string \<times> json) list" where
  "tiers_member None = []"
| "tiers_member (Some ts) = [(''tiers'', JArray (map tier_json ts))]"

definition both_error :: js_error where
  "both_error = new_Error ''Cannot specify both unitAmount and tiers. Use one or the other.''"

definition neither_error :: js_error where
  "neither_error = new_Error ''Either unitAmount or tiers is required''"

definition Rate :: "stripe_env \<Rightarrow> Rate Context \<Rightarrow> string \<Rightarrow> RateProps \<Rightarrow> Rate outcome \<times> io" where
  "Rate env this ident props =
     (case createStripeV2Client env (map_option KeySecret (rp_apiKey props)) of
        Inl e \<Rightarrow> (Thrown e, io0)
      | Inr client \<Rightarrow>
          let rateCardId = ref_id (rp_rateCard props);
              meteredItemId = ref_id (rp_meteredItem props)
          in if ctx_phase this = Delete
             then (if truthy_str (map_option r_id (ctx_output this))
                      \<and> truthy_str (map_option r_rateCard (ctx_output this))
                   then stripe_delete (rates_del client (r_rateCard (the (ctx_output this)))
                                         (r_id (the (ctx_output this)))) io0
                   else (Destroyed, io0))
             else
               let hasTiers = (case rp_tiers props of None \<Rightarrow> False | Some ts \<Rightarrow> length ts > 0);
                   hasUnitAmount = (rp_unitAmount props \<noteq> None)
               in if hasTiers \<and> hasUnitAmount then (Thrown both_error, io0)
                  else if \<not> hasTiers \<and> \<not> hasUnitAmount then (Thrown neither_error, io0)
                  else
                    let apiTiers = map_option (map apiTier) (rp_tiers props);
                        unit_amount_member =
                          str_member ''unit_amount'' (if hasUnitAmount then Some (String (the (rp_unitAmount props))) else None)
                    in (case (if ctx_phase this = Update \<and> truthy_str (map_option r_id (ctx_output this))
                              then rates_update client (r_rateCard (the (ctx_output this))) (r_id (the (ctx_output this)))
                                     (JObject (unit_amount_member @ tiers_member apiTiers
                                               @ str_member ''tiers_mode'' (rp_tiersMode props)
                                               @ metadata_member (rp_metadata props))) io0
                              else rates_create client rateCardId
                                     (JObject ([(''metered_item'', JString meteredItemId)]
                                               @ unit_amount_member @ tiers_member apiTiers
                                               @ str_member ''tiers_mode'' (rp_tiersMode props)
                                               @ metadata_member (rp_metadata props))) io0) of
                          (Inl e, s) \<Rightarrow> (Thrown e, s)
                        | (Inr rate, s) \<Rightarrow> (Returned (mapV2RateToOutput rate), s)))"

section \<open>NeonProject\<close>

text \<open>
  The Neon client (\<open>neon/api.ts\<close>, the generated SDK) and the helpers of
  \<open>neon/utils.ts\<close> are not among the sources. The client is a record of what each
  of its calls answers (the data, or the error thrown); \<open>waitForOperations\<close>,
  \<open>formatConnectionUri\<close>, \<open>formatRole\<close> and the parse of a URI by \<open>new URL\<close> are
  parameters. Settings, endpoints and roles are JSON values the handler passes on.
\<close>

record neon_project =
  pj_id :: string
  pj_name :: string
  pj_created_at :: string
  pj_updated_at :: string
  pj_proxy_host :: string
  pj_region_id :: string
  pj_pg_version :: int
  pj_settings :: "json option"
  pj_default_endpoint_settings :: "json option"
  pj_history_retention_seconds :: "int option"

record neon_branch =
  nb_id :: string
  nb_data :: json

record neon_database =
  db_branch_id :: string
  db_name :: string
  db_owner_name :: string

record NeonConnectionUri =
  cu_connection_uri :: string
  cu_database :: string
  cu_host :: string
  cu_port :: int
  cu_user :: string
  cu_password :: string

record neon_created =
  cd_project :: neon_project
  cd_branch :: neon_branch
  cd_operations :: json
  cd_connection_uris :: "json list"
  cd_roles :: "json list"
  cd_databases :: "neon_database list"

record neon_deleted =
  del_error :: "js_error option"
  del_status :: nat

record parsed_url =
  url_host :: string
  url_username :: string
  url_password :: string

record NeonClient =
  listProjects :: "string \<Rightarrow> js_error + neon_project list"
  listProjectEndpoints :: "string \<Rightarrow> js_error + json list"
  listProjectBranches :: "string \<Rightarrow> string \<Rightarrow> js_error + neon_branch list"
  listProjectBranchRoles :: "string \<Rightarrow> string \<Rightarrow> js_error + json list"
  listProjectBranchDatabases :: "string \<Rightarrow> string \<Rightarrow> js_error + neon_database list"
  getConnectionUri :: "string \<Rightarrow> string \<Rightarrow> string \<Rightarrow> string \<Rightarrow> js_error + string"
  createProject :: "json \<Rightarrow> js_error + neon_created"
  getProjectBranch :: "string \<Rightarrow> string \<Rightarrow> js_error + neon_branch"
  updateProject :: "string \<Rightarrow> json \<Rightarrow> js_error + neon_project"
  deleteProject :: "string \<Rightarrow> neon_deleted"
  waitForOperations :: "json \<Rightarrow> js_error option"
  formatConnectionUri :: "json \<Rightarrow> NeonConnectionUri"
  formatRole :: "json \<Rightarrow> json"
  new_URL :: "string \<Rightarrow> js_error + parsed_url"
  settles_first :: "js_error list \<Rightarrow> nat"

text \<open>The calls of the client, which make the log of a run.\<close>

datatype neon_call =
    ListProjects string
  | ListProjectEndpoints string
  | ListProjectBranches string string
  | ListProjectBranchRoles string string
  | ListProjectBranchDatabases string string
  | GetConnectionUri string string string string
  | CreateProject json
  | GetProjectBranch string string
  | UpdateProject string json
  | DeleteProject string

record NeonProjectProps =
  npp_adopt :: "bool option"
  npp_delete :: "bool option"
  npp_name :: "string option"
  npp_region_id :: "string option"
  npp_pg_version :: "int option"
  npp_default_branch_name :: "string option"
  npp_settings :: "json option"
  npp_default_endpoint_settings :: "json option"
  npp_history_retention_seconds :: "int option"

record NeonProject =
  np_id :: string
  np_name :: string
  np_created_at :: string
  np_updated_at :: string
  np_proxy_host :: string
  np_region_id :: string
  np_pg_version :: int
  np_settings :: "json option"
  np_default_endpoint_settings :: "json option"
  np_history_retention_seconds :: "int option"
  np_connection_uris :: "NeonConnectionUri list"
  np_roles :: "json list"
  np_databases :: "neon_database list"
  np_branch :: neon_branch
  np_endpoints :: "json list"

fun json_member :: "string \<Rightarrow> json option \<Rightarrow> (string \<times> json) list" where
  "json_member k None = []"
| "json_member k (Some v) = [(k, v)]"

definition project_not_found :: "string \<Rightarrow> js_error" where
  "project_not_found name =
     \<lparr> err_class = NeonProjectNotFound, message = ''Failed to find existing project \"'' @ name @ ''\".'',
       err_status = None, err_statusCode = None, err_code = None, err_type = None \<rparr>"

text \<open>
  \<open>Promise.all\<close> rejects with the rejection that settles first. Which of several
  requests in flight together fails first is up to the network: \<open>settles_first\<close> of the
  client gives it, as an index into the rejections listed in the order of the array.
\<close>

definition first_rejection :: "NeonClient \<Rightarrow> js_error list \<Rightarrow> js_error" where
  "first_rejection api errors = errors ! min (settles_first api errors) (length errors - 1)"

fun rejections :: "(js_error + 'a) list \<Rightarrow> js_error list" where
  "rejections [] = []"
| "rejections (Inl e # rs) = e # rejections rs"
| "rejections (Inr v # rs) = rejections rs"

text \<open>\<open>fetchConnectionUri\<close> of \<open>fetchProject\<close>.\<close>

definition fetchConnectionUri :: "NeonClient \<Rightarrow> string \<Rightarrow> neon_database \<Rightarrow> js_error + NeonConnectionUri" where
  "fetchConnectionUri api project_id database =
     (case getConnectionUri api project_id (db_branch_id database) (db_name database) (db_owner_name database) of
        Inl e \<Rightarrow> Inl e
      | Inr uri \<Rightarrow>
          (case new_URL api uri of
             Inl e \<Rightarrow> Inl e
           | Inr u \<Rightarrow>
               Inr \<lparr> cu_connection_uri = uri, cu_database = db_name database, cu_host = url_host u,
                     cu_port = 5432, cu_user = url_username u, cu_password = url_password u \<rparr>))"

text \<open>\<open>Promise.all(databases.map(fetchConnectionUri))\<close>: a request for every database.\<close>

definition fetchConnectionUris ::
  "NeonClient \<Rightarrow> string \<Rightarrow> neon_database list \<Rightarrow> neon_call list
     \<Rightarrow> (js_error + NeonConnectionUri list) \<times> neon_call list" where
  "fetchConnectionUris api project_id databases log =
     (let results = map (fetchConnectionUri api project_id) databases;
          log' = log @ map (\<lambda>database. GetConnectionUri project_id (db_branch_id database) (db_name database)
                                           (db_owner_name database)) databases
      in if rejections results = [] then (Inr (map projr results), log')
         else (Inl (first_rejection api (rejections results)), log'))"

text \<open>
  \<open>fetchProject\<close>. The requests it has in flight together are logged in the order in
  which they are started; of the failures that the last \<open>Promise.all\<close> waits for
  (connection URIs, endpoints, roles) the one that settles first is reported.
\<close>

definition fetchProject ::
  "NeonClient \<Rightarrow> NeonProjectProps \<Rightarrow> string \<Rightarrow> neon_call list
     \<Rightarrow> (js_error + NeonProject) \<times> neon_call list" where
  "fetchProject api props name log =
     (let log1 = log @ [ListProjects name]
      in case listProjects api name of
           Inl e \<Rightarrow> (Inl e, log1)
         | Inr projects \<Rightarrow>
             if projects = [] then (Inl (project_not_found name), log1)
             else if length projects > 1
             then (Inl (new_Error (''Multiple projects found with name \"'' @ name
                          @ ''\". Name must be unique when referencing existing projects.'')), log1)
             else
               let project = hd projects;
                   branch_name = (case npp_default_branch_name props of Some b \<Rightarrow> b | None \<Rightarrow> ''main'');
                   log2 = log1 @ [ListProjectEndpoints (pj_id project), ListProjectBranches (pj_id project) branch_name]
               in case listProjectBranches api (pj_id project) branch_name of
                    Inl e \<Rightarrow> (Inl e, log2)
                  | Inr branches \<Rightarrow>
                      if branches = []
                      then (Inl (new_Error (''Branch '' @ branch_name @ '' does not exist in Neon project \"'' @ name
                                   @ ''\" ('' @ pj_id project @ '').'')), log2)
                      else
                        let branch = hd branches;
                            log3 = log2 @ [ListProjectBranchRoles (pj_id project) (nb_id branch),
                                           ListProjectBranchDatabases (pj_id project) (nb_id branch)]
                        in case listProjectBranchDatabases api (pj_id project) (nb_id branch) of
                             Inl e \<Rightarrow> (Inl e, log3)
                           | Inr databases \<Rightarrow>
                               (case fetchConnectionUris api (pj_id project) databases log3 of
                                  (uris, log4) \<Rightarrow>
                                    (case (uris, listProjectEndpoints api (pj_id project),
                                           listProjectBranchRoles api (pj_id project) (nb_id branch)) of
                                       (Inr connection_uris, Inr endpoints, Inr roles) \<Rightarrow>
                                         (Inr \<lparr> np_id = pj_id project, np_name = pj_name project,
                                                np_created_at = pj_created_at project,
                                                np_updated_at = pj_updated_at project,
                                                np_proxy_host = pj_proxy_host project,
                                                np_region_id = pj_region_id project,
                                                np_pg_version = pj_pg_version project,
                                                np_settings = pj_settings project,
                                                np_default_endpoint_settings = pj_default_endpoint_settings project,
                                                np_history_retention_seconds =
                                                  Some (case pj_history_retention_seconds project of
                                                          Some h \<Rightarrow> h | None \<Rightarrow> 86400),
                                                np_connection_uris = connection_uris,
                                                np_roles = map (formatRole api) roles,
                                                np_databases = databases, np_branch = branch,
                                                np_endpoints = endpoints \<rparr>, log4)
                                     | (uris', endpoints', roles') \<Rightarrow>
                                         (Inl (first_rejection api
                                                 (rejections [map_sum id (\<lambda>v. ()) uris',
                                                              map_sum id (\<lambda>v. ()) endpoints',
                                                              map_sum id (\<lambda>v. ()) roles'])), log4))))"

definition create_body :: "string \<Rightarrow> NeonProjectProps \<Rightarrow> json" where
  "create_body name props =
     JObject [(''project'',
       JObject ([(''name'', JString name)]
                @ str_member ''region_id'' (npp_region_id props)
                @ num_member ''pg_version'' (npp_pg_version props)
                @ json_member ''default_endpoint_settings'' (npp_default_endpoint_settings props)
                @ [(''branch'', JObject (str_member ''name'' (npp_default_branch_name props)))]
                @ json_member ''settings'' (npp_settings props)
                @ num_member ''history_retention_seconds'' (npp_history_retention_seconds props)))]"

definition update_body :: "string \<Rightarrow> NeonProjectProps \<Rightarrow> json" where
  "update_body name props =
     JObject [(''project'',
       JObject ([(''name'', JString name)]
                @ json_member ''settings'' (npp_settings props)
                @ json_member ''default_endpoint_settings'' (npp_default_endpoint_settings props)
                @ num_member ''history_retention_seconds'' (npp_history_retention_seconds props)))]"

text \<open>The create phase after the adoption attempt: \<open>api.createProject\<close> and what follows;
  of the two requests of its \<open>Promise.all\<close> the failure that settles first is thrown.\<close>

definition NeonProject_create ::
  "NeonClient \<Rightarrow> NeonProjectProps \<Rightarrow> string \<Rightarrow> neon_call list \<Rightarrow> NeonProject outcome \<times> neon_call list" where
  "NeonProject_create api props name log =
     (let log1 = log @ [CreateProject (create_body name props)]
      in case createProject api (create_body name props) of
           Inl e \<Rightarrow> (Thrown e, log1)
         | Inr data \<Rightarrow>
             (case waitForOperations api (cd_operations data) of
                Some e \<Rightarrow> (Thrown e, log1)
              | None \<Rightarrow>
                  let log2 = log1 @ [GetProjectBranch (pj_id (cd_project data)) (nb_id (cd_branch data)),
                                     ListProjectEndpoints (pj_id (cd_project data))]
                  in case (getProjectBranch api (pj_id (cd_project data)) (nb_id (cd_branch data)),
                           listProjectEndpoints api (pj_id (cd_project data))) of
                       (Inr branch, Inr endpoints) \<Rightarrow>
                              (Returned
                                 \<lparr> np_id = pj_id (cd_project data), np_name = pj_name (cd_project data),
                                   np_created_at = pj_created_at (cd_project data),
                                   np_updated_at = pj_updated_at (cd_project data),
                                   np_proxy_host = pj_proxy_host (cd_project data),
                                   np_region_id = pj_region_id (cd_project data),
                                   np_pg_version = pj_pg_version (cd_project data),
                                   np_settings = pj_settings (cd_project data),
                                   np_default_endpoint_settings = pj_default_endpoint_settings (cd_project data),
                                   np_history_retention_seconds = pj_history_retention_seconds (cd_project data),
                                   np_connection_uris = map (formatConnectionUri api) (cd_connection_uris data),
                                   np_roles = map (formatRole api) (cd_roles data),
                                   np_databases = cd_databases data, np_branch = branch,
                                   np_endpoints = endpoints \<rparr>, log2)
                     | (branch', endpoints') \<Rightarrow>
                         (Thrown (first_rejection api
                                    (rejections [map_sum id (\<lambda>v. ()) branch', map_sum id (\<lambda>v. ()) endpoints'])),
                          log2)))"

text \<open>
  The handler. Its first argument is what \<open>createNeonApi(props)\<close> gave: the client, or
  the error it threw. In the update phase \<open>this.output.id\<close> is read without a guard.
\<close>

definition type_error :: js_error where
  "type_error = \<lparr> err_class = TypeError,
                   message = ''Cannot read properties of undefined (reading '' @ [CHR 0x27] @ ''id'' @ [CHR 0x27] @ '')'',
                   err_status = None, err_statusCode = None, err_code = None, err_type = None \<rparr>"

definition NeonProject ::
  "js_error + NeonClient \<Rightarrow> NeonProject Context \<Rightarrow> string \<Rightarrow> NeonProjectProps \<Rightarrow> NeonProject outcome \<times> neon_call list" where
  "NeonProject created_api this ident props =
     (case created_api of
        Inl e \<Rightarrow> (Thrown e, [])
      | Inr api \<Rightarrow>
      let name = physical_name (npp_name props) (map_option np_name (ctx_output this)) (ctx_scope this) ident
      in case ctx_phase this of
           Create \<Rightarrow>
             (if npp_adopt props = Some True
              then (case fetchProject api props name [] of
                      (Inr project, log) \<Rightarrow> (Returned project, log)
                    | (Inl error, log) \<Rightarrow>
                        if err_class error \<noteq> NeonProjectNotFound then (Thrown error, log)
                        else NeonProject_create api props name log)
              else NeonProject_create api props name [])
         | Update \<Rightarrow>
             (case ctx_output this of
                None \<Rightarrow> (Thrown type_error, [])
              | Some out \<Rightarrow>
                  (case updateProject api (np_id out) (update_body name props) of
                     Inl e \<Rightarrow> (Thrown e, [UpdateProject (np_id out) (update_body name props)])
                   | Inr project \<Rightarrow>
                       (Returned (out\<lparr> np_name := pj_name project, np_updated_at := pj_updated_at project,
                                       np_proxy_host := pj_proxy_host project, np_region_id := pj_region_id project,
                                       np_pg_version := pj_pg_version project, np_settings := pj_settings project,
                                       np_default_endpoint_settings := pj_default_endpoint_settings project,
                                       np_history_retention_seconds := pj_history_retention_seconds project \<rparr>),
                        [UpdateProject (np_id out) (update_body name props)])))
         | Delete \<Rightarrow>
             (if npp_delete props \<noteq> Some False \<and> truthy_str (map_option np_id (ctx_output this))
              then (let response = deleteProject api (np_id (the (ctx_output this)));
                        log = [DeleteProject (np_id (the (ctx_output this)))]
                    in if del_error response \<noteq> None \<and> del_status response \<noteq> 404
                       then (Thrown (new_Error (''Failed to delete project: '' @ message (the (del_error response)))), log)
                       else (Destroyed, log))
              else (Destroyed, [])))"

section \<open>RedirectRule\<close>

datatype zone_ref = ZoneString string | ZoneResource string

record RedirectRuleProps =
  rrp_description :: "string option"
  rrp_zone :: zone_ref
  rrp_requestUrl :: "string option"
  rrp_expression :: "string option"
  rrp_targetUrl :: string
  rrp_statusCode :: "int option"
  rrp_preserveQueryString :: "bool option"

record CloudflareRule =
  rule_id :: string
  rule_enabled :: "bool option"
  rule_last_updated :: string

record CloudflareRuleset =
  ruleset_id :: string
  ruleset_phase :: string
  ruleset_rules :: "CloudflareRule list"

record RedirectRule =
  rr_ruleId :: string
  rr_rulesetId :: string
  rr_zoneId :: string
  rr_description :: string
  rr_requestUrl :: "string option"
  rr_expression :: "string option"
  rr_targetUrl :: string
  rr_statusCode :: int
  rr_preserveQueryString :: bool
  rr_enabled :: bool
  rr_lastUpdated :: string

type_synonym ruleset_api = "(CloudflareRuleset list CloudflareApiResponse, CloudflareRuleset CloudflareApiResponse) CloudflareApi"

text \<open>
  \<open>getZoneByDomain\<close> (\<open>cloudflare/zone.ts\<close>) is not among the sources: it is a parameter
  that gives, for a domain, the id of the zone found (or none, or the error thrown) and the
  requests it sent. \<open>convertWildcardUrlToExpression\<close> rests on the platform's URL parser
  and is a parameter too: the expression, or the error \<open>new URL\<close> throws.
\<close>

record redirect_env =
  getZoneByDomain :: "string \<Rightarrow> (js_error + string option) \<times> request list"
  convertWildcardUrlToExpression :: "string \<Rightarrow> js_error + string"

definition failed_response :: "string \<Rightarrow> 'a response \<Rightarrow> js_error" where
  "failed_response what response =
     new_Error (''Failed to '' @ what @ '': '' @ show_nat (status response) @ '' '' @ statusText response
                @ [CHR 0x0A] @ ''Response: '' @ text_body response)"

definition buildRuleBody :: "string \<Rightarrow> string \<Rightarrow> string \<Rightarrow> int \<Rightarrow> bool \<Rightarrow> json" where
  "buildRuleBody description expression targetUrl statusCode preserveQueryString =
     JObject [(''action'', JString ''redirect''), (''description'', JString description),
              (''expression'', JString expression), (''enabled'', JBool True),
              (''action_parameters'',
               JObject [(''from_value'',
                 JObject [(''status_code'', JNumber statusCode),
                          (''target_url'', JObject [(''value'', JString targetUrl)]),
                          (''preserve_query_string'', JBool preserveQueryString)])])]"

definition deleteRule :: "ruleset_api \<Rightarrow> string \<Rightarrow> string \<Rightarrow> string \<Rightarrow> request list \<Rightarrow> (js_error + unit) \<times> request list" where
  "deleteRule api zoneId rulesetId ruleId log =
     (let u = ''/zones/'' @ zoneId @ ''/rulesets/'' @ rulesetId @ ''/rules/'' @ ruleId;
          response = api_delete api u;
          log' = log @ [\<lparr> req_method = DELETE, url = u, body = None \<rparr>]
      in if \<not> ok response \<and> status response \<noteq> 404
         then (Inl (failed_response ''delete redirect rule'' response), log')
         else (Inr (), log'))"

definition updateRule ::
  "ruleset_api \<Rightarrow> string \<Rightarrow> string \<Rightarrow> string \<Rightarrow> json \<Rightarrow> request list \<Rightarrow> (js_error + CloudflareRule) \<times> request list" where
  "updateRule api zoneId rulesetId ruleId rule_body log =
     (if ruleId = [] then (Inl (new_Error ''ruleId is required for update''), log)
      else
        let u = ''/zones/'' @ zoneId @ ''/rulesets/'' @ rulesetId @ ''/rules/'' @ ruleId;
            response = api_patch api u rule_body;
            log' = log @ [\<lparr> req_method = PATCH, url = u, body = Some rule_body \<rparr>]
        in if \<not> ok response then (Inl (failed_response ''update redirect rule'' response), log')
           else (case find (\<lambda>rule. rule_id rule = ruleId) (ruleset_rules (result (json_body response))) of
                   None \<Rightarrow> (Inl (new_Error (''Updated rule '' @ ruleId @ '' not found in response'')), log')
                 | Some updatedRule \<Rightarrow> (Inr updatedRule, log')))"

definition createRule ::
  "ruleset_api \<Rightarrow> string \<Rightarrow> string \<Rightarrow> json \<Rightarrow> request list \<Rightarrow> (js_error + CloudflareRule) \<times> request list" where
  "createRule api zoneId rulesetId rule_body log =
     (let u = ''/zones/'' @ zoneId @ ''/rulesets/'' @ rulesetId @ ''/rules'';
          response = api_post api u rule_body;
          log' = log @ [\<lparr> req_method = POST, url = u, body = Some rule_body \<rparr>]
      in if \<not> ok response then (Inl (failed_response ''create redirect rule'' response), log')
         else (case ruleset_rules (result (json_body response)) of
                 [] \<Rightarrow> (Inl (new_Error ''Created rule not found in response''), log')
               | rules \<Rightarrow> (Inr (last rules), log')))"

definition getRedirectRuleset :: "ruleset_api \<Rightarrow> string \<Rightarrow> request list \<Rightarrow> string option \<times> request list" where
  "getRedirectRuleset api zoneId log =
     (let u = ''/zones/'' @ zoneId @ ''/rulesets'';
          response = api_get api u;
          log' = log @ [\<lparr> req_method = GET, url = u, body = None \<rparr>]
      in if \<not> ok response then (None, log')
         else (case find (\<lambda>ruleset. ruleset_phase ruleset = ''http_request_dynamic_redirect'')
                         (result (json_body response)) of
                 None \<Rightarrow> (None, log')
               | Some redirectRuleset \<Rightarrow>
                   (if ruleset_id redirectRuleset = [] then None else Some (ruleset_id redirectRuleset), log')))"

definition createRedirectRuleset :: "ruleset_api \<Rightarrow> string \<Rightarrow> request list \<Rightarrow> (js_error + string) \<times> request list" where
  "createRedirectRuleset api zoneId log =
     (let u = ''/zones/'' @ zoneId @ ''/rulesets'';
          b = JObject [(''name'', JString ''Zone-level redirect ruleset''),
                       (''description'', JString ''Redirect rules for the zone''),
                       (''kind'', JString ''zone''), (''phase'', JString ''http_request_dynamic_redirect'')];
          response = api_post api u b;
          log' = log @ [\<lparr> req_method = POST, url = u, body = Some b \<rparr>]
      in if \<not> ok response
         then (Inl (new_Error (''Failed to create redirect ruleset: '' @ statusText response)), log')
         else (Inr (ruleset_id (result (json_body response))), log'))"

definition getOrCreateRedirectRuleset :: "ruleset_api \<Rightarrow> string \<Rightarrow> request list \<Rightarrow> (js_error + string) \<times> request list" where
  "getOrCreateRedirectRuleset api zoneId log =
     (case getRedirectRuleset api zoneId log of
        (Some existingRulesetId, log') \<Rightarrow> (Inr existingRulesetId, log')
      | (None, log') \<Rightarrow> createRedirectRuleset api zoneId log')"

definition both_url_error :: js_error where
  "both_url_error = new_Error ''Cannot specify both requestUrl and expression. Use requestUrl for wildcard redirects or expression for dynamic redirects.''"

text \<open>\<open>Zone ${props.zone} not found\<close>; a Zone resource prints as an object.\<close>

definition zone_not_found :: "zone_ref \<Rightarrow> js_error" where
  "zone_not_found z = new_Error (''Zone '' @ (case z of ZoneString s \<Rightarrow> s | ZoneResource i \<Rightarrow> ''[object Object]'') @ '' not found'')"

text \<open>The zone id: of a resource its id, of a string with a dot the zone found for the
  domain, of any other string the string itself.\<close>

definition resolve_zone :: "redirect_env \<Rightarrow> zone_ref \<Rightarrow> (js_error + string option) \<times> request list" where
  "resolve_zone env z =
     (case z of
        ZoneResource i \<Rightarrow> (Inr (Some i), [])
      | ZoneString s \<Rightarrow> if CHR ''.'' \<in> set s then getZoneByDomain env s else (Inr (Some s), []))"

text \<open>The handler after the validation of the props.\<close>

definition RedirectRule_apply ::
  "redirect_env \<Rightarrow> ruleset_api \<Rightarrow> RedirectRule Context \<Rightarrow> RedirectRuleProps \<Rightarrow> string \<Rightarrow> string
     \<Rightarrow> request list \<Rightarrow> RedirectRule outcome \<times> request list" where
  "RedirectRule_apply env api this props description zoneId log =
     (let statusCode = (case rrp_statusCode props of Some c \<Rightarrow> c | None \<Rightarrow> 301);
          preserveQueryString = (case rrp_preserveQueryString props of Some b \<Rightarrow> b | None \<Rightarrow> True)
      in case (if truthy_str (rrp_requestUrl props)
               then convertWildcardUrlToExpression env (the (rrp_requestUrl props))
               else if truthy_str (rrp_expression props) then Inr (the (rrp_expression props))
               else Inr ''true'') of
           Inl e \<Rightarrow> (Thrown e, log)
         | Inr ruleExpression \<Rightarrow>
             let rule_body = buildRuleBody description ruleExpression (rrp_targetUrl props) statusCode preserveQueryString
             in if ctx_phase this = Update \<and> truthy_str (map_option rr_ruleId (ctx_output this))
                   \<and> truthy_str (map_option rr_rulesetId (ctx_output this))
                then (case updateRule api zoneId (rr_rulesetId (the (ctx_output this)))
                             (rr_ruleId (the (ctx_output this))) rule_body log of
                        (Inl e, log') \<Rightarrow> (Thrown e, log')
                      | (Inr updatedRule, log') \<Rightarrow>
                          (Returned \<lparr> rr_ruleId = rule_id updatedRule,
                                      rr_rulesetId = rr_rulesetId (the (ctx_output this)),
                                      rr_zoneId = zoneId, rr_description = description,
                                      rr_requestUrl = rrp_requestUrl props, rr_expression = rrp_expression props,
                                      rr_targetUrl = rrp_targetUrl props, rr_statusCode = statusCode,
                                      rr_preserveQueryString = preserveQueryString,
                                      rr_enabled = (case rule_enabled updatedRule of Some b \<Rightarrow> b | None \<Rightarrow> True),
                                      rr_lastUpdated = rule_last_updated updatedRule \<rparr>, log'))
                else (case getOrCreateRedirectRuleset api zoneId log of
                        (Inl e, log') \<Rightarrow> (Thrown e, log')
                      | (Inr rulesetId, log') \<Rightarrow>
                          (case createRule api zoneId rulesetId rule_body log' of
                             (Inl e, log'') \<Rightarrow> (Thrown e, log'')
                           | (Inr createdRule, log'') \<Rightarrow>
                               (Returned \<lparr> rr_ruleId = rule_id createdRule, rr_rulesetId = rulesetId,
                                           rr_zoneId = zoneId, rr_description = description,
                                           rr_requestUrl = rrp_requestUrl props, rr_expression = rrp_expression props,
                                           rr_targetUrl = rrp_targetUrl props, rr_statusCode = statusCode,
                                           rr_preserveQueryString = preserveQueryString,
                                           rr_enabled = (case rule_enabled createdRule of Some b \<Rightarrow> b | None \<Rightarrow> True),
                                           rr_lastUpdated = rule_last_updated createdRule \<rparr>, log''))))"

definition RedirectRule ::
  "redirect_env \<Rightarrow> js_error + ruleset_api \<Rightarrow> RedirectRule Context \<Rightarrow> string \<Rightarrow> RedirectRuleProps
     \<Rightarrow> RedirectRule outcome \<times> request list" where
  "RedirectRule env created_api this ident props =
     (case created_api of
        Inl e \<Rightarrow> (Thrown e, [])
      | Inr api \<Rightarrow>
          let description = (case rrp_description props of Some d \<Rightarrow> d
                             | None \<Rightarrow> createPhysicalName (ctx_scope this) ident)
          in case resolve_zone env (rrp_zone props) of
               (Inl e, log) \<Rightarrow> (Thrown e, log)
             | (Inr zone, log) \<Rightarrow>
                 if \<not> truthy_str zone then (Thrown (zone_not_found (rrp_zone props)), log)
                 else
                   let zoneId = the zone
                   in if ctx_phase this = Delete
                      then (if truthy_str (map_option rr_ruleId (ctx_output this))
                               \<and> truthy_str (map_option rr_rulesetId (ctx_output this))
                            then (case deleteRule api zoneId (rr_rulesetId (the (ctx_output this)))
                                         (rr_ruleId (the (ctx_output this))) log of
                                    (Inl e, log') \<Rightarrow> (Thrown e, log')
                                  | (Inr u, log') \<Rightarrow> (Destroyed, log'))
                            else (Destroyed, log))
                      else if truthy_str (rrp_requestUrl props) \<and> truthy_str (rrp_expression props)
                      then (Thrown both_url_error, log)
                      else RedirectRule_apply env api this props description zoneId log)"

section \<open>Values for the examples\<close>

definition example_scope :: Scope where
  "example_scope = \<lparr> scope_adopt = True, createPhysicalName = (\<lambda>i. ''app-'' @ i @ ''-dev'') \<rparr>"

definition api_error_of :: "nat \<Rightarrow> string \<Rightarrow> string \<Rightarrow> string \<Rightarrow> string \<Rightarrow> js_error" where
  "api_error_of st txt a t n =
     \<lparr> err_class = CloudflareApiError, message = txt, err_status = Some st,
       err_statusCode = None, err_code = None, err_type = None \<rparr>"

definition route_out :: TunnelRoute where
  "route_out = route_output route_a"

definition route_props :: TunnelRouteProps where
  "route_props = \<lparr> trp_network = ''10.0.0.0/8'', trp_tunnel = TunnelString ''t1'', trp_comment = None,
                    trp_virtualNetworkId = None, trp_adopt = None, trp_delete = None, trp_routeId = None \<rparr>"

text \<open>A route API whose DELETE answers 404, and whose POST answers 409 "already exists".\<close>

definition gone_route_api :: route_api where
  "gone_route_api =
     two_page_api \<lparr> api_delete := (\<lambda>u. \<lparr> ok = False, status = 404, statusText = ''Not Found'', text_body = [], json_body = () \<rparr>),
                    api_post := (\<lambda>u b. \<lparr> ok = False, status = 409, statusText = ''Conflict'',
                                         text_body = ''route already exists'', json_body = \<lparr> result = route_a \<rparr> \<rparr>),
                    api_patch := (\<lambda>u b. \<lparr> ok = True, status = 200, statusText = [], text_body = [],
                                          json_body = \<lparr> result = route_a \<lparr> cr_comment := Some ''new'' \<rparr> \<rparr> \<rparr>),
                    handleApiError := api_error_of \<rparr>"

definition no_settings :: WarpSettings where
  "no_settings = \<lparr> ws_description = None, ws_match = None, ws_precedence = None, ws_serviceModeV2 = None,
                    ws_disableAutoFallback = None, ws_allowModeSwitch = None, ws_switchLocked = None,
                    ws_tunnelProtocol = None, ws_autoConnect = None, ws_allowedToLeave = None,
                    ws_captivePortal = None, ws_supportUrl = None, ws_excludeOfficeIps = None,
                    ws_lanAllowMinutes = None, ws_lanAllowSubnetSize = None, ws_splitTunnel = None \<rparr>"

definition profile_props :: WarpDeviceProfileProps where
  "profile_props = \<lparr> wdp_name = None, wdp_enabled = None, wdp_settings = no_settings,
                      wdp_adopt = None, wdp_delete = None \<rparr>"

definition profile_out :: WarpDeviceProfile where
  "profile_out = \<lparr> wd_policyId = ''p1'', wd_name = ''app-eng-dev'', wd_enabled = True, wd_settings = no_settings,
                    wd_createdAt = 1, wd_modifiedAt = 1 \<rparr>"

definition example_clock :: clock where
  "example_clock = \<lparr> now_default = 5, now_created = 6, now_modified = 7 \<rparr>"

text \<open>A profile API: POST answers 409 "already exists", the list holds the profile \<open>p1\<close>
  under the name \<open>app-eng-dev\<close>, DELETE answers 404.\<close>

definition example_policy_api :: policy_api where
  "example_policy_api =
     \<lparr> accountId = ''acct'',
       api_get = (\<lambda>u. \<lparr> ok = True, status = 200, statusText = [], text_body = [],
                         json_body = Some [\<lparr> cpl_id = ''p1'', cpl_policy_id = None, cpl_name = ''app-eng-dev'' \<rparr>] \<rparr>),
       api_post = (\<lambda>u b. \<lparr> ok = False, status = 409, statusText = ''Conflict'', text_body = ''profile already exists'',
                           json_body = Inr \<lparr> cp_id = ''p0'', cp_policy_id = None \<rparr> \<rparr>),
       api_patch = (\<lambda>u b. \<lparr> ok = True, status = 200, statusText = [], text_body = [],
                            json_body = Inr \<lparr> cp_id = ''p1'', cp_policy_id = None \<rparr> \<rparr>),
       api_put = (\<lambda>u b. \<lparr> ok = True, status = 200, statusText = [], text_body = [],
                          json_body = Inr \<lparr> cp_id = ''p1'', cp_policy_id = None \<rparr> \<rparr>),
       api_delete = (\<lambda>u. \<lparr> ok = False, status = 404, statusText = ''Not Found'', text_body = [], json_body = () \<rparr>),
       handleApiError = api_error_of \<rparr>"

definition example_project :: neon_project where
  "example_project = \<lparr> pj_id = ''pj1'', pj_name = ''app-db-dev'', pj_created_at = ''2024'', pj_updated_at = ''2024'',
                        pj_proxy_host = ''h'', pj_region_id = ''aws-us-east-1'', pj_pg_version = 16,
                        pj_settings = None, pj_default_endpoint_settings = None,
                        pj_history_retention_seconds = Some 86400 \<rparr>"

definition example_branch :: neon_branch where
  "example_branch = \<lparr> nb_id = ''br1'', nb_data = JNull \<rparr>"

text \<open>A Neon client: one project \<open>pj1\<close> exists, every call succeeds, a delete answers 404.\<close>

definition example_neon :: NeonClient where
  "example_neon =
     \<lparr> listProjects = (\<lambda>search. Inr [example_project]),
       listProjectEndpoints = (\<lambda>p. Inr []),
       listProjectBranches = (\<lambda>p search. Inr [example_branch]),
       listProjectBranchRoles = (\<lambda>p b. Inr []),
       listProjectBranchDatabases = (\<lambda>p b. Inr []),
       getConnectionUri = (\<lambda>p b d r. Inr ''postgres://u:pw@h/db''),
       createProject = (\<lambda>b. Inr \<lparr> cd_project = example_project \<lparr> pj_id := ''pj2'' \<rparr>, cd_branch = example_branch,
                                    cd_operations = JNull, cd_connection_uris = [], cd_roles = [],
                                    cd_databases = [] \<rparr>),
       getProjectBranch = (\<lambda>p b. Inr example_branch),
       updateProject = (\<lambda>p b. Inr example_project),
       deleteProject = (\<lambda>p. \<lparr> del_error = Some (new_Error ''not found''), del_status = 404 \<rparr>),
       waitForOperations = (\<lambda>ops. None),
       formatConnectionUri = (\<lambda>j. \<lparr> cu_connection_uri = [], cu_database = [], cu_host = [], cu_port = 5432,
                                      cu_user = [], cu_password = [] \<rparr>),
       formatRole = (\<lambda>j. j),
       new_URL = (\<lambda>u. Inr \<lparr> url_host = ''h'', url_username = ''u'', url_password = ''pw'' \<rparr>),
       settles_first = (\<lambda>errors. 0) \<rparr>"

definition neon_props :: NeonProjectProps where
  "neon_props = \<lparr> npp_adopt = None, npp_delete = None, npp_name = None, npp_region_id = None,
                   npp_pg_version = None, npp_default_branch_name = None, npp_settings = None,
                   npp_default_endpoint_settings = None, npp_history_retention_seconds = None \<rparr>"

definition neon_out :: NeonProject where
  "neon_out = \<lparr> np_id = ''pj1'', np_name = ''app-db-dev'', np_created_at = ''2024'', np_updated_at = ''2024'',
                 np_proxy_host = ''h'', np_region_id = ''aws-us-east-1'', np_pg_version = 16, np_settings = None,
                 np_default_endpoint_settings = None, np_history_retention_seconds = Some 86400,
                 np_connection_uris = [], np_roles = [], np_databases = [], np_branch = example_branch,
                 np_endpoints = [] \<rparr>"

text \<open>The errors a Stripe delete passes over: a 404, or the code \<open>resource_missing\<close>.\<close>

definition stripe_not_found :: "js_error \<Rightarrow> bool" where
  "stripe_not_found error =
     (err_status error = Some 404 \<or> err_statusCode error = Some 404 \<or> err_code error = Some ''resource_missing'')"

definition stripe_error :: "nat \<Rightarrow> js_error" where
  "stripe_error st = \<lparr> err_class = Error, message = ''stripe'', err_status = None,
                       err_statusCode = Some st, err_code = None, err_type = None \<rparr>"

definition example_card :: V2RateCard where
  "example_card = \<lparr> v2c_id = ''rc_1'', v2c_display_name = ''Card'', v2c_currency = ''usd'',
                     v2c_service_interval = ''month'', v2c_service_interval_count = 1,
                     v2c_tax_behavior = ''exclusive'', v2c_lookup_key = Some ''k1'', v2c_metadata = None,
                     v2c_created = 1, v2c_updated = 2, v2c_livemode = False \<rparr>"

definition example_rate :: V2Rate where
  "example_rate = \<lparr> v2r_id = ''rate_1'', v2r_rate_card = ''rc_1'', v2r_metered_item = ''mi_1'',
                     v2r_unit_amount = Some ''10'', v2r_tiers = None, v2r_tiers_mode = None,
                     v2r_metadata = None, v2r_created = 1, v2r_updated = 2, v2r_livemode = False \<rparr>"

text \<open>
  A Stripe transport: creating a rate card answers 409, updating one answers the card
  \<open>rc_1\<close>, the list holds \<open>rc_1\<close> under the lookup key \<open>k1\<close>, a delete answers 404.
\<close>

definition example_stripe :: stripe_env where
  "example_stripe =
     \<lparr> importPeer = None, env_STRIPE_API_KEY = Some ''sk_test'',
       rawRequest = \<lparr> raw_rate_card = (\<lambda>h rq. if url rq = ''/v2/billing/rate_cards'' then Inl (stripe_error 409)
                                                else Inr example_card),
                      raw_rate_cards = (\<lambda>h rq. Inr [example_card]),
                      raw_rate = (\<lambda>h rq. Inr example_rate),
                      raw_deleted = (\<lambda>h rq. Inl (stripe_error 404)) \<rparr> \<rparr>"

definition card_props :: RateCardProps where
  "card_props = \<lparr> rcp_displayName = ''Card'', rcp_currency = ''usd'', rcp_serviceInterval = None,
                   rcp_serviceIntervalCount = None, rcp_taxBehavior = None, rcp_lookupKey = Some ''k1'',
                   rcp_metadata = None, rcp_apiKey = None, rcp_adopt = None \<rparr>"

definition card_out :: RateCard where
  "card_out = mapV2RateCardToOutput example_card"

definition rate_props :: RateProps where
  "rate_props = \<lparr> rp_rateCard = RefString ''rc_1'', rp_meteredItem = RefString ''mi_1'',
                   rp_unitAmount = Some (NumInt 10), rp_tiers = None, rp_tiersMode = None,
                   rp_metadata = None, rp_apiKey = None \<rparr>"

definition rate_out :: Rate where
  "rate_out = mapV2RateToOutput example_rate"

text \<open>A zone lookup that finds the zone \<open>z1\<close> with one request, and a ruleset API whose
  DELETE answers 404.\<close>

definition example_redirect_env :: redirect_env where
  "example_redirect_env =
     \<lparr> getZoneByDomain = (\<lambda>d. (Inr (Some ''z1''), [\<lparr> req_method = GET, url = ''/zones?name='' @ d, body = None \<rparr>])),
       convertWildcardUrlToExpression = (\<lambda>u. Inr (''http.host == \"'' @ u @ ''\"'')) \<rparr>"

definition example_ruleset :: CloudflareRuleset where
  "example_ruleset = \<lparr> ruleset_id = ''rs1'', ruleset_phase = ''http_request_dynamic_redirect'',
                        ruleset_rules = [\<lparr> rule_id = ''rule1'', rule_enabled = Some True, rule_last_updated = ''2024'' \<rparr>] \<rparr>"

definition example_ruleset_api :: ruleset_api where
  "example_ruleset_api =
     \<lparr> accountId = ''acct'',
       api_get = (\<lambda>u. \<lparr> ok = True, status = 200, statusText = [], text_body = [], json_body = \<lparr> result = [example_ruleset] \<rparr> \<rparr>),
       api_post = (\<lambda>u b. \<lparr> ok = True, status = 200, statusText = [], text_body = [], json_body = \<lparr> result = example_ruleset \<rparr> \<rparr>),
       api_patch = (\<lambda>u b. \<lparr> ok = True, status = 200, statusText = [], text_body = [], json_body = \<lparr> result = example_ruleset \<rparr> \<rparr>),
       api_put = (\<lambda>u b. \<lparr> ok = True, status = 200, statusText = [], text_body = [], json_body = \<lparr> result = example_ruleset \<rparr> \<rparr>),
       api_delete = (\<lambda>u. \<lparr> ok = False, status = 404, statusText = ''Not Found'', text_body = [], json_body = () \<rparr>),
       handleApiError = api_error_of \<rparr>"

definition redirect_props :: RedirectRuleProps where
  "redirect_props = \<lparr> rrp_description = None, rrp_zone = ZoneString ''example.com'',
                       rrp_requestUrl = Some ''https://*.example.com/files/*'',
                       rrp_expression = Some ''http.host eq \"a\"'', rrp_targetUrl = ''https://example.com/'',
                       rrp_statusCode = None, rrp_preserveQueryString = None \<rparr>"

definition redirect_out :: RedirectRule where
  "redirect_out = \<lparr> rr_ruleId = ''rule1'', rr_rulesetId = ''rs1'', rr_zoneId = ''z1'', rr_description = ''d'',
                     rr_requestUrl = None, rr_expression = None, rr_targetUrl = ''https://example.com/'',
                     rr_statusCode = 301, rr_preserveQueryString = True, rr_enabled = True,
                     rr_lastUpdated = ''2024'' \<rparr>"



text \<open>
  The name of a call that gives no \<open>name\<close> prop: the name recorded in the previous
  output when there is one, and otherwise the name \<open>createPhysicalName\<close> derives from
  the scope and the logical id.
\<close>

definition unnamed_name :: "string option \<Rightarrow> Scope \<Rightarrow> string \<Rightarrow> string" where
  "unnamed_name previous_name sc ident =
     (case previous_name of Some n \<Rightarrow> n | None \<Rightarrow> createPhysicalName sc ident)"

text \<open>The parameters of \<open>client.rateCards.create\<close> in the RateCard handler.\<close>

definition RateCard_create_params :: "RateCardProps \<Rightarrow> json" where
  "RateCard_create_params props =
     JObject ([(''display_name'', JString (rcp_displayName props)),
               (''currency'', JString (rcp_currency props)),
               (''service_interval'', JString (case rcp_serviceInterval props of Some v \<Rightarrow> v | None \<Rightarrow> ''month'')),
               (''service_interval_count'', JNumber (case rcp_serviceIntervalCount props of Some v \<Rightarrow> v | None \<Rightarrow> 1)),
               (''tax_behavior'', JString (case rcp_taxBehavior props of Some v \<Rightarrow> v | None \<Rightarrow> ''exclusive''))]
              @ str_member ''lookup_key'' (rcp_lookupKey props)
              @ metadata_member (rcp_metadata props))"

text \<open>The parameters of the update of an adopted rate card.\<close>

definition RateCard_adopt_params :: "RateCardProps \<Rightarrow> json" where
  "RateCard_adopt_params props =
     JObject ([(''display_name'', JString (rcp_displayName props))] @ metadata_member (rcp_metadata props))"

text \<open>The tunnel id of the props.\<close>

definition props_tunnelId :: "TunnelRouteProps \<Rightarrow> string" where
  "props_tunnelId props = (case trp_tunnel props of TunnelString s \<Rightarrow> s | TunnelResource t \<Rightarrow> t)"

text \<open>The output of a profile with the policy id \<open>policyId\<close>, built from the props.\<close>

definition profile_output :: "string \<Rightarrow> string \<Rightarrow> WarpDeviceProfileProps \<Rightarrow> int \<Rightarrow> int \<Rightarrow> WarpDeviceProfile" where
  "profile_output policyId name props createdAt modifiedAt =
     \<lparr> wd_policyId = policyId, wd_name = name,
       wd_enabled = (case wdp_enabled props of Some b \<Rightarrow> b | None \<Rightarrow> True),
       wd_settings = wdp_settings props, wd_createdAt = createdAt, wd_modifiedAt = modifiedAt \<rparr>"

section \<open>Replacement by the runtime\<close>

datatype record_status = pending | created | replacing | destroyed










text \<open>An error for the examples in which the construction of the API client throws
  (\<open>createCloudflareApi\<close> and \<open>createNeonApi\<close> are parameters; the message is an example).\<close>

definition no_credentials :: js_error where
  "no_credentials = new_Error ''no credentials for the API client''"



text \<open>Variants of the example APIs in which one request fails with status 500.\<close>

definition failed_list :: "CloudflareRoute CloudflareApiListResponse response" where
  "failed_list = \<lparr> ok = False, status = 500, statusText = [], text_body = ''unavailable'',
                    json_body = \<lparr> results = [], result_info = \<lparr> page = 1, per_page = 100, total_count = 0 \<rparr> \<rparr> \<rparr>"

definition patch_fails_route_api :: route_api where
  "patch_fails_route_api = gone_route_api \<lparr> api_patch := (\<lambda>u b. no_route_response) \<rparr>"

definition list_fails_route_api :: route_api where
  "list_fails_route_api = gone_route_api \<lparr> api_get := (\<lambda>u. failed_list) \<rparr>"

definition failed_policy :: "(js_error + CloudflarePolicyResponse) response" where
  "failed_policy = \<lparr> ok = False, status = 500, statusText = [], text_body = ''unavailable'',
                      json_body = Inr \<lparr> cp_id = [], cp_policy_id = None \<rparr> \<rparr>"

definition put_fails_policy_api :: policy_api where
  "put_fails_policy_api = example_policy_api \<lparr> api_put := (\<lambda>u b. failed_policy) \<rparr>"

definition list_fails_policy_api :: policy_api where
  "list_fails_policy_api =
     example_policy_api \<lparr> api_get := (\<lambda>u. \<lparr> ok = False, status = 500, statusText = [],
                                                text_body = ''unavailable'', json_body = None \<rparr>) \<rparr>"

text \<open>A profile API whose POST answers 409 with a message that names no conflict the
  handler knows.\<close>

definition plain_conflict_policy_api :: policy_api where
  "plain_conflict_policy_api =
     example_policy_api \<lparr> api_post := (\<lambda>u b. \<lparr> ok = False, status = 409, statusText = ''Conflict'',
                                                   text_body = ''conflict'',
                                                   json_body = Inr \<lparr> cp_id = ''p0'', cp_policy_id = None \<rparr> \<rparr>) \<rparr>"

definition update_fails_stripe :: stripe_env where
  "update_fails_stripe =
     example_stripe \<lparr> rawRequest := rawRequest example_stripe
       \<lparr> raw_rate_card := (\<lambda>h rq. Inl (stripe_error (if url rq = ''/v2/billing/rate_cards'' then 409 else 500))) \<rparr> \<rparr>"

definition list_fails_stripe :: stripe_env where
  "list_fails_stripe =
     example_stripe \<lparr> rawRequest := rawRequest example_stripe \<lparr> raw_rate_cards := (\<lambda>h rq. Inl (stripe_error 500)) \<rparr> \<rparr>"

text \<open>Props of a profile with a split tunnel.\<close>

definition split_example :: SplitTunnelConfig where
  "split_example = \<lparr> stc_mode = ''exclude'',
                      stc_entries = [\<lparr> ste_address = Some ''10.0.0.0/8'', ste_host = None, ste_description = None \<rparr>] \<rparr>"

definition tunnel_props :: WarpDeviceProfileProps where
  "tunnel_props = profile_props \<lparr> wdp_settings := no_settings \<lparr> ws_splitTunnel := Some split_example \<rparr> \<rparr>"

text \<open>A route API whose PATCH answers with another route than the one addressed.\<close>

definition other_id_route_api :: route_api where
  "other_id_route_api =
     gone_route_api \<lparr> api_patch := (\<lambda>u b. \<lparr> ok = True, status = 200, statusText = [], text_body = [],
                                           json_body = \<lparr> result = route_b \<lparr> cr_comment := Some ''new'' \<rparr> \<rparr> \<rparr>) \<rparr>"

section \<open>Decimal digits\<close>

lemma digit_cases: "d < 10 \<Longrightarrow> d \<in> {0, 1, 2, 3, 4, 5, 6, 7, 8, 9 :: nat}"
  by auto

lemma is_digit_digit_char: "d < 10 \<Longrightarrow> is_digit (digit_char d)"
  using digit_cases [of d] by (auto simp: is_digit_def)

lemma of_char_digit_char: "d < 10 \<Longrightarrow> (of_char (digit_char d) :: nat) - 48 = d"
  using digit_cases [of d] by auto

lemma show_nat_digits: "\<forall>c \<in> set (show_nat n). is_digit c"
proof (induction n rule: show_nat.induct)
  case (1 n)
  show ?case
  proof (cases "n < 10")
    case True
    then show ?thesis
      using is_digit_digit_char [of n] by (subst show_nat.simps) simp
  next
    case False
    have "is_digit (digit_char (n mod 10))"
      by (rule is_digit_digit_char) simp
    with False 1 show ?thesis
      by (subst show_nat.simps) simp
  qed
qed

lemma show_nat_nonempty: "show_nat n \<noteq> []"
  by (subst show_nat.simps) simp

lemma digits_value_append:
  "digits_value acc (xs @ [c]) = 10 * digits_value acc xs + ((of_char c :: nat) - 48)"
  by (induction xs arbitrary: acc) simp_all

lemma digits_value_show_nat: "digits_value 0 (show_nat n) = n"
proof (induction n rule: show_nat.induct)
  case (1 n)
  show ?case
  proof (cases "n < 10")
    case True
    then show ?thesis
      using of_char_digit_char [of n] by (subst show_nat.simps) simp
  next
    case False
    have "digits_value 0 (show_nat (n div 10) @ [digit_char (n mod 10)])
            = 10 * digits_value 0 (show_nat (n div 10)) + ((of_char (digit_char (n mod 10)) :: nat) - 48)"
      by (rule digits_value_append)
    also have "\<dots> = 10 * (n div 10) + n mod 10"
      using 1 False of_char_digit_char [of "n mod 10"] by simp
    also have "\<dots> = n" by simp
    finally show ?thesis
      using False by (subst show_nat.simps) simp
  qed
qed

lemma show_nat_hd_digit: "is_digit (hd (show_nat n))"
  using show_nat_digits [of n] show_nat_nonempty [of n] by (cases "show_nat n") auto

section \<open>Doubles and their shortest decimals\<close>

lemma bitlen_le: "n < 2 ^ k \<Longrightarrow> bitlen n \<le> k"
proof (induction k arbitrary: n)
  case 0
  then show ?case by (simp add: bitlen.simps)
next
  case (Suc k)
  show ?case
  proof (cases "n = 0")
    case True
    then show ?thesis by (simp add: bitlen.simps)
  next
    case False
    from Suc.prems have "n div 2 < 2 ^ k" by simp
    from Suc.IH [OF this] False show ?thesis by (subst bitlen.simps) simp
  qed
qed

lemma bitlen_upper: "n < 2 ^ bitlen n"
proof (induction n rule: bitlen.induct)
  case (1 n)
  show ?case
  proof (cases "n = 0")
    case True
    then show ?thesis by simp
  next
    case False
    with 1 have "n div 2 < 2 ^ bitlen (n div 2)" by simp
    then have "n < 2 * 2 ^ bitlen (n div 2)" by simp
    with False show ?thesis by (subst bitlen.simps) simp
  qed
qed

lemma bitlen_lower: "n \<noteq> 0 \<Longrightarrow> 2 ^ (bitlen n - 1) \<le> n"
proof (induction n rule: bitlen.induct)
  case (1 n)
  show ?case
  proof (cases "n div 2 = 0")
    case True
    with 1(2) have "n = 1" by (cases n) auto
    then show ?thesis by (simp add: bitlen.simps)
  next
    case False
    with 1 have ih: "2 ^ (bitlen (n div 2) - 1) \<le> n div 2" by simp
    from False have "bitlen (n div 2) \<noteq> 0" by (subst bitlen.simps) simp
    then have e: "bitlen n - 1 = Suc (bitlen (n div 2) - 1)"
      using 1(2) by (subst bitlen.simps) simp
    from ih have "2 * 2 ^ (bitlen (n div 2) - 1) \<le> 2 * (n div 2)" by simp
    also have "\<dots> \<le> n" by simp
    finally show ?thesis unfolding e by simp
  qed
qed

lemma to_double_small: "n < 2 ^ 53 \<Longrightarrow> to_double n = n"
  using bitlen_le [of n 53] by (simp add: to_double_def)

lemma to_double_large:
  assumes "2 ^ 53 \<le> n"
  shows "2 ^ 53 \<le> to_double n"
proof -
  let ?e = "bitlen n - 53"
  let ?q = "n div 2 ^ ?e"
  from assms have n0: "n \<noteq> 0" by auto
  have b: "53 < bitlen n"
  proof (rule ccontr)
    assume "\<not> 53 < bitlen n"
    then have "bitlen n \<le> 53" by simp
    then have "(2::nat) ^ bitlen n \<le> 2 ^ 53" by (rule power_increasing) simp
    with bitlen_upper [of n] assms show False by simp
  qed
  then have s: "bitlen n - 1 = 52 + ?e" by simp
  have "(2::nat) ^ 52 * 2 ^ ?e \<le> n"
    using bitlen_lower [OF n0] unfolding s by (simp add: power_add)
  then have q: "2 ^ 52 \<le> ?q"
    by (simp add: less_eq_div_iff_mult_less_eq)
  have e1: "(2::nat) \<le> 2 ^ ?e"
    using b self_le_power [of 2 ?e] by simp
  have "(2::nat) ^ 53 = 2 ^ 52 * 2" by simp
  also have "\<dots> \<le> ?q * 2 ^ ?e" using q e1 by (rule mult_le_mono)
  finally have l: "2 ^ 53 \<le> ?q * 2 ^ ?e" .
  have "?q * 2 ^ ?e \<le> to_double n"
    by (simp add: to_double_def Let_def)
  with l show ?thesis by simp
qed

lemma to_double_1e21: "to_double (10 ^ 21) = 10 ^ 21"
  by (simp add: to_double_def bitlen.simps)

lemma shortest_from_Suc:
  "(shortest_from d (Suc p) = (d div 10 ^ Suc p) * 10 ^ Suc p
      \<and> to_double ((d div 10 ^ Suc p) * 10 ^ Suc p) = d)
   \<or> (shortest_from d (Suc p) = (d div 10 ^ Suc p) * 10 ^ Suc p + 10 ^ Suc p
      \<and> to_double ((d div 10 ^ Suc p) * 10 ^ Suc p + 10 ^ Suc p) = d)
   \<or> shortest_from d (Suc p) = shortest_from d p"
  unfolding shortest_from.simps Let_def by presburger

lemma shortest_from_unfold:
  "shortest_from d p =
     (if p = 0 then d
      else if 0 < (d div 10 ^ p) * 10 ^ p \<and> to_double ((d div 10 ^ p) * 10 ^ p) = d
              \<and> to_double ((d div 10 ^ p) * 10 ^ p + 10 ^ p) = d
           then (if d - (d div 10 ^ p) * 10 ^ p < (d div 10 ^ p) * 10 ^ p + 10 ^ p - d then (d div 10 ^ p) * 10 ^ p
                 else if (d div 10 ^ p) * 10 ^ p + 10 ^ p - d < d - (d div 10 ^ p) * 10 ^ p
                      then (d div 10 ^ p) * 10 ^ p + 10 ^ p
                 else if even (d div 10 ^ p) then (d div 10 ^ p) * 10 ^ p else (d div 10 ^ p) * 10 ^ p + 10 ^ p)
      else if 0 < (d div 10 ^ p) * 10 ^ p \<and> to_double ((d div 10 ^ p) * 10 ^ p) = d
           then (d div 10 ^ p) * 10 ^ p
      else if to_double ((d div 10 ^ p) * 10 ^ p + 10 ^ p) = d
           then (d div 10 ^ p) * 10 ^ p + 10 ^ p
      else shortest_from d (p - 1))"
proof (cases p)
  case 0
  then show ?thesis by (simp add: shortest_from.simps)
next
  case (Suc k)
  show ?thesis
    unfolding Suc shortest_from.simps Let_def by simp
qed

lemma to_double_shortest_from:
  assumes "to_double d = d"
  shows "to_double (shortest_from d p) = d"
proof (induction p)
  case 0
  with assms show ?case by (simp add: shortest_from.simps)
next
  case (Suc p)
  with shortest_from_Suc [of d p] show ?case by metis
qed

lemma length_show_nat: "0 < k \<Longrightarrow> n < 10 ^ k \<Longrightarrow> length (show_nat n) \<le> k"
proof (induction k arbitrary: n)
  case 0
  then show ?case by simp
next
  case (Suc k)
  show ?case
  proof (cases "n < 10")
    case True
    then show ?thesis by (subst show_nat.simps) simp
  next
    case False
    with Suc.prems have k: "0 < k" by (cases k) auto
    from Suc.prems have "n div 10 < 10 ^ k" by simp
    from Suc.IH [OF k this] False show ?thesis by (subst show_nat.simps) simp
  qed
qed

lemma next_multiple_le:
  fixes d :: nat
  assumes "d < 10 ^ 21" "q \<le> 21"
  shows "(d div 10 ^ q) * 10 ^ q + 10 ^ q \<le> 10 ^ 21"
proof -
  have e: "(10 :: nat) ^ 21 = 10 ^ (21 - q) * 10 ^ q"
    using assms(2) by (simp add: power_add [symmetric])
  with assms(1) have "d div 10 ^ q < 10 ^ (21 - q)"
    by (simp add: less_mult_imp_div_less)
  then have "Suc (d div 10 ^ q) \<le> 10 ^ (21 - q)" by simp
  then have "Suc (d div 10 ^ q) * 10 ^ q \<le> 10 ^ (21 - q) * 10 ^ q"
    by (rule mult_le_mono1)
  with e show ?thesis by simp
qed

lemma shortest_from_below:
  assumes "d < 10 ^ 21" "p \<le> 21"
  shows "shortest_from d p < 10 ^ 21"
  using assms(2)
proof (induction p)
  case 0
  with assms show ?case by (simp add: shortest_from.simps)
next
  case (Suc p)
  let ?lo = "(d div 10 ^ Suc p) * 10 ^ Suc p"
  let ?hi = "?lo + 10 ^ Suc p"
  have lo: "?lo < 10 ^ 21"
  proof -
    have "?lo \<le> d" by (rule div_times_less_eq_dividend)
    from this assms(1) show ?thesis by (rule le_less_trans)
  qed
  have hi: "?hi < 10 ^ 21" if r: "to_double ?hi = d"
  proof -
    have le: "?hi \<le> 10 ^ 21" using next_multiple_le [OF assms(1) Suc.prems] .
    have "?hi \<noteq> 10 ^ 21"
    proof
      assume "?hi = 10 ^ 21"
      with r to_double_1e21 have "d = 10 ^ 21" by simp
      with assms(1) show False by simp
    qed
    with le show ?thesis by simp
  qed
  from Suc have ih: "shortest_from d p < 10 ^ 21" by simp
  from shortest_from_Suc [of d p]
  consider "shortest_from d (Suc p) = ?lo"
    | "shortest_from d (Suc p) = ?hi" "to_double ?hi = d"
    | "shortest_from d (Suc p) = shortest_from d p"
    by blast
  then show ?case
  proof cases
    case 1
    with lo show ?thesis by (simp only:)
  next
    case 2
    with hi show ?thesis by (simp only:)
  next
    case 3
    with ih show ?thesis by (simp only:)
  qed
qed

lemma shortest_below: "d < 10 ^ 21 \<Longrightarrow> shortest d < 10 ^ 21"
  unfolding shortest_def
  by (rule shortest_from_below) (simp_all add: length_show_nat)

lemma to_double_shortest: "to_double d = d \<Longrightarrow> to_double (shortest d) = d"
  unfolding shortest_def by (rule to_double_shortest_from)

lemma shortest_from_small:
  assumes "d < 2 ^ 53"
  shows "shortest_from d p = d"
proof (induction p)
  case 0
  show ?case by (simp add: shortest_from.simps)
next
  case (Suc p)
  let ?lo = "(d div 10 ^ Suc p) * 10 ^ Suc p"
  let ?hi = "?lo + 10 ^ Suc p"
  have le: "?lo \<le> d" by (rule div_times_less_eq_dividend)
  from le assms have "?lo < 2 ^ 53" by (rule le_less_trans)
  then have lo: "to_double ?lo = ?lo" by (rule to_double_small)
  have gt: "d < ?hi"
    using dividend_less_div_times [of "10 ^ Suc p" d] by (simp only: add.commute zero_less_power zero_less_numeral)
  have hi: "to_double ?hi \<noteq> d"
  proof (cases "?hi < 2 ^ 53")
    case True
    then have "to_double ?hi = ?hi" by (rule to_double_small)
    with gt show ?thesis by (simp only:)
  next
    case False
    then have "2 ^ 53 \<le> ?hi" by (rule leI)
    then have "2 ^ 53 \<le> to_double ?hi" by (rule to_double_large)
    with assms show ?thesis by linarith
  qed
  from shortest_from_Suc [of d p]
  consider "shortest_from d (Suc p) = ?lo" "to_double ?lo = d"
    | "to_double ?hi = d"
    | "shortest_from d (Suc p) = shortest_from d p"
    by blast
  then show ?case
  proof cases
    case 1
    with lo show ?thesis by (simp only:)
  next
    case 2
    with hi show ?thesis by (simp only:)
  next
    case 3
    with Suc show ?thesis by (simp only:)
  qed
qed

lemma shortest_small: "d < 2 ^ 53 \<Longrightarrow> shortest d = d"
  unfolding shortest_def by (rule shortest_from_small)

lemma below_2_1024: "(n::nat) < 10 ^ 21 \<Longrightarrow> n < 2 ^ 1024"
proof -
  assume "n < 10 ^ 21"
  also have "(10::nat) ^ 21 < 2 ^ 70" by simp
  also have "(2::nat) ^ 70 \<le> 2 ^ 1024" by (rule power_increasing) simp_all
  finally show ?thesis .
qed

section \<open>String and parseInt\<close>

lemma parseInt_show_nat: "parseInt (show_nat n) = to_Number False n"
proof -
  have d: "\<forall>c \<in> set (show_nat n). is_digit c" by (rule show_nat_digits)
  have h: "is_digit (hd (show_nat n))" by (rule show_nat_hd_digit)
  have ns: "\<not> is_space (hd (show_nat n))"
    using h by (auto simp: is_digit_def is_space_def)
  have t: "dropWhile is_space (show_nat n) = show_nat n"
    using ns show_nat_nonempty [of n] by (cases "show_nat n") auto
  have nm: "hd (show_nat n) \<noteq> CHR ''-''" "hd (show_nat n) \<noteq> CHR ''+''"
    using h by (auto simp: is_digit_def)
  have tw: "takeWhile is_digit (show_nat n) = show_nat n"
    using d by (simp add: takeWhile_eq_all_conv)
  show ?thesis
    unfolding parseInt_def Let_def t
    using nm show_nat_nonempty [of n] by (simp add: tw digits_value_show_nat)
qed

lemma String_plain:
  assumes "0 \<le> i" "i < 10 ^ 21"
  shows "String (NumInt i) = show_nat (shortest (nat i))"
proof -
  have "nat i < 10 ^ 21" using assms by (simp add: nat_less_iff)
  then have "shortest (nat i) < 10 ^ 21" by (rule shortest_below)
  then show ?thesis using assms by (simp add: toString_nat_def Let_def)
qed

lemma parseInt_String:
  assumes "0 \<le> i" "i < 10 ^ 21" "is_Number (NumInt i)"
  shows "parseInt (String (NumInt i)) = NumInt i"
proof -
  have n: "nat i < 10 ^ 21" using assms by (simp add: nat_less_iff)
  from assms have d: "to_double (nat i) = nat i" by (simp add: is_Number.simps)
  have r: "to_double (shortest (nat i)) = nat i"
    using d by (rule to_double_shortest)
  have "parseInt (String (NumInt i)) = to_Number False (shortest (nat i))"
    unfolding String_plain [OF assms(1,2)] by (rule parseInt_show_nat)
  also have "\<dots> = NumInt (int (nat i))"
    using below_2_1024 [OF n] by (simp add: to_Number_def r)
  finally show ?thesis using assms(1) by simp
qed

lemma truthy_String: "0 \<le> i \<Longrightarrow> i < 10 ^ 21 \<Longrightarrow> truthy_str (Some (String (NumInt i)))"
  by (simp only: String_plain truthy_str.simps show_nat_nonempty not_False_eq_True)

lemma amount_roundtrip:
  assumes "plain_amount a"
  shows "(if truthy_str (case a of None \<Rightarrow> None | Some x \<Rightarrow> Some (String x))
          then Some (parseInt (the (case a of None \<Rightarrow> None | Some x \<Rightarrow> Some (String x)))) else None) = a"
proof (cases a)
  case None
  then show ?thesis by simp
next
  case (Some x)
  show ?thesis
  proof (cases x)
    case (NumInt i)
    with Some assms have r: "0 \<le> i" "i < 10 ^ 21" "is_Number (NumInt i)" by simp_all
    from truthy_String [OF r(1,2)] parseInt_String [OF r] Some NumInt show ?thesis
      by (simp del: String.simps)
  next
    case NumNaN
    with Some assms show ?thesis by simp
  next
    case (NumInfinity neg)
    with Some assms show ?thesis by simp
  qed
qed

text \<open>Below \<open>2^53\<close> String writes the digits of the integer itself.\<close>

lemma String_small: "0 \<le> i \<Longrightarrow> i < 2 ^ 53 \<Longrightarrow> String (NumInt i) = show_nat (nat i)"
proof -
  assume a: "0 \<le> i" "i < 2 ^ 53"
  then have n: "nat i < 2 ^ 53" by (simp add: nat_less_iff)
  have "(2::nat) ^ 53 < 10 ^ 21" by simp
  with n have "nat i < 10 ^ 21" by (rule less_trans)
  with a n show ?thesis by (simp add: toString_nat_def shortest_small)
qed

text \<open>The amounts of the examples.\<close>

lemma shortest_2_60: "shortest 1152921504606846976 = 1152921504606847000"
proof -
  have l: "length (show_nat 1152921504606846976) = 19" by (simp add: show_nat.simps)
  show ?thesis
    unfolding shortest_def l
    by (simp add: shortest_from_unfold to_double_def bitlen.simps Let_def)
qed

lemma shortest_1e21: "shortest 1000000000000000000000 = 1000000000000000000000"
proof -
  have l: "length (show_nat 1000000000000000000000) = 22" by (simp add: show_nat.simps)
  show ?thesis
    unfolding shortest_def l
    by (simp add: shortest_from_unfold to_double_def bitlen.simps Let_def)
qed

lemma is_Number_2_60: "is_Number (NumInt 1152921504606846976)"
  by (simp add: is_Number.simps to_double_def bitlen.simps)

lemma show_nat_2_60: "show_nat 1152921504606847000 = ''1152921504606847000''"
  by (simp add: show_nat.simps)

lemma String_2_60: "String (NumInt 1152921504606846976) = ''1152921504606847000''"
  by (simp add: toString_nat_def shortest_2_60 show_nat_2_60)

lemma is_Number_small: "0 \<le> i \<Longrightarrow> i < 2 ^ 53 \<Longrightarrow> is_Number (NumInt i)"
proof -
  assume a: "0 \<le> i" "i < 2 ^ 53"
  then have n: "nat i < 2 ^ 53" by (simp add: nat_less_iff)
  then have "to_double (nat i) = nat i" by (rule to_double_small)
  moreover have "(2::nat) ^ 53 \<le> 2 ^ 1024" by (rule power_increasing) simp_all
  with n have "nat i < 2 ^ 1024" by (rule less_le_trans)
  ultimately show ?thesis using a by (simp add: is_Number.simps)
qed

section \<open>Rate tiers: from the props to the API and back\<close>

text \<open>
  C10 (as amended). For every rate tier whose unitAmount and flatAmount are absent or
  non-negative integers below \<open>10^21\<close>, converting the tier to its API form (amounts
  stringified by String, upTo passed through) and mapping the result back through
  mapV2TierToOutput yields the original tier; an \<open>up_to\<close> of null maps to "inf".
\<close>

theorem tier_roundtrip:
  fixes tier :: RateTier
  shows "(plain_amount (unitAmount tier) \<and> plain_amount (flatAmount tier)
            \<longrightarrow> mapV2TierToOutput (apiTier tier) = tier)
         \<and> upTo (mapV2TierToOutput \<lparr> up_to = V2Null, unit_amount = ua, flat_amount = fa \<rparr>) = UpToInf"
proof -
  have "mapV2TierToOutput (apiTier tier) = tier"
    if u: "plain_amount (unitAmount tier)" and f: "plain_amount (flatAmount tier)"
  proof -
    have 1: "upTo (mapV2TierToOutput (apiTier tier)) = upTo tier"
      by (simp add: mapV2TierToOutput_def apiTier_def split: upTo_value.splits)
    have 2: "unitAmount (mapV2TierToOutput (apiTier tier)) = unitAmount tier"
      using amount_roundtrip [OF u] by (auto simp: mapV2TierToOutput_def apiTier_def split: if_splits)
    have 3: "flatAmount (mapV2TierToOutput (apiTier tier)) = flatAmount tier"
      using amount_roundtrip [OF f] by (auto simp: mapV2TierToOutput_def apiTier_def split: if_splits)
    from 1 2 3 show ?thesis by simp
  qed
  then show ?thesis by (simp add: mapV2TierToOutput_def)
qed

theorem tier_roundtrip_witness:
  "mapV2TierToOutput (apiTier \<lparr> upTo = UpToNum (NumInt 100), unitAmount = Some (NumInt 500), flatAmount = Some (NumInt 0) \<rparr>)
     = \<lparr> upTo = UpToNum (NumInt 100), unitAmount = Some (NumInt 500), flatAmount = Some (NumInt 0) \<rparr>
   \<and> apiTier \<lparr> upTo = UpToInf, unitAmount = Some (NumInt (2 ^ 60)), flatAmount = None \<rparr>
     = \<lparr> up_to = V2Inf, unit_amount = Some ''1152921504606847000'', flat_amount = None \<rparr>
   \<and> mapV2TierToOutput \<lparr> up_to = V2Inf, unit_amount = Some ''1152921504606847000'', flat_amount = None \<rparr>
     = \<lparr> upTo = UpToInf, unitAmount = Some (NumInt (2 ^ 60)), flatAmount = None \<rparr>"
proof -
  let ?small = "\<lparr> upTo = UpToNum (NumInt 100), unitAmount = Some (NumInt 500), flatAmount = Some (NumInt 0) \<rparr>"
  let ?large = "\<lparr> upTo = UpToInf, unitAmount = Some (NumInt (2 ^ 60)), flatAmount = None \<rparr>"
  have h1: "plain_amount (unitAmount ?small) \<and> plain_amount (flatAmount ?small)"
    using is_Number_small [of 500] is_Number_small [of 0] by simp
  have h2: "plain_amount (unitAmount ?large) \<and> plain_amount (flatAmount ?large)"
    by (simp add: is_Number_2_60)
  note w1 = tier_roundtrip [of ?small, THEN conjunct1, rule_format, OF h1]
  note w2 = tier_roundtrip [of ?large, THEN conjunct1, rule_format, OF h2]
  have a: "apiTier ?large = \<lparr> up_to = V2Inf, unit_amount = Some ''1152921504606847000'', flat_amount = None \<rparr>"
    by (simp add: apiTier_def String_2_60 del: String.simps)
  from w2 have "mapV2TierToOutput (apiTier ?large) = ?large" .
  then have b: "mapV2TierToOutput \<lparr> up_to = V2Inf, unit_amount = Some ''1152921504606847000'', flat_amount = None \<rparr>
                  = ?large"
    unfolding a .
  from w1 a b show ?thesis by blast
qed

text \<open>
  The claim as stated fails for the amount \<open>10^21\<close>: String gives \<open>"1e+21"\<close>, which
  parseInt reads as 1.
\<close>

lemma show_nat_1e21: "show_nat 1000000000000000000000 = ''1000000000000000000000''"
  by (simp add: show_nat.simps)

lemma exponent_form_1e21: "exponent_form 1000000000000000000000 = ''1e+21''"
  by (simp add: exponent_form_def show_nat_1e21 show_nat.simps)

lemma parseInt_1e21: "parseInt ''1e+21'' = NumInt 1"
  by (simp add: parseInt_def is_space_def is_digit_def to_Number_def to_double_small)

lemma is_Number_1e21: "is_Number (NumInt 1000000000000000000000)"
  by (simp add: is_Number.simps to_double_def bitlen.simps)

lemma String_1e21: "String (NumInt 1000000000000000000000) = ''1e+21''"
  by (simp add: toString_nat_def shortest_1e21 exponent_form_1e21)

theorem tier_roundtrip_counterexample:
  "nonneg_amount (Some (NumInt (10 ^ 21))) \<and>
   String (NumInt (10 ^ 21)) = ''1e+21'' \<and>
   mapV2TierToOutput (apiTier \<lparr> upTo = UpToInf, unitAmount = Some (NumInt (10 ^ 21)), flatAmount = None \<rparr>)
     = \<lparr> upTo = UpToInf, unitAmount = Some (NumInt 1), flatAmount = None \<rparr>"
  by (simp add: mapV2TierToOutput_def apiTier_def is_Number_1e21 String_1e21 parseInt_1e21 del: String.simps)

section \<open>listTunnelRoutes: pagination\<close>

lemma gathered_step:
  "p \<le> n \<Longrightarrow> gathered api p n = results (json_body (page_response api p)) @ gathered api (Suc p) n"
  by (simp add: gathered_def upt_conv_Cons del: upt_Suc)

lemma gathered_single: "gathered api p p = results (json_body (page_response api p))"
  by (simp add: gathered_def)

lemma page_requests_step:
  "p \<le> n \<Longrightarrow> page_requests api p n
     = \<lparr> req_method = GET, url = routes_page_url (accountId api) p, body = None \<rparr> # page_requests api (Suc p) n"
  by (simp add: page_requests_def upt_conv_Cons del: upt_Suc)

lemma page_requests_single:
  "page_requests api p p = [\<lparr> req_method = GET, url = routes_page_url (accountId api) p, body = None \<rparr>]"
  by (simp add: page_requests_def)

lemma listTunnelRoutes_loop_run:
  assumes "p \<le> n"
    and "\<forall>k. p \<le> k \<and> k \<le> n \<longrightarrow> ok (page_response api k)"
    and "\<forall>k. p \<le> k \<and> k < n \<longrightarrow>
           \<not> limit_reached limit (length (routes @ gathered api p k)) \<and> has_more api k"
    and "limit_reached limit (length (routes @ gathered api p n)) \<or> \<not> has_more api n"
  shows "listTunnelRoutes_loop api limit routes p log =
           Some (Inr (if limit_reached limit (length (routes @ gathered api p n))
                      then slice0 (routes @ gathered api p n) (the limit)
                      else routes @ gathered api p n),
                 log @ page_requests api p n)"
  using assms
proof (induction "n - p" arbitrary: p routes log)
  case 0
  then have pn: "p = n" by simp
  from 0(3) pn have okn: "ok (page_response api n)" by simp
  from 0(5) pn have st: "limit_reached limit (length (routes @ gathered api n n)) \<or> \<not> has_more api n" by simp
  show ?case
    unfolding pn
    apply (subst listTunnelRoutes_loop.simps)
    using okn st
    apply (simp add: Let_def gathered_single page_requests_single page_response_def [symmetric])
    apply (auto simp: has_more_def Let_def)
    done
next
  case (Suc d)
  then have lt: "p < n" and le: "Suc p \<le> n" and d: "d = n - Suc p" by simp_all
  from Suc(4) lt have okp: "ok (page_response api p)" by simp
  from Suc(5) lt have nl: "\<not> limit_reached limit (length (routes @ gathered api p p))"
    and hm: "has_more api p" by simp_all
  let ?r = "routes @ results (json_body (page_response api p))"
  let ?l = "log @ [\<lparr> req_method = GET, url = routes_page_url (accountId api) p, body = None \<rparr>]"
  have g: "\<And>k. p \<le> k \<Longrightarrow> routes @ gathered api p k = ?r @ gathered api (Suc p) k"
    by (simp add: gathered_step)
  have ih: "listTunnelRoutes_loop api limit ?r (Suc p) ?l =
           Some (Inr (if limit_reached limit (length (?r @ gathered api (Suc p) n))
                      then slice0 (?r @ gathered api (Suc p) n) (the limit)
                      else ?r @ gathered api (Suc p) n),
                 ?l @ page_requests api (Suc p) n)"
  proof (rule Suc(1) [OF d le])
    show "\<forall>k. Suc p \<le> k \<and> k \<le> n \<longrightarrow> ok (page_response api k)" using Suc(4) by simp
    show "\<forall>k. Suc p \<le> k \<and> k < n \<longrightarrow>
           \<not> limit_reached limit (length (?r @ gathered api (Suc p) k)) \<and> has_more api k"
    proof (intro allI impI)
      fix k assume k: "Suc p \<le> k \<and> k < n"
      then have "p \<le> k \<and> k < n" by simp
      with Suc(5) have "\<not> limit_reached limit (length (routes @ gathered api p k)) \<and> has_more api k" by blast
      with g [of k] k show "\<not> limit_reached limit (length (?r @ gathered api (Suc p) k)) \<and> has_more api k"
        by simp
    qed
    show "limit_reached limit (length (?r @ gathered api (Suc p) n)) \<or> \<not> has_more api n"
      using Suc(6) g [of n] lt by simp
  qed
  have step: "listTunnelRoutes_loop api limit routes p log = listTunnelRoutes_loop api limit ?r (Suc p) ?l"
    apply (subst listTunnelRoutes_loop.simps)
    using okp nl hm
    apply (simp add: Let_def gathered_single page_response_def [symmetric])
    apply (simp add: has_more_def Let_def)
    done
  show ?case
    unfolding step ih using g [of n] lt by (simp add: page_requests_step)
qed


lemma take_slice0: "0 < l \<Longrightarrow> slice0 xs l = take (nat l) xs"
  by (simp add: slice0_def)

lemma listTunnelRoutes_run:
  assumes "first_stop api limit n"
  shows "listTunnelRoutes api limit log =
           Some (Inr (if limit_reached limit (length (gathered api 1 n))
                      then slice0 (gathered api 1 n) (the limit)
                      else gathered api 1 n),
                 log @ page_requests api 1 n)"
proof -
  from assms have n: "1 \<le> n"
    and oks: "\<forall>k. 1 \<le> k \<and> k \<le> n \<longrightarrow> ok (page_response api k)"
    and cont: "\<forall>k. 1 \<le> k \<and> k < n \<longrightarrow> \<not> stops_at api limit k"
    and stop: "stops_at api limit n"
    by (auto simp: first_stop_def list_all_iff)
  have run: "listTunnelRoutes_loop api limit [] 1 log =
           Some (Inr (if limit_reached limit (length ([] @ gathered api 1 n))
                      then slice0 ([] @ gathered api 1 n) (the limit)
                      else [] @ gathered api 1 n),
                 log @ page_requests api 1 n)"
  proof (rule listTunnelRoutes_loop_run [OF n])
    show "\<forall>k. 1 \<le> k \<and> k \<le> n \<longrightarrow> ok (page_response api k)" by (rule oks)
    show "\<forall>k. 1 \<le> k \<and> k < n \<longrightarrow>
           \<not> limit_reached limit (length ([] @ gathered api 1 k)) \<and> has_more api k"
      using cont by (simp add: stops_at_def)
    show "limit_reached limit (length ([] @ gathered api 1 n)) \<or> \<not> has_more api n"
      using stop by (simp add: stops_at_def)
  qed
  then show ?thesis by (simp add: listTunnelRoutes_def)
qed

text \<open>
  What the loop does when page \<open>n\<close> is the first page after which it stops: it requests
  the pages 1 to \<open>n\<close> (each with \<open>per_page=100\<close>), in order and no other, and returns the
  concatenation of their results in API order: with a positive limit \<open>L\<close> the first
  \<open>L\<close> of them (all of them when there are fewer), the loop stopping as soon as at
  least \<open>L\<close> routes are gathered or \<open>page * per_page \<ge> total_count\<close>; without a
  limit all of them, the loop stopping exactly when \<open>page * per_page \<ge> total_count\<close>.
\<close>

lemma listTunnelRoutes_positive_limit:
  assumes "first_stop api limit n" and "positive_limit limit"
  shows "listTunnelRoutes api limit log =
           Some (Inr (case limit of None \<Rightarrow> gathered api 1 n | Some l \<Rightarrow> take (nat l) (gathered api 1 n)),
                 log @ page_requests api 1 n)"
proof (cases limit)
  case None
  then show ?thesis using listTunnelRoutes_run [OF assms(1), of log] by simp
next
  case (Some l)
  with assms(2) have l: "0 < l" by simp
  show ?thesis
    using listTunnelRoutes_run [OF assms(1), of log] Some l by (auto simp: take_slice0)
qed

lemma url1: "routes_page_url ''acct'' (Suc 0) = ''/accounts/acct/teamnet/routes?page=1&per_page=100''"
  by (simp add: routes_page_url_def show_nat.simps)

lemma url2: "routes_page_url ''acct'' 2 = ''/accounts/acct/teamnet/routes?page=2&per_page=100''"
  by (simp add: routes_page_url_def show_nat.simps)

lemma upt_1_2: "[1..<Suc 2] = [Suc 0, 2]" "[1..<2] = [Suc 0]"
  by (simp_all add: upt_rec)

lemma two_page_get1: "page_response two_page_api (Suc 0) =
   \<lparr> ok = True, status = 200, statusText = [], text_body = [],
     json_body = \<lparr> results = [route_a], result_info = \<lparr> page = 1, per_page = 1, total_count = 2 \<rparr> \<rparr> \<rparr>"
  by (simp add: page_response_def two_page_api_def)

lemma two_page_get2: "page_response two_page_api 2 =
   \<lparr> ok = True, status = 200, statusText = [], text_body = [],
     json_body = \<lparr> results = [route_b], result_info = \<lparr> page = 2, per_page = 1, total_count = 2 \<rparr> \<rparr> \<rparr>"
  by (simp add: page_response_def two_page_api_def url1 url2)

lemma two_page_gathered: "gathered two_page_api 1 2 = [route_a, route_b]" "gathered two_page_api 1 (Suc 0) = [route_a]"
  unfolding gathered_def upt_1_2 by (simp_all add: two_page_get1 two_page_get2)

lemma two_page_requests: "page_requests two_page_api 1 2 =
          [\<lparr> req_method = GET, url = ''/accounts/acct/teamnet/routes?page=1&per_page=100'', body = None \<rparr>,
            \<lparr> req_method = GET, url = ''/accounts/acct/teamnet/routes?page=2&per_page=100'', body = None \<rparr>]"
  unfolding page_requests_def upt_1_2 by (simp add: url1 url2 two_page_api_def)

lemma first_stop_two: "first_stop two_page_api None 2"
  unfolding first_stop_def upt_1_2
  by (simp add: stops_at_def has_more_def two_page_get1 two_page_get2)

lemma first_stop_two_one: "first_stop two_page_api (Some 1) (Suc 0)"
  unfolding first_stop_def
  by (simp add: stops_at_def has_more_def two_page_get1 gathered_single upt_rec)

lemma page_requests_one: "page_requests two_page_api 1 (Suc 0) =
          [\<lparr> req_method = GET, url = ''/accounts/acct/teamnet/routes?page=1&per_page=100'', body = None \<rparr>]"
  using page_requests_single [of two_page_api "Suc 0"] by (simp add: url1 two_page_api_def)

lemma listTunnelRoutes_examples:
  "listTunnelRoutes two_page_api None [] =
     Some (Inr [route_a, route_b],
           [\<lparr> req_method = GET, url = ''/accounts/acct/teamnet/routes?page=1&per_page=100'', body = None \<rparr>,
            \<lparr> req_method = GET, url = ''/accounts/acct/teamnet/routes?page=2&per_page=100'', body = None \<rparr>])"
  "listTunnelRoutes two_page_api (Some 1) [] =
     Some (Inr [route_a],
           [\<lparr> req_method = GET, url = ''/accounts/acct/teamnet/routes?page=1&per_page=100'', body = None \<rparr>])"
proof -
  show "listTunnelRoutes two_page_api None [] =
     Some (Inr [route_a, route_b],
           [\<lparr> req_method = GET, url = ''/accounts/acct/teamnet/routes?page=1&per_page=100'', body = None \<rparr>,
            \<lparr> req_method = GET, url = ''/accounts/acct/teamnet/routes?page=2&per_page=100'', body = None \<rparr>])"
    using listTunnelRoutes_positive_limit [OF first_stop_two, of "[]"]
    unfolding two_page_gathered two_page_requests by simp
  have p: "positive_limit (Some 1)" by simp
  show "listTunnelRoutes two_page_api (Some 1) [] =
     Some (Inr [route_a],
           [\<lparr> req_method = GET, url = ''/accounts/acct/teamnet/routes?page=1&per_page=100'', body = None \<rparr>])"
    using listTunnelRoutes_positive_limit [OF first_stop_two_one p, of "[]"]
    unfolding two_page_gathered page_requests_one by simp
qed

lemma first_stop_two_zero: "first_stop two_page_api (Some 0) 2"
  unfolding first_stop_def upt_1_2
  by (simp add: stops_at_def has_more_def two_page_get1 two_page_get2)

text \<open>
  C9. The limit 0 is not honoured. The test \<open>limit && routes.length >= limit\<close> is falsy
  for 0, so the limit is ignored: against two pages of one route each, listTunnelRoutes
  with the limit 0 requests both pages and returns both routes, where the first
  \<open>min(0, 2) = 0\<close> routes are claimed, the loop stopping as soon as at least 0 routes are
  gathered, and where the doc comment of \<open>limit\<close> says "Maximum number of routes to
  return".
\<close>

theorem listTunnelRoutes_limit_zero:
  "take (nat 0) [route_a, route_b] = [] \<and>
   listTunnelRoutes two_page_api (Some 0) [] =
     Some (Inr [route_a, route_b],
           [\<lparr> req_method = GET, url = ''/accounts/acct/teamnet/routes?page=1&per_page=100'', body = None \<rparr>,
            \<lparr> req_method = GET, url = ''/accounts/acct/teamnet/routes?page=2&per_page=100'', body = None \<rparr>])"
  using listTunnelRoutes_run [OF first_stop_two_zero, of "[]"]
  unfolding two_page_gathered two_page_requests by simp

section \<open>The delete phase\<close>

lemma TunnelRoute_keep_any:
  "ctx_phase this = Delete \<Longrightarrow> trp_delete props = Some False
     \<Longrightarrow> TunnelRoute created_api this ident props
           = Some (case created_api of Inl e \<Rightarrow> Thrown e | Inr api \<Rightarrow> Destroyed, [])"
  by (cases created_api) (simp_all add: TunnelRoute_def Let_def)

lemma WarpDeviceProfile_keep_any:
  "ctx_phase this = Delete \<Longrightarrow> wdp_delete props = Some False
     \<Longrightarrow> WarpDeviceProfile created_api clk this ident props
           = (case created_api of Inl e \<Rightarrow> Thrown e | Inr api \<Rightarrow> Destroyed, [])"
  by (cases created_api) (simp_all add: WarpDeviceProfile_def Let_def)

lemma NeonProject_keep_any:
  "ctx_phase this = Delete \<Longrightarrow> npp_delete props = Some False
     \<Longrightarrow> NeonProject created_api this ident props
           = (case created_api of Inl e \<Rightarrow> Thrown e | Inr api \<Rightarrow> Destroyed, [])"
  by (cases created_api) (simp_all add: NeonProject_def Let_def)

text \<open>
  C2 (as amended). For TunnelRoute, WarpDeviceProfile and NeonProject (the handlers with
  a \<open>delete\<close> prop) invoked in the delete phase with \<open>props.delete === false\<close>, the
  handler sends no request through its API client, so no remote delete request; it
  returns the destroyed state when the client was constructed, and throws the error of
  the construction when that threw.
\<close>

theorem delete_false_keeps_remote:
  "(ctx_phase this1 = Delete \<and> trp_delete props1 = Some False
      \<longrightarrow> TunnelRoute client1 this1 ident1 props1
            = Some (case client1 of Inl e \<Rightarrow> Thrown e | Inr api \<Rightarrow> Destroyed, []))
   \<and> (ctx_phase this2 = Delete \<and> wdp_delete props2 = Some False
      \<longrightarrow> WarpDeviceProfile client2 clk this2 ident2 props2
            = (case client2 of Inl e \<Rightarrow> Thrown e | Inr api \<Rightarrow> Destroyed, []))
   \<and> (ctx_phase this3 = Delete \<and> npp_delete props3 = Some False
      \<longrightarrow> NeonProject client3 this3 ident3 props3
            = (case client3 of Inl e \<Rightarrow> Thrown e | Inr api \<Rightarrow> Destroyed, []))"
  using TunnelRoute_keep_any WarpDeviceProfile_keep_any NeonProject_keep_any by blast

theorem delete_false_keeps_remote_witness:
  "TunnelRoute (Inr two_page_api) \<lparr> ctx_phase = Delete, ctx_output = Some route_out, ctx_scope = example_scope \<rparr>
       ''r'' (route_props \<lparr> trp_delete := Some False \<rparr>) = Some (Destroyed, [])
   \<and> WarpDeviceProfile (Inr example_policy_api) example_clock
       \<lparr> ctx_phase = Delete, ctx_output = Some profile_out, ctx_scope = example_scope \<rparr>
       ''eng'' (profile_props \<lparr> wdp_delete := Some False \<rparr>) = (Destroyed, [])
   \<and> NeonProject (Inr example_neon) \<lparr> ctx_phase = Delete, ctx_output = Some neon_out, ctx_scope = example_scope \<rparr>
       ''db'' (neon_props \<lparr> npp_delete := Some False \<rparr>) = (Destroyed, [])"
  using delete_false_keeps_remote
    [of "\<lparr> ctx_phase = Delete, ctx_output = Some route_out, ctx_scope = example_scope \<rparr>"
        "route_props \<lparr> trp_delete := Some False \<rparr>" "Inr two_page_api" "''r''"
        "\<lparr> ctx_phase = Delete, ctx_output = Some profile_out, ctx_scope = example_scope \<rparr>"
        "profile_props \<lparr> wdp_delete := Some False \<rparr>" "Inr example_policy_api" example_clock "''eng''"
        "\<lparr> ctx_phase = Delete, ctx_output = Some neon_out, ctx_scope = example_scope \<rparr>"
        "neon_props \<lparr> npp_delete := Some False \<rparr>" "Inr example_neon" "''db''"]
  by (simp add: route_props_def profile_props_def neon_props_def)

text \<open>
  The claim as stated fails when the construction of the API client throws: each handler
  constructs its client before it reads the phase, and with \<open>props.delete === false\<close> in
  the delete phase it throws that error instead of returning the destroyed state.
\<close>

theorem delete_false_without_client:
  "TunnelRoute (Inl no_credentials) \<lparr> ctx_phase = Delete, ctx_output = Some route_out, ctx_scope = example_scope \<rparr>
       ''r'' (route_props \<lparr> trp_delete := Some False \<rparr>) = Some (Thrown no_credentials, [])
   \<and> WarpDeviceProfile (Inl no_credentials) example_clock
       \<lparr> ctx_phase = Delete, ctx_output = Some profile_out, ctx_scope = example_scope \<rparr>
       ''eng'' (profile_props \<lparr> wdp_delete := Some False \<rparr>) = (Thrown no_credentials, [])
   \<and> NeonProject (Inl no_credentials) \<lparr> ctx_phase = Delete, ctx_output = Some neon_out, ctx_scope = example_scope \<rparr>
       ''db'' (neon_props \<lparr> npp_delete := Some False \<rparr>) = (Thrown no_credentials, [])"
  by (simp add: TunnelRoute_def WarpDeviceProfile_def NeonProject_def)

lemma TunnelRoute_delete_404:
  assumes "ctx_phase this = Delete" "trp_delete props \<noteq> Some False"
    and "or_str (trp_routeId props) (map_option tr_id (ctx_output this)) = Some routeId" "routeId \<noteq> []"
    and "status (api_delete api (route_url api routeId)) = 404"
  shows "TunnelRoute (Inr api) this ident props =
           Some (Destroyed, [\<lparr> req_method = DELETE, url = route_url api routeId, body = None \<rparr>])"
  using assms by (simp add: TunnelRoute_def Let_def deleteRoute_def del: or_str.simps)

lemma WarpDeviceProfile_delete_404:
  assumes "ctx_phase this = Delete" "wdp_delete props \<noteq> Some False"
    and "ctx_output this = Some out" "wd_policyId out \<noteq> []"
    and "status (api_delete api (policy_url api @ ''/'' @ wd_policyId out)) = 404"
  shows "WarpDeviceProfile (Inr api) clk this ident props =
           (Destroyed, [\<lparr> req_method = DELETE, url = policy_url api @ ''/'' @ wd_policyId out, body = None \<rparr>])"
  using assms by (simp add: WarpDeviceProfile_def Let_def deletePolicy_def)

lemma NeonProject_delete_404:
  assumes "ctx_phase this = Delete" "npp_delete props \<noteq> Some False"
    and "ctx_output this = Some out" "np_id out \<noteq> []"
    and "del_status (deleteProject api (np_id out)) = 404"
  shows "NeonProject (Inr api) this ident props = (Destroyed, [DeleteProject (np_id out)])"
  using assms by (simp add: NeonProject_def Let_def)

lemma stripe_delete_not_found:
  assumes "del s = (Inl e, s')" "stripe_not_found e"
  shows "stripe_delete del s = (Destroyed, s')"
  using assms by (auto simp: stripe_delete_def stripe_not_found_def handleStripeV2DeleteError_def)

lemma RateCard_delete_404:
  assumes "ctx_phase this = Delete" "ctx_output this = Some out" "rc_id out \<noteq> []"
    and "createStripeV2Client env (map_option KeySecret (rcp_apiKey props)) = Inr client"
    and "rateCards_del client (rc_id out) io0 = (Inl e, s)" "stripe_not_found e"
  shows "RateCard env this ident props = (Destroyed, s)"
  using assms by (simp add: RateCard_def Let_def stripe_delete_not_found)

lemma handleStripeV2DeleteError_not_found:
  "stripe_not_found e \<Longrightarrow> handleStripeV2DeleteError e = Inr ()"
  by (auto simp: stripe_not_found_def handleStripeV2DeleteError_def)


lemma Rate_delete_404:
  assumes "ctx_phase this = Delete" "ctx_output this = Some out" "r_id out \<noteq> []" "r_rateCard out \<noteq> []"
    and "createStripeV2Client env (map_option KeySecret (rp_apiKey props)) = Inr client"
    and "rates_del client (r_rateCard out) (r_id out) io0 = (Inl e, s)" "stripe_not_found e"
  shows "Rate env this ident props = (Destroyed, s)"
  using assms by (simp add: Rate_def Let_def stripe_delete_not_found)

lemma RedirectRule_delete_404:
  assumes "ctx_phase this = Delete" "ctx_output this = Some out" "rr_ruleId out \<noteq> []" "rr_rulesetId out \<noteq> []"
    and "resolve_zone env (rrp_zone props) = (Inr (Some zoneId), log)" "zoneId \<noteq> []"
    and "status (api_delete api (''/zones/'' @ zoneId @ ''/rulesets/'' @ rr_rulesetId out @ ''/rules/'' @ rr_ruleId out)) = 404"
  shows "RedirectRule env (Inr api) this ident props =
           (Destroyed, log @ [\<lparr> req_method = DELETE,
                                url = ''/zones/'' @ zoneId @ ''/rulesets/'' @ rr_rulesetId out @ ''/rules/'' @ rr_ruleId out,
                                body = None \<rparr>])"
  using assms by (simp add: RedirectRule_def Let_def deleteRule_def)

text \<open>
  C3. For every delete-phase invocation with deletion enabled and a remote id on record
  (TunnelRoute, WarpDeviceProfile, NeonProject, RateCard, Rate, RedirectRule), a 404
  answer of the provider's delete endpoint (for the Stripe resources: a delete call
  that fails with a 404 or \<open>resource_missing\<close> error) is treated as success: no error is
  raised and the handler returns the destroyed state. \<open>handleStripeV2DeleteError\<close>
  returns without throwing on such an error.
\<close>

theorem delete_not_found_is_success:
  "(ctx_phase thisT = Delete \<and> trp_delete propsT \<noteq> Some False
      \<and> or_str (trp_routeId propsT) (map_option tr_id (ctx_output thisT)) = Some routeId \<and> routeId \<noteq> []
      \<and> status (api_delete apiT (route_url apiT routeId)) = 404
      \<longrightarrow> TunnelRoute (Inr apiT) thisT identT propsT =
            Some (Destroyed, [\<lparr> req_method = DELETE, url = route_url apiT routeId, body = None \<rparr>]))
   \<and> (ctx_phase thisW = Delete \<and> wdp_delete propsW \<noteq> Some False
      \<and> ctx_output thisW = Some outW \<and> wd_policyId outW \<noteq> []
      \<and> status (api_delete apiW (policy_url apiW @ ''/'' @ wd_policyId outW)) = 404
      \<longrightarrow> WarpDeviceProfile (Inr apiW) clk thisW identW propsW =
            (Destroyed, [\<lparr> req_method = DELETE, url = policy_url apiW @ ''/'' @ wd_policyId outW, body = None \<rparr>]))
   \<and> (ctx_phase thisN = Delete \<and> npp_delete propsN \<noteq> Some False
      \<and> ctx_output thisN = Some outN \<and> np_id outN \<noteq> []
      \<and> del_status (deleteProject apiN (np_id outN)) = 404
      \<longrightarrow> NeonProject (Inr apiN) thisN identN propsN = (Destroyed, [DeleteProject (np_id outN)]))
   \<and> (stripe_not_found e \<longrightarrow> handleStripeV2DeleteError e = Inr ())
   \<and> (ctx_phase thisC = Delete \<and> ctx_output thisC = Some outC \<and> rc_id outC \<noteq> []
      \<and> createStripeV2Client envC (map_option KeySecret (rcp_apiKey propsC)) = Inr clientC
      \<and> rateCards_del clientC (rc_id outC) io0 = (Inl errC, sC) \<and> stripe_not_found errC
      \<longrightarrow> RateCard envC thisC identC propsC = (Destroyed, sC))
   \<and> (ctx_phase thisR = Delete \<and> ctx_output thisR = Some outR \<and> r_id outR \<noteq> [] \<and> r_rateCard outR \<noteq> []
      \<and> createStripeV2Client envR (map_option KeySecret (rp_apiKey propsR)) = Inr clientR
      \<and> rates_del clientR (r_rateCard outR) (r_id outR) io0 = (Inl errR, sR) \<and> stripe_not_found errR
      \<longrightarrow> Rate envR thisR identR propsR = (Destroyed, sR))
   \<and> (ctx_phase thisD = Delete \<and> ctx_output thisD = Some outD \<and> rr_ruleId outD \<noteq> [] \<and> rr_rulesetId outD \<noteq> []
      \<and> resolve_zone envD (rrp_zone propsD) = (Inr (Some zoneId), logD) \<and> zoneId \<noteq> []
      \<and> status (api_delete apiD (''/zones/'' @ zoneId @ ''/rulesets/'' @ rr_rulesetId outD @ ''/rules/'' @ rr_ruleId outD)) = 404
      \<longrightarrow> RedirectRule envD (Inr apiD) thisD identD propsD =
            (Destroyed, logD @ [\<lparr> req_method = DELETE,
                                  url = ''/zones/'' @ zoneId @ ''/rulesets/'' @ rr_rulesetId outD @ ''/rules/'' @ rr_ruleId outD,
                                  body = None \<rparr>]))"
proof (intro conjI impI)
  assume "ctx_phase thisT = Delete \<and> trp_delete propsT \<noteq> Some False
      \<and> or_str (trp_routeId propsT) (map_option tr_id (ctx_output thisT)) = Some routeId \<and> routeId \<noteq> []
      \<and> status (api_delete apiT (route_url apiT routeId)) = 404"
  then show "TunnelRoute (Inr apiT) thisT identT propsT =
            Some (Destroyed, [\<lparr> req_method = DELETE, url = route_url apiT routeId, body = None \<rparr>])"
    using TunnelRoute_delete_404 by blast
next
  assume "ctx_phase thisW = Delete \<and> wdp_delete propsW \<noteq> Some False
      \<and> ctx_output thisW = Some outW \<and> wd_policyId outW \<noteq> []
      \<and> status (api_delete apiW (policy_url apiW @ ''/'' @ wd_policyId outW)) = 404"
  then show "WarpDeviceProfile (Inr apiW) clk thisW identW propsW =
            (Destroyed, [\<lparr> req_method = DELETE, url = policy_url apiW @ ''/'' @ wd_policyId outW, body = None \<rparr>])"
    using WarpDeviceProfile_delete_404 by blast
next
  assume "ctx_phase thisN = Delete \<and> npp_delete propsN \<noteq> Some False
      \<and> ctx_output thisN = Some outN \<and> np_id outN \<noteq> []
      \<and> del_status (deleteProject apiN (np_id outN)) = 404"
  then show "NeonProject (Inr apiN) thisN identN propsN = (Destroyed, [DeleteProject (np_id outN)])"
    using NeonProject_delete_404 by blast
next
  assume "stripe_not_found e"
  then show "handleStripeV2DeleteError e = Inr ()" by (rule handleStripeV2DeleteError_not_found)
next
  assume "ctx_phase thisC = Delete \<and> ctx_output thisC = Some outC \<and> rc_id outC \<noteq> []
      \<and> createStripeV2Client envC (map_option KeySecret (rcp_apiKey propsC)) = Inr clientC
      \<and> rateCards_del clientC (rc_id outC) io0 = (Inl errC, sC) \<and> stripe_not_found errC"
  then show "RateCard envC thisC identC propsC = (Destroyed, sC)"
    using RateCard_delete_404 by blast
next
  assume "ctx_phase thisR = Delete \<and> ctx_output thisR = Some outR \<and> r_id outR \<noteq> [] \<and> r_rateCard outR \<noteq> []
      \<and> createStripeV2Client envR (map_option KeySecret (rp_apiKey propsR)) = Inr clientR
      \<and> rates_del clientR (r_rateCard outR) (r_id outR) io0 = (Inl errR, sR) \<and> stripe_not_found errR"
  then show "Rate envR thisR identR propsR = (Destroyed, sR)"
    using Rate_delete_404 by blast
next
  assume "ctx_phase thisD = Delete \<and> ctx_output thisD = Some outD \<and> rr_ruleId outD \<noteq> [] \<and> rr_rulesetId outD \<noteq> []
      \<and> resolve_zone envD (rrp_zone propsD) = (Inr (Some zoneId), logD) \<and> zoneId \<noteq> []
      \<and> status (api_delete apiD (''/zones/'' @ zoneId @ ''/rulesets/'' @ rr_rulesetId outD @ ''/rules/'' @ rr_ruleId outD)) = 404"
  then show "RedirectRule envD (Inr apiD) thisD identD propsD =
            (Destroyed, logD @ [\<lparr> req_method = DELETE,
                                  url = ''/zones/'' @ zoneId @ ''/rulesets/'' @ rr_rulesetId outD @ ''/rules/'' @ rr_ruleId outD,
                                  body = None \<rparr>])"
    using RedirectRule_delete_404 by blast
qed


lemma backoff_first_final:
  assumes "operation s = (r, s')" "\<forall>e. r = Inl e \<longrightarrow> \<not> isRetryable e"
  shows "backoff_loop operation isRetryable k delay s = (r, s')"
  using assms by (cases k; cases r) auto

lemma request_v2_first_final:
  assumes "raw (sent s) \<lparr> req_method = m, url = path, body = b \<rparr> = r"
    and "\<forall>e. r = Inl e \<longrightarrow> \<not> isStripeV2RetryableError e"
  shows "request_v2 raw m path b s = (r, s\<lparr> sent := sent s @ [\<lparr> req_method = m, url = path, body = b \<rparr>] \<rparr>)"
  unfolding request_v2_def withExponentialBackoff_def
  by (rule backoff_first_final) (use assms in auto)

lemma example_client:
  "createStripeV2Client example_stripe None = Inr (projr (createStripeV2Client example_stripe None))"
  by (simp add: createStripeV2Client_def example_stripe_def)

lemma not_retryable_404: "\<not> isStripeV2RetryableError (stripe_error 404)"
  by (simp add: isStripeV2RetryableError_def stripe_error_def)

lemma example_card_del:
  "rateCards_del (projr (createStripeV2Client example_stripe None)) ''rc_1'' io0 =
     (Inl (stripe_error 404),
      \<lparr> sent = [\<lparr> req_method = DELETE, url = ''/v2/billing/rate_cards/rc_1'', body = None \<rparr>], slept = [] \<rparr>)"
proof -
  have "request_v2 (raw_deleted (rawRequest example_stripe)) DELETE ''/v2/billing/rate_cards/rc_1'' None io0 =
          (Inl (stripe_error 404), io0\<lparr> sent := sent io0 @ [\<lparr> req_method = DELETE, url = ''/v2/billing/rate_cards/rc_1'', body = None \<rparr>] \<rparr>)"
    by (rule request_v2_first_final) (simp_all add: example_stripe_def not_retryable_404)
  then show ?thesis
    by (simp add: createStripeV2Client_def example_stripe_def io0_def)
qed

lemma example_rate_del:
  "rates_del (projr (createStripeV2Client example_stripe None)) ''rc_1'' ''rate_1'' io0 =
     (Inl (stripe_error 404),
      \<lparr> sent = [\<lparr> req_method = DELETE, url = ''/v2/billing/rate_cards/rc_1/rates/rate_1'', body = None \<rparr>], slept = [] \<rparr>)"
proof -
  have "request_v2 (raw_deleted (rawRequest example_stripe)) DELETE ''/v2/billing/rate_cards/rc_1/rates/rate_1'' None io0 =
          (Inl (stripe_error 404), io0\<lparr> sent := sent io0 @ [\<lparr> req_method = DELETE, url = ''/v2/billing/rate_cards/rc_1/rates/rate_1'', body = None \<rparr>] \<rparr>)"
    by (rule request_v2_first_final) (simp_all add: example_stripe_def not_retryable_404)
  then show ?thesis
    by (simp add: createStripeV2Client_def example_stripe_def io0_def)
qed

theorem delete_not_found_is_success_witness:
  "TunnelRoute (Inr gone_route_api) \<lparr> ctx_phase = Delete, ctx_output = Some route_out, ctx_scope = example_scope \<rparr>
       ''r'' route_props
     = Some (Destroyed, [\<lparr> req_method = DELETE, url = ''/accounts/acct/teamnet/routes/a'', body = None \<rparr>])
   \<and> WarpDeviceProfile (Inr example_policy_api) example_clock
       \<lparr> ctx_phase = Delete, ctx_output = Some profile_out, ctx_scope = example_scope \<rparr> ''eng'' profile_props
     = (Destroyed, [\<lparr> req_method = DELETE, url = ''/accounts/acct/devices/policy/p1'', body = None \<rparr>])
   \<and> NeonProject (Inr example_neon) \<lparr> ctx_phase = Delete, ctx_output = Some neon_out, ctx_scope = example_scope \<rparr>
       ''db'' neon_props
     = (Destroyed, [DeleteProject ''pj1''])
   \<and> handleStripeV2DeleteError (stripe_error 404) = Inr ()
   \<and> RateCard example_stripe \<lparr> ctx_phase = Delete, ctx_output = Some card_out, ctx_scope = example_scope \<rparr>
       ''card'' card_props
     = (Destroyed, \<lparr> sent = [\<lparr> req_method = DELETE, url = ''/v2/billing/rate_cards/rc_1'', body = None \<rparr>], slept = [] \<rparr>)
   \<and> Rate example_stripe \<lparr> ctx_phase = Delete, ctx_output = Some rate_out, ctx_scope = example_scope \<rparr>
       ''rate'' rate_props
     = (Destroyed, \<lparr> sent = [\<lparr> req_method = DELETE, url = ''/v2/billing/rate_cards/rc_1/rates/rate_1'', body = None \<rparr>], slept = [] \<rparr>)
   \<and> RedirectRule example_redirect_env (Inr example_ruleset_api)
       \<lparr> ctx_phase = Delete, ctx_output = Some redirect_out, ctx_scope = example_scope \<rparr> ''rd'' redirect_props
     = (Destroyed, [\<lparr> req_method = GET, url = ''/zones?name=example.com'', body = None \<rparr>,
                    \<lparr> req_method = DELETE, url = ''/zones/z1/rulesets/rs1/rules/rule1'', body = None \<rparr>])"
proof -
  note w = delete_not_found_is_success
    [where thisT = "\<lparr> ctx_phase = Delete, ctx_output = Some route_out, ctx_scope = example_scope \<rparr>"
       and propsT = route_props and apiT = gone_route_api and identT = "''r''" and routeId = "''a''"
       and thisW = "\<lparr> ctx_phase = Delete, ctx_output = Some profile_out, ctx_scope = example_scope \<rparr>"
       and propsW = profile_props and apiW = example_policy_api and clk = example_clock and identW = "''eng''"
       and outW = profile_out
       and thisN = "\<lparr> ctx_phase = Delete, ctx_output = Some neon_out, ctx_scope = example_scope \<rparr>"
       and propsN = neon_props and apiN = example_neon and identN = "''db''" and outN = neon_out
       and e = "stripe_error 404"
       and thisC = "\<lparr> ctx_phase = Delete, ctx_output = Some card_out, ctx_scope = example_scope \<rparr>"
       and propsC = card_props and envC = example_stripe and identC = "''card''" and outC = card_out
       and clientC = "projr (createStripeV2Client example_stripe None)" and errC = "stripe_error 404"
       and sC = "\<lparr> sent = [\<lparr> req_method = DELETE, url = ''/v2/billing/rate_cards/rc_1'', body = None \<rparr>], slept = [] \<rparr>"
       and thisR = "\<lparr> ctx_phase = Delete, ctx_output = Some rate_out, ctx_scope = example_scope \<rparr>"
       and propsR = rate_props and envR = example_stripe and identR = "''rate''" and outR = rate_out
       and clientR = "projr (createStripeV2Client example_stripe None)" and errR = "stripe_error 404"
       and sR = "\<lparr> sent = [\<lparr> req_method = DELETE, url = ''/v2/billing/rate_cards/rc_1/rates/rate_1'', body = None \<rparr>], slept = [] \<rparr>"
       and thisD = "\<lparr> ctx_phase = Delete, ctx_output = Some redirect_out, ctx_scope = example_scope \<rparr>"
       and propsD = redirect_props and envD = example_redirect_env and apiD = example_ruleset_api
       and identD = "''rd''" and outD = redirect_out and zoneId = "''z1''"
       and logD = "[\<lparr> req_method = GET, url = ''/zones?name=example.com'', body = None \<rparr>]"]
  have t: "TunnelRoute (Inr gone_route_api) \<lparr> ctx_phase = Delete, ctx_output = Some route_out, ctx_scope = example_scope \<rparr>
       ''r'' route_props
     = Some (Destroyed, [\<lparr> req_method = DELETE, url = ''/accounts/acct/teamnet/routes/a'', body = None \<rparr>])"
    using w [THEN conjunct1]
    by (simp add: route_props_def route_out_def route_output_def route_a_def gone_route_api_def two_page_api_def route_url_def)
  have p: "WarpDeviceProfile (Inr example_policy_api) example_clock
       \<lparr> ctx_phase = Delete, ctx_output = Some profile_out, ctx_scope = example_scope \<rparr> ''eng'' profile_props
     = (Destroyed, [\<lparr> req_method = DELETE, url = ''/accounts/acct/devices/policy/p1'', body = None \<rparr>])"
    using w [THEN conjunct2, THEN conjunct1]
    by (simp add: profile_props_def profile_out_def example_policy_api_def policy_url_def)
  have n: "NeonProject (Inr example_neon) \<lparr> ctx_phase = Delete, ctx_output = Some neon_out, ctx_scope = example_scope \<rparr>
       ''db'' neon_props = (Destroyed, [DeleteProject ''pj1''])"
    using w [THEN conjunct2, THEN conjunct2, THEN conjunct1]
    by (simp add: neon_props_def neon_out_def example_neon_def)
  have h: "handleStripeV2DeleteError (stripe_error 404) = Inr ()"
    using w [THEN conjunct2, THEN conjunct2, THEN conjunct2, THEN conjunct1]
    by (simp add: stripe_not_found_def stripe_error_def)
  have nf: "stripe_not_found (stripe_error 404)"
    by (simp add: stripe_not_found_def stripe_error_def)
  have c: "RateCard example_stripe \<lparr> ctx_phase = Delete, ctx_output = Some card_out, ctx_scope = example_scope \<rparr>
       ''card'' card_props
     = (Destroyed, \<lparr> sent = [\<lparr> req_method = DELETE, url = ''/v2/billing/rate_cards/rc_1'', body = None \<rparr>], slept = [] \<rparr>)"
  proof -
    have 1: "rcp_apiKey card_props = None" "rc_id card_out = ''rc_1''"
      by (simp_all add: card_props_def card_out_def mapV2RateCardToOutput_def example_card_def)
    show ?thesis
      using w [THEN conjunct2, THEN conjunct2, THEN conjunct2, THEN conjunct2, THEN conjunct1]
        example_client example_card_del nf
      by (simp add: 1)
  qed
  have r: "Rate example_stripe \<lparr> ctx_phase = Delete, ctx_output = Some rate_out, ctx_scope = example_scope \<rparr>
       ''rate'' rate_props
     = (Destroyed, \<lparr> sent = [\<lparr> req_method = DELETE, url = ''/v2/billing/rate_cards/rc_1/rates/rate_1'', body = None \<rparr>], slept = [] \<rparr>)"
  proof -
    have 1: "rp_apiKey rate_props = None" "r_id rate_out = ''rate_1''" "r_rateCard rate_out = ''rc_1''"
      by (simp_all add: rate_props_def rate_out_def mapV2RateToOutput_def example_rate_def)
    show ?thesis
      using w [THEN conjunct2, THEN conjunct2, THEN conjunct2, THEN conjunct2, THEN conjunct2, THEN conjunct1]
        example_client example_rate_del nf
      by (simp add: 1)
  qed
  have d: "RedirectRule example_redirect_env (Inr example_ruleset_api)
       \<lparr> ctx_phase = Delete, ctx_output = Some redirect_out, ctx_scope = example_scope \<rparr> ''rd'' redirect_props
     = (Destroyed, [\<lparr> req_method = GET, url = ''/zones?name=example.com'', body = None \<rparr>,
                    \<lparr> req_method = DELETE, url = ''/zones/z1/rulesets/rs1/rules/rule1'', body = None \<rparr>])"
    using w [THEN conjunct2, THEN conjunct2, THEN conjunct2, THEN conjunct2, THEN conjunct2, THEN conjunct2]
    by (simp add: redirect_props_def redirect_out_def resolve_zone_def example_redirect_env_def example_ruleset_api_def)
  from t p n h c r d show ?thesis by blast
qed

section \<open>Retries of the Stripe client\<close>










section \<open>Physical names\<close>

lemma physical_name_unnamed:
  "physical_name None (Some n) sc ident = n" "physical_name None None sc ident = createPhysicalName sc ident"
  by (simp_all add: physical_name_def)

lemma buildRequestBody_name:
  "\<exists>members. buildRequestBody name enabled s = JObject ((''name'', JString name) # members)"
  by (simp add: buildRequestBody_def)

lemma createPolicy_log:
  "snd (createPolicy api name props log) =
     log @ [\<lparr> req_method = POST, url = policy_url api,
              body = Some (buildRequestBody name (wdp_enabled props) (wdp_settings props)) \<rparr>]"
  by (simp add: createPolicy_def Let_def)

lemma updatePolicy_log:
  "snd (updatePolicy api policyId name props log) =
     log @ [\<lparr> req_method = PATCH, url = policy_url api @ ''/'' @ policyId,
              body = Some (buildRequestBody name (wdp_enabled props) (wdp_settings props)) \<rparr>]"
  by (simp add: updatePolicy_def Let_def)

lemma findPolicyByName_log:
  "\<exists>rq. snd (findPolicyByName api name log) = log @ [rq]"
  by (simp add: findPolicyByName_def Let_def split: option.splits)

lemma updateSplitTunnel_log:
  "\<exists>rq. snd (updateSplitTunnel api policyId config log) = log @ [rq]"
  by (simp add: updateSplitTunnel_def Let_def)

lemma WarpDeviceProfile_policy_create_log:
  assumes "\<not> (ctx_phase this = Update \<and> truthy_str (map_option wd_policyId (ctx_output this)))"
  shows "\<exists>rest. snd (WarpDeviceProfile_policy api clk this props name adopt) =
           \<lparr> req_method = POST, url = policy_url api,
             body = Some (buildRequestBody name (wdp_enabled props) (wdp_settings props)) \<rparr> # rest"
proof -
  obtain r l where c: "createPolicy api name props [] = (r, l)" by (cases "createPolicy api name props []")
  with createPolicy_log [of api name props "[]"]
  have l: "l = [\<lparr> req_method = POST, url = policy_url api,
                  body = Some (buildRequestBody name (wdp_enabled props) (wdp_settings props)) \<rparr>]" by simp
  show ?thesis
  proof (cases r)
    case (Inr res)
    with c l assms show ?thesis by (auto simp: WarpDeviceProfile_policy_def Let_def)
  next
    case (Inl error)
    obtain r' l' where f: "findPolicyByName api name l = (r', l')" by (cases "findPolicyByName api name l")
    with findPolicyByName_log [of api name l] obtain rq where l': "l' = l @ [rq]" by auto
    from c l Inl f l' assms show ?thesis
      by (cases r') (auto simp: WarpDeviceProfile_policy_def Let_def split: option.splits)
  qed
qed

lemma WarpDeviceProfile_policy_update_log:
  assumes "ctx_phase this = Update" "ctx_output this = Some prev" "wd_policyId prev \<noteq> []"
  shows "snd (WarpDeviceProfile_policy api clk this props name adopt) =
           [\<lparr> req_method = PATCH, url = policy_url api @ ''/'' @ wd_policyId prev,
              body = Some (buildRequestBody name (wdp_enabled props) (wdp_settings props)) \<rparr>]"
proof -
  obtain r l where c: "updatePolicy api (wd_policyId prev) name props [] = (r, l)"
    by (cases "updatePolicy api (wd_policyId prev) name props []")
  with updatePolicy_log [of api "wd_policyId prev" name props "[]"]
  have l: "l = [\<lparr> req_method = PATCH, url = policy_url api @ ''/'' @ wd_policyId prev,
                  body = Some (buildRequestBody name (wdp_enabled props) (wdp_settings props)) \<rparr>]" by simp
  from c l assms show ?thesis
    by (cases r) (simp_all add: WarpDeviceProfile_policy_def Let_def)
qed

text \<open>The log of the handler starts with the log of the policy step.\<close>

lemma WarpDeviceProfile_log:
  assumes "ctx_phase this \<noteq> Delete"
    and "\<not> (ctx_phase this = Update \<and> map_option wd_name (ctx_output this) \<noteq> Some name)"
    and "name = physical_name (wdp_name props) (map_option wd_name (ctx_output this)) (ctx_scope this) ident"
  shows "\<exists>rest. snd (WarpDeviceProfile (Inr api) clk this ident props) =
           snd (WarpDeviceProfile_policy api clk this props name
                  (adopt_setting (wdp_adopt props) (ctx_scope this))) @ rest"
proof -
  let ?p = "WarpDeviceProfile_policy api clk this props name (adopt_setting (wdp_adopt props) (ctx_scope this))"
  obtain r l where p: "?p = (r, l)" by (cases ?p)
  show ?thesis
  proof (cases r)
    case (Inl e)
    with p assms show ?thesis by (auto simp: WarpDeviceProfile_def Let_def)
  next
    case (Inr pc)
    obtain policyId createdAt where pc: "pc = (policyId, createdAt)" by (cases pc)
    show ?thesis
    proof (cases "ws_splitTunnel (wdp_settings props)")
      case None
      with p Inr pc assms show ?thesis by (auto simp: WarpDeviceProfile_def Let_def)
    next
      case (Some config)
      obtain r' l' where u: "updateSplitTunnel api policyId config l = (r', l')"
        by (cases "updateSplitTunnel api policyId config l")
      with updateSplitTunnel_log [of api policyId config l] obtain rq where "l' = l @ [rq]" by auto
      with p Inr pc Some u assms show ?thesis
        by (cases r') (auto simp: WarpDeviceProfile_def Let_def)
    qed
  qed
qed

lemma WarpDeviceProfile_name:
  assumes "WarpDeviceProfile (Inr api) clk this ident props = (Returned out, log)"
  shows "wd_name out = physical_name (wdp_name props) (map_option wd_name (ctx_output this)) (ctx_scope this) ident"
proof -
  let ?name = "physical_name (wdp_name props) (map_option wd_name (ctx_output this)) (ctx_scope this) ident"
  let ?p = "WarpDeviceProfile_policy api clk this props ?name (adopt_setting (wdp_adopt props) (ctx_scope this))"
  from assms have nd: "ctx_phase this \<noteq> Delete"
    by (auto simp: WarpDeviceProfile_def Let_def split: if_splits prod.splits sum.splits)
  from assms nd have nr: "\<not> (ctx_phase this = Update \<and> map_option wd_name (ctx_output this) \<noteq> Some ?name)"
    by (auto simp: WarpDeviceProfile_def Let_def split: if_splits)
  obtain r l where p: "?p = (r, l)" by (cases ?p)
  from assms nd nr p obtain policyId createdAt where r: "r = Inr (policyId, createdAt)"
    by (cases r) (auto simp: WarpDeviceProfile_def Let_def)
  show ?thesis
  proof (cases "ws_splitTunnel (wdp_settings props)")
    case None
    with assms nd nr p r show ?thesis by (auto simp: WarpDeviceProfile_def Let_def)
  next
    case (Some config)
    obtain r' l' where u: "updateSplitTunnel api policyId config l = (r', l')"
      by (cases "updateSplitTunnel api policyId config l")
    with assms nd nr p r Some show ?thesis
      by (cases r') (auto simp: WarpDeviceProfile_def Let_def)
  qed
qed


lemma physical_name_None: "physical_name None prev sc ident = unnamed_name prev sc ident"
  by (simp add: physical_name_def unnamed_name_def)

lemma NeonProject_create_log:
  "\<exists>rest. snd (NeonProject_create api props name log) = log @ CreateProject (create_body name props) # rest"
  by (simp add: NeonProject_create_def Let_def split: sum.splits option.splits)

lemma fetchConnectionUris_log:
  "\<exists>rest. snd (fetchConnectionUris api project_id dbs log) = log @ rest"
  by (simp add: fetchConnectionUris_def Let_def)

lemma fetchProject_log:
  "\<exists>rest. snd (fetchProject api props name log) = log @ ListProjects name # rest"
proof -
  have u: "\<And>p dbs l. \<exists>rest. snd (case fetchConnectionUris api p dbs l of (r, l') \<Rightarrow> (r, l')) = l @ rest"
    using fetchConnectionUris_log by simp
  show ?thesis
  proof (cases "listProjects api name")
    case (Inl e)
    then show ?thesis by (simp add: fetchProject_def Let_def)
  next
    case (Inr projects)
    show ?thesis
    proof (cases "projects = [] \<or> length projects > 1")
      case True
      with Inr show ?thesis by (auto simp: fetchProject_def Let_def)
    next
      case False
      let ?project = "hd projects"
      let ?bn = "case npp_default_branch_name props of Some b \<Rightarrow> b | None \<Rightarrow> ''main''"
      show ?thesis
      proof (cases "listProjectBranches api (pj_id ?project) ?bn")
        case (Inl e)
        with Inr False show ?thesis by (auto simp: fetchProject_def Let_def)
      next
        case branches: (Inr branches)
        show ?thesis
        proof (cases "branches = []")
          case True
          with Inr False branches show ?thesis by (auto simp: fetchProject_def Let_def)
        next
          case nb: False
          let ?branch = "hd branches"
          show ?thesis
          proof (cases "listProjectBranchDatabases api (pj_id ?project) (nb_id ?branch)")
            case (Inl e)
            with Inr False branches nb show ?thesis by (auto simp: fetchProject_def Let_def)
          next
            case dbs: (Inr databases)
            let ?l3 = "log @ [ListProjects name] @ [ListProjectEndpoints (pj_id ?project), ListProjectBranches (pj_id ?project) ?bn]
                        @ [ListProjectBranchRoles (pj_id ?project) (nb_id ?branch),
                           ListProjectBranchDatabases (pj_id ?project) (nb_id ?branch)]"
            obtain r l where f: "fetchConnectionUris api (pj_id ?project) databases ?l3 = (r, l)"
              by (cases "fetchConnectionUris api (pj_id ?project) databases ?l3")
            with fetchConnectionUris_log [of api "pj_id ?project" databases ?l3]
            obtain rest where l: "l = ?l3 @ rest" by auto
            from Inr False branches nb dbs f l show ?thesis
              by (auto simp: fetchProject_def Let_def split: sum.splits)
          qed
        qed
      qed
    qed
  qed
qed

lemma NeonProject_create_request:
  assumes "ctx_phase this = Create" "npp_adopt props \<noteq> Some True"
  shows "hd (snd (NeonProject (Inr api) this ident props)) =
           CreateProject (create_body
             (physical_name (npp_name props) (map_option np_name (ctx_output this)) (ctx_scope this) ident) props)"
  using assms
    NeonProject_create_log [of api props
      "physical_name (npp_name props) (map_option np_name (ctx_output this)) (ctx_scope this) ident" "[]"]
  by (auto simp: NeonProject_def Let_def)

lemma NeonProject_adopt_request:
  assumes "ctx_phase this = Create" "npp_adopt props = Some True"
  shows "hd (snd (NeonProject (Inr api) this ident props)) =
           ListProjects (physical_name (npp_name props) (map_option np_name (ctx_output this)) (ctx_scope this) ident)"
proof -
  let ?name = "physical_name (npp_name props) (map_option np_name (ctx_output this)) (ctx_scope this) ident"
  obtain r l where f: "fetchProject api props ?name [] = (r, l)" by (cases "fetchProject api props ?name []")
  with fetchProject_log [of api props ?name "[]"] obtain rest where l: "l = ListProjects ?name # rest" by auto
  from NeonProject_create_log [of api props ?name l] l
  obtain rest' where c: "snd (NeonProject_create api props ?name l) = ListProjects ?name # rest'" by auto
  from assms f l c show ?thesis
    by (cases r) (auto simp: NeonProject_def Let_def)
qed

lemma NeonProject_update_request:
  assumes "ctx_phase this = Update" "ctx_output this = Some prev"
  shows "snd (NeonProject (Inr api) this ident props) =
           [UpdateProject (np_id prev) (update_body
             (physical_name (npp_name props) (Some (np_name prev)) (ctx_scope this) ident) props)]"
  using assms by (auto simp: NeonProject_def Let_def split: sum.splits)

lemma WarpDeviceProfile_create_request:
  assumes "ctx_phase this = Create"
  shows "hd (snd (WarpDeviceProfile (Inr api) clk this ident props)) =
           \<lparr> req_method = POST, url = policy_url api,
             body = Some (buildRequestBody
                      (physical_name (wdp_name props) (map_option wd_name (ctx_output this)) (ctx_scope this) ident)
                      (wdp_enabled props) (wdp_settings props)) \<rparr>"
proof -
  let ?name = "physical_name (wdp_name props) (map_option wd_name (ctx_output this)) (ctx_scope this) ident"
  have a: "ctx_phase this \<noteq> Delete" using assms by simp
  have b: "\<not> (ctx_phase this = Update \<and> map_option wd_name (ctx_output this) \<noteq> Some ?name)"
    using assms by simp
  from WarpDeviceProfile_log [OF a b refl, of api clk]
  obtain rest where 1: "snd (WarpDeviceProfile (Inr api) clk this ident props) =
           snd (WarpDeviceProfile_policy api clk this props ?name
                  (adopt_setting (wdp_adopt props) (ctx_scope this))) @ rest" by blast
  have c: "\<not> (ctx_phase this = Update \<and> truthy_str (map_option wd_policyId (ctx_output this)))"
    using assms by simp
  from WarpDeviceProfile_policy_create_log [OF c, of api clk props ?name "adopt_setting (wdp_adopt props) (ctx_scope this)"]
  obtain rest' where 2: "snd (WarpDeviceProfile_policy api clk this props ?name (adopt_setting (wdp_adopt props) (ctx_scope this))) =
           \<lparr> req_method = POST, url = policy_url api,
             body = Some (buildRequestBody ?name (wdp_enabled props) (wdp_settings props)) \<rparr> # rest'" by blast
  show ?thesis unfolding 1 2 by simp
qed

lemma WarpDeviceProfile_update_request:
  assumes "ctx_phase this = Update" "ctx_output this = Some prev" "wd_policyId prev \<noteq> []" "wdp_name props = None"
  shows "hd (snd (WarpDeviceProfile (Inr api) clk this ident props)) =
           \<lparr> req_method = PATCH, url = policy_url api @ ''/'' @ wd_policyId prev,
             body = Some (buildRequestBody (wd_name prev) (wdp_enabled props) (wdp_settings props)) \<rparr>"
proof -
  have n: "wd_name prev = physical_name (wdp_name props) (map_option wd_name (ctx_output this)) (ctx_scope this) ident"
    using assms by (simp add: physical_name_def)
  have a: "ctx_phase this \<noteq> Delete" using assms by simp
  have b: "\<not> (ctx_phase this = Update \<and> map_option wd_name (ctx_output this) \<noteq> Some (wd_name prev))"
    using assms by simp
  from WarpDeviceProfile_log [OF a b n, of api clk]
  obtain rest where 1: "snd (WarpDeviceProfile (Inr api) clk this ident props) =
           snd (WarpDeviceProfile_policy api clk this props (wd_name prev)
                  (adopt_setting (wdp_adopt props) (ctx_scope this))) @ rest" by blast
  show ?thesis
    unfolding 1 WarpDeviceProfile_policy_update_log [OF assms(1-3)] by simp
qed


text \<open>
  C8. For every NeonProject or WarpDeviceProfile invocation without a \<open>name\<close> prop, the
  name used is the name recorded in the previous output when there is one, and otherwise
  \<open>createPhysicalName\<close> of the scope at the logical id: it is the name of the output
  a WarpDeviceProfile returns, the name in the body of the first request of the create
  and update phases (and the name NeonProject looks up when it adopts), and an update
  addresses the remote object recorded in the previous output, under its recorded name.
\<close>

theorem physical_name_of_unnamed:
  "(wdp_name propsW = None \<and> WarpDeviceProfile (Inr apiW) clk thisW identW propsW = (Returned outW, logW)
      \<longrightarrow> wd_name outW = unnamed_name (map_option wd_name (ctx_output thisW)) (ctx_scope thisW) identW)
   \<and> (wdp_name propsW = None \<and> ctx_phase thisW = Create
      \<longrightarrow> hd (snd (WarpDeviceProfile (Inr apiW) clk thisW identW propsW)) =
            \<lparr> req_method = POST, url = policy_url apiW,
              body = Some (buildRequestBody
                       (unnamed_name (map_option wd_name (ctx_output thisW)) (ctx_scope thisW) identW)
                       (wdp_enabled propsW) (wdp_settings propsW)) \<rparr>)
   \<and> (wdp_name propsW = None \<and> ctx_phase thisW = Update \<and> ctx_output thisW = Some prevW \<and> wd_policyId prevW \<noteq> []
      \<longrightarrow> hd (snd (WarpDeviceProfile (Inr apiW) clk thisW identW propsW)) =
            \<lparr> req_method = PATCH, url = policy_url apiW @ ''/'' @ wd_policyId prevW,
              body = Some (buildRequestBody (wd_name prevW) (wdp_enabled propsW) (wdp_settings propsW)) \<rparr>)
   \<and> (npp_name propsN = None \<and> ctx_phase thisN = Create \<and> npp_adopt propsN \<noteq> Some True
      \<longrightarrow> hd (snd (NeonProject (Inr apiN) thisN identN propsN)) =
            CreateProject (create_body
              (unnamed_name (map_option np_name (ctx_output thisN)) (ctx_scope thisN) identN) propsN))
   \<and> (npp_name propsN = None \<and> ctx_phase thisN = Create \<and> npp_adopt propsN = Some True
      \<longrightarrow> hd (snd (NeonProject (Inr apiN) thisN identN propsN)) =
            ListProjects (unnamed_name (map_option np_name (ctx_output thisN)) (ctx_scope thisN) identN))
   \<and> (npp_name propsN = None \<and> ctx_phase thisN = Update \<and> ctx_output thisN = Some prevN
      \<longrightarrow> snd (NeonProject (Inr apiN) thisN identN propsN) =
            [UpdateProject (np_id prevN) (update_body (np_name prevN) propsN)])
   \<and> (\<exists>members. buildRequestBody name enabled settings = JObject ((''name'', JString name) # members))
   \<and> (\<exists>members. create_body name propsN = JObject [(''project'', JObject ((''name'', JString name) # members))])
   \<and> (\<exists>members. update_body name propsN = JObject [(''project'', JObject ((''name'', JString name) # members))])"
proof (intro conjI impI)
  assume "wdp_name propsW = None \<and> WarpDeviceProfile (Inr apiW) clk thisW identW propsW = (Returned outW, logW)"
  then show "wd_name outW = unnamed_name (map_option wd_name (ctx_output thisW)) (ctx_scope thisW) identW"
    using WarpDeviceProfile_name [of apiW clk thisW identW propsW outW logW] by (simp add: physical_name_None)
next
  assume "wdp_name propsW = None \<and> ctx_phase thisW = Create"
  then show "hd (snd (WarpDeviceProfile (Inr apiW) clk thisW identW propsW)) =
            \<lparr> req_method = POST, url = policy_url apiW,
              body = Some (buildRequestBody
                       (unnamed_name (map_option wd_name (ctx_output thisW)) (ctx_scope thisW) identW)
                       (wdp_enabled propsW) (wdp_settings propsW)) \<rparr>"
    using WarpDeviceProfile_create_request [of thisW apiW clk identW propsW] by (simp add: physical_name_None)
next
  assume "wdp_name propsW = None \<and> ctx_phase thisW = Update \<and> ctx_output thisW = Some prevW \<and> wd_policyId prevW \<noteq> []"
  then show "hd (snd (WarpDeviceProfile (Inr apiW) clk thisW identW propsW)) =
            \<lparr> req_method = PATCH, url = policy_url apiW @ ''/'' @ wd_policyId prevW,
              body = Some (buildRequestBody (wd_name prevW) (wdp_enabled propsW) (wdp_settings propsW)) \<rparr>"
    using WarpDeviceProfile_update_request [of thisW prevW propsW apiW clk identW] by blast
next
  assume "npp_name propsN = None \<and> ctx_phase thisN = Create \<and> npp_adopt propsN \<noteq> Some True"
  then show "hd (snd (NeonProject (Inr apiN) thisN identN propsN)) =
            CreateProject (create_body
              (unnamed_name (map_option np_name (ctx_output thisN)) (ctx_scope thisN) identN) propsN)"
    using NeonProject_create_request [of thisN propsN apiN identN] by (simp add: physical_name_None)
next
  assume "npp_name propsN = None \<and> ctx_phase thisN = Create \<and> npp_adopt propsN = Some True"
  then show "hd (snd (NeonProject (Inr apiN) thisN identN propsN)) =
            ListProjects (unnamed_name (map_option np_name (ctx_output thisN)) (ctx_scope thisN) identN)"
    using NeonProject_adopt_request [of thisN propsN apiN identN] by (simp add: physical_name_None)
next
  assume "npp_name propsN = None \<and> ctx_phase thisN = Update \<and> ctx_output thisN = Some prevN"
  then show "snd (NeonProject (Inr apiN) thisN identN propsN) =
            [UpdateProject (np_id prevN) (update_body (np_name prevN) propsN)]"
    using NeonProject_update_request [of thisN prevN apiN identN propsN]
    by (simp add: physical_name_None unnamed_name_def)
next
  show "\<exists>members. buildRequestBody name enabled settings = JObject ((''name'', JString name) # members)"
    by (rule buildRequestBody_name)
next
  show "\<exists>members. create_body name propsN = JObject [(''project'', JObject ((''name'', JString name) # members))]"
    by (simp add: create_body_def)
next
  show "\<exists>members. update_body name propsN = JObject [(''project'', JObject ((''name'', JString name) # members))]"
    by (simp add: update_body_def)
qed

theorem physical_name_of_unnamed_witness:
  "hd (snd (WarpDeviceProfile (Inr example_policy_api) example_clock
              \<lparr> ctx_phase = Create, ctx_output = None, ctx_scope = example_scope \<rparr> ''eng'' profile_props)) =
     \<lparr> req_method = POST, url = ''/accounts/acct/devices/policy'',
       body = Some (buildRequestBody ''app-eng-dev'' None no_settings) \<rparr>
   \<and> hd (snd (WarpDeviceProfile (Inr example_policy_api) example_clock
              \<lparr> ctx_phase = Update, ctx_output = Some profile_out, ctx_scope = example_scope \<rparr> ''eng'' profile_props)) =
     \<lparr> req_method = PATCH, url = ''/accounts/acct/devices/policy/p1'',
       body = Some (buildRequestBody ''app-eng-dev'' None no_settings) \<rparr>
   \<and> hd (snd (NeonProject (Inr example_neon)
              \<lparr> ctx_phase = Create, ctx_output = None, ctx_scope = example_scope \<rparr> ''db'' neon_props)) =
     CreateProject (create_body ''app-db-dev'' neon_props)
   \<and> snd (NeonProject (Inr example_neon)
              \<lparr> ctx_phase = Update, ctx_output = Some neon_out, ctx_scope = example_scope \<rparr> ''db'' neon_props) =
     [UpdateProject ''pj1'' (update_body ''app-db-dev'' neon_props)]"
proof -
  have e: "wdp_name profile_props = None" "wdp_enabled profile_props = None" "wdp_settings profile_props = no_settings"
    "npp_name neon_props = None" "npp_adopt neon_props \<noteq> Some True"
    "wd_policyId profile_out = ''p1''" "wd_name profile_out = ''app-eng-dev''"
    "np_id neon_out = ''pj1''" "np_name neon_out = ''app-db-dev''"
    "policy_url example_policy_api = ''/accounts/acct/devices/policy''"
    "createPhysicalName example_scope ''eng'' = ''app-eng-dev''"
    "createPhysicalName example_scope ''db'' = ''app-db-dev''"
    by (simp_all add: profile_props_def neon_props_def profile_out_def neon_out_def policy_url_def
        example_policy_api_def example_scope_def)
  note c = physical_name_of_unnamed
    [where propsW = profile_props and apiW = example_policy_api and clk = example_clock and identW = "''eng''"
       and thisW = "\<lparr> ctx_phase = Create, ctx_output = None, ctx_scope = example_scope \<rparr>"
       and propsN = neon_props and apiN = example_neon and identN = "''db''"
       and thisN = "\<lparr> ctx_phase = Create, ctx_output = None, ctx_scope = example_scope \<rparr>"]
  note u = physical_name_of_unnamed
    [where propsW = profile_props and apiW = example_policy_api and clk = example_clock and identW = "''eng''"
       and thisW = "\<lparr> ctx_phase = Update, ctx_output = Some profile_out, ctx_scope = example_scope \<rparr>"
       and prevW = profile_out
       and propsN = neon_props and apiN = example_neon and identN = "''db''"
       and thisN = "\<lparr> ctx_phase = Update, ctx_output = Some neon_out, ctx_scope = example_scope \<rparr>"
       and prevN = neon_out]
  have 1: "hd (snd (WarpDeviceProfile (Inr example_policy_api) example_clock
              \<lparr> ctx_phase = Create, ctx_output = None, ctx_scope = example_scope \<rparr> ''eng'' profile_props)) =
     \<lparr> req_method = POST, url = ''/accounts/acct/devices/policy'',
       body = Some (buildRequestBody ''app-eng-dev'' None no_settings) \<rparr>"
    using c [THEN conjunct2, THEN conjunct1] by (simp add: e unnamed_name_def)
  have 2: "hd (snd (WarpDeviceProfile (Inr example_policy_api) example_clock
              \<lparr> ctx_phase = Update, ctx_output = Some profile_out, ctx_scope = example_scope \<rparr> ''eng'' profile_props)) =
     \<lparr> req_method = PATCH, url = ''/accounts/acct/devices/policy/p1'',
       body = Some (buildRequestBody ''app-eng-dev'' None no_settings) \<rparr>"
    using u [THEN conjunct2, THEN conjunct2, THEN conjunct1] by (simp add: e)
  have 3: "hd (snd (NeonProject (Inr example_neon)
              \<lparr> ctx_phase = Create, ctx_output = None, ctx_scope = example_scope \<rparr> ''db'' neon_props)) =
     CreateProject (create_body ''app-db-dev'' neon_props)"
    using c [THEN conjunct2, THEN conjunct2, THEN conjunct2, THEN conjunct1] by (simp add: e unnamed_name_def)
  have 4: "snd (NeonProject (Inr example_neon)
              \<lparr> ctx_phase = Update, ctx_output = Some neon_out, ctx_scope = example_scope \<rparr> ''db'' neon_props) =
     [UpdateProject ''pj1'' (update_body ''app-db-dev'' neon_props)]"
    using u [THEN conjunct2, THEN conjunct2, THEN conjunct2, THEN conjunct2, THEN conjunct2, THEN conjunct1]
    by (simp add: e)
  from 1 2 3 4 show ?thesis by blast
qed

section \<open>The adopt setting\<close>

lemma TunnelRoute_adopt_props:
  "TunnelRoute_adopt api adopt (props\<lparr> trp_adopt := x \<rparr>) tunnelId error log
     = TunnelRoute_adopt api adopt props tunnelId error log"
  by (simp add: TunnelRoute_adopt_def cong: sum.case_cong if_cong option.case_cong prod.case_cong split del: if_split)

lemma RateCard_adopt_props:
  "RateCard_adopt client adopt (props\<lparr> rcp_adopt := x \<rparr>) error s = RateCard_adopt client adopt props error s"
  by (simp add: RateCard_adopt_def cong: sum.case_cong if_cong option.case_cong prod.case_cong split del: if_split)

lemma createPolicy_props:
  "createPolicy api name (props\<lparr> wdp_adopt := x \<rparr>) log = createPolicy api name props log"
  "updatePolicy api policyId name (props\<lparr> wdp_adopt := x \<rparr>) log = updatePolicy api policyId name props log"
  by (simp_all add: createPolicy_def updatePolicy_def cong: sum.case_cong if_cong option.case_cong prod.case_cong split del: if_split)

lemma WarpDeviceProfile_policy_props:
  "WarpDeviceProfile_policy api clk this (props\<lparr> wdp_adopt := x \<rparr>) name adopt
     = WarpDeviceProfile_policy api clk this props name adopt"
  by (simp add: WarpDeviceProfile_policy_def createPolicy_props cong: sum.case_cong if_cong option.case_cong prod.case_cong split del: if_split)

lemma TunnelRoute_adopt_default:
  "TunnelRoute a this i (props\<lparr> trp_adopt := None \<rparr>)
     = TunnelRoute a this i (props\<lparr> trp_adopt := Some (scope_adopt (ctx_scope this)) \<rparr>)"
  by (simp add: TunnelRoute_def TunnelRoute_adopt_props cong: sum.case_cong if_cong option.case_cong prod.case_cong split del: if_split)

lemma WarpDeviceProfile_adopt_default:
  "WarpDeviceProfile a clk this i (props\<lparr> wdp_adopt := None \<rparr>)
     = WarpDeviceProfile a clk this i (props\<lparr> wdp_adopt := Some (scope_adopt (ctx_scope this)) \<rparr>)"
  by (simp add: WarpDeviceProfile_def WarpDeviceProfile_policy_props cong: sum.case_cong if_cong option.case_cong prod.case_cong split del: if_split)

lemma RateCard_adopt_default:
  "RateCard env this i (props\<lparr> rcp_adopt := None \<rparr>)
     = RateCard env this i (props\<lparr> rcp_adopt := Some (scope_adopt (ctx_scope this)) \<rparr>)"
  by (simp add: RateCard_def RateCard_adopt_props cong: sum.case_cong if_cong option.case_cong prod.case_cong split del: if_split)

text \<open>
  C6. TunnelRoute, WarpDeviceProfile and RateCard use \<open>props.adopt ?? this.scope.adopt\<close>
  (the three lemmas above: an absent \<open>props.adopt\<close> behaves as the scope's flag). NeonProject
  tests \<open>props.adopt\<close> alone. Under a scope whose adopt flag is true and with no
  \<open>adopt\<close> prop, where a project of the name exists, it does not look the project up
  and creates a second one; with \<open>adopt: true\<close> in the props it returns the existing one.
\<close>

theorem NeonProject_ignores_scope_adopt:
  "scope_adopt example_scope
   \<and> npp_adopt neon_props = None
   \<and> NeonProject (Inr example_neon) \<lparr> ctx_phase = Create, ctx_output = None, ctx_scope = example_scope \<rparr>
        ''db'' neon_props
      = (Returned (neon_out \<lparr> np_id := ''pj2'' \<rparr>),
         [CreateProject (create_body ''app-db-dev'' neon_props), GetProjectBranch ''pj2'' ''br1'',
          ListProjectEndpoints ''pj2''])
   \<and> NeonProject (Inr example_neon) \<lparr> ctx_phase = Create, ctx_output = None, ctx_scope = example_scope \<rparr>
        ''db'' (neon_props \<lparr> npp_adopt := Some True \<rparr>)
      = (Returned neon_out,
         [ListProjects ''app-db-dev'', ListProjectEndpoints ''pj1'', ListProjectBranches ''pj1'' ''main'',
          ListProjectBranchRoles ''pj1'' ''br1'', ListProjectBranchDatabases ''pj1'' ''br1''])"
  by (simp add: NeonProject_def NeonProject_create_def fetchProject_def fetchConnectionUris_def
      physical_name_def Let_def example_neon_def example_scope_def neon_props_def neon_out_def
      example_project_def example_branch_def create_body_def)

section \<open>Adoption on conflict\<close>

text \<open>The create call of TunnelRoute in the create phase, and what follows its failure.\<close>

lemma TunnelRoute_create_phase:
  assumes "ctx_phase this = Create"
  shows "TunnelRoute (Inr api) this ident props =
     (case (case createRoute api (trp_network props)
                  (case trp_tunnel props of TunnelString s \<Rightarrow> s | TunnelResource t \<Rightarrow> t)
                  (trp_comment props) (trp_virtualNetworkId props) [] of
              (Inr routeData, log) \<Rightarrow> Some (Inr routeData, log)
            | (Inl error, log) \<Rightarrow>
                TunnelRoute_adopt api (adopt_setting (trp_adopt props) (ctx_scope this)) props
                  (case trp_tunnel props of TunnelString s \<Rightarrow> s | TunnelResource t \<Rightarrow> t) error log) of
        None \<Rightarrow> None
      | Some (Inl e, log) \<Rightarrow> Some (Thrown e, log)
      | Some (Inr routeData, log) \<Rightarrow> Some (Returned (route_output routeData), log))"
  using assms by (simp add: TunnelRoute_def Let_def)

lemma TunnelRoute_conflict_reraised:
  assumes "ctx_phase this = Create"
    and "createRoute api (trp_network props) tunnelId (trp_comment props) (trp_virtualNetworkId props) [] = (Inl error, log)"
    and "tunnelId = props_tunnelId props"
    and "\<not> adopt_setting (trp_adopt props) (ctx_scope this)"
  shows "TunnelRoute (Inr api) this ident props = Some (Thrown error, log)"
  using assms by (simp add: TunnelRoute_create_phase props_tunnelId_def TunnelRoute_adopt_def)

lemma TunnelRoute_adopt_missing:
  assumes "ctx_phase this = Create"
    and "createRoute api (trp_network props) tunnelId (trp_comment props) (trp_virtualNetworkId props) [] = (Inl error, log)"
    and "tunnelId = props_tunnelId props"
    and "adopt_setting (trp_adopt props) (ctx_scope this)" "route_exists_error error"
    and "listTunnelRoutes api None log = Some (Inr routes, log')"
    and "find (\<lambda>route. cr_network route = trp_network props \<and> cr_tunnel_id route = tunnelId) routes = None"
  shows "TunnelRoute (Inr api) this ident props = Some (Thrown (adoption_failed (trp_network props) tunnelId), log')"
  using assms by (simp add: TunnelRoute_create_phase props_tunnelId_def TunnelRoute_adopt_def findRouteByNetworkAndTunnel_def)

lemma TunnelRoute_adopt_found:
  assumes "ctx_phase this = Create"
    and "createRoute api (trp_network props) tunnelId (trp_comment props) (trp_virtualNetworkId props) [] = (Inl error, log)"
    and "tunnelId = props_tunnelId props"
    and "adopt_setting (trp_adopt props) (ctx_scope this)" "route_exists_error error"
    and "listTunnelRoutes api None log = Some (Inr routes, log')"
    and "find (\<lambda>route. cr_network route = trp_network props \<and> cr_tunnel_id route = tunnelId) routes = Some existing"
  shows "TunnelRoute (Inr api) this ident props =
           (if trp_comment props \<noteq> None \<or> trp_virtualNetworkId props \<noteq> None
            then (case updateRoute api (cr_id existing) (trp_comment props) (trp_virtualNetworkId props) log' of
                    (Inl e, log'') \<Rightarrow> Some (Thrown e, log'')
                  | (Inr routeData, log'') \<Rightarrow> Some (Returned (route_output routeData), log''))
            else Some (Returned (route_output existing), log'))"
  using assms
  by (simp add: TunnelRoute_create_phase props_tunnelId_def TunnelRoute_adopt_def findRouteByNetworkAndTunnel_def split: prod.splits sum.splits)

lemma find_natural_key:
  "find (\<lambda>route. cr_network route = network \<and> cr_tunnel_id route = tunnelId) routes = Some existing
     \<Longrightarrow> cr_network existing = network \<and> cr_tunnel_id existing = tunnelId \<and> existing \<in> set routes"
  by (induction routes) (auto split: if_splits)

text \<open>RateCard in the create phase.\<close>

lemma RateCard_create_phase:
  assumes "ctx_phase this = Create"
    and "createStripeV2Client env (map_option KeySecret (rcp_apiKey props)) = Inr client"
    and "rateCards_create client (RateCard_create_params props) io0 = (Inl error, s)"
  shows "RateCard env this ident props =
           (case RateCard_adopt client (adopt_setting (rcp_adopt props) (ctx_scope this)) props error s of
              (Inl e, s') \<Rightarrow> (Thrown e, s')
            | (Inr rateCard, s') \<Rightarrow> (Returned (mapV2RateCardToOutput rateCard), s'))"
  using assms by (simp add: RateCard_def Let_def RateCard_create_params_def)

lemma RateCard_conflict_reraised:
  assumes "ctx_phase this = Create"
    and "createStripeV2Client env (map_option KeySecret (rcp_apiKey props)) = Inr client"
    and "rateCards_create client (RateCard_create_params props) io0 = (Inl error, s)"
    and "\<not> adopt_setting (rcp_adopt props) (ctx_scope this) \<or> \<not> truthy_str (rcp_lookupKey props)"
  shows "RateCard env this ident props = (Thrown error, s)"
  using assms(4) by (auto simp: RateCard_create_phase [OF assms(1-3)] RateCard_adopt_def)

lemma RateCard_adopt_missing:
  assumes "ctx_phase this = Create"
    and "createStripeV2Client env (map_option KeySecret (rcp_apiKey props)) = Inr client"
    and "rateCards_create client (RateCard_create_params props) io0 = (Inl error, s)"
    and "adopt_setting (rcp_adopt props) (ctx_scope this)" "isStripeV2ConflictError error"
    and "truthy_str (rcp_lookupKey props)"
    and "rateCards_list client s = (Inr cards, s')"
    and "find (\<lambda>rc. v2c_lookup_key rc = rcp_lookupKey props) cards = None"
  shows "RateCard env this ident props = (Thrown error, s')"
  using assms(4-8) by (simp add: RateCard_create_phase [OF assms(1-3)] RateCard_adopt_def)

lemma RateCard_adopt_found:
  assumes "ctx_phase this = Create"
    and "createStripeV2Client env (map_option KeySecret (rcp_apiKey props)) = Inr client"
    and "rateCards_create client (RateCard_create_params props) io0 = (Inl error, s)"
    and "adopt_setting (rcp_adopt props) (ctx_scope this)" "isStripeV2ConflictError error"
    and "truthy_str (rcp_lookupKey props)"
    and "rateCards_list client s = (Inr cards, s')"
    and "find (\<lambda>rc. v2c_lookup_key rc = rcp_lookupKey props) cards = Some existing"
    and "rateCards_update client (v2c_id existing) (RateCard_adopt_params props) s' = (Inr updated, s'')"
  shows "RateCard env this ident props = (Returned (mapV2RateCardToOutput updated), s'')"
  using assms(4-9)
  by (simp add: RateCard_create_phase [OF assms(1-3)] RateCard_adopt_def RateCard_adopt_params_def)

text \<open>WarpDeviceProfile in the create phase.\<close>

lemma WarpDeviceProfile_create_phase:
  assumes "ctx_phase this = Create"
  shows "WarpDeviceProfile (Inr api) clk this ident props =
     (let name = physical_name (wdp_name props) (map_option wd_name (ctx_output this)) (ctx_scope this) ident
      in case WarpDeviceProfile_policy api clk this props name (adopt_setting (wdp_adopt props) (ctx_scope this)) of
           (Inl e, log) \<Rightarrow> (Thrown e, log)
         | (Inr (policyId, createdAt), log) \<Rightarrow>
             (case (case ws_splitTunnel (wdp_settings props) of
                      None \<Rightarrow> (Inr (), log)
                    | Some config \<Rightarrow> updateSplitTunnel api policyId config log) of
                (Inl e, log') \<Rightarrow> (Thrown e, log')
              | (Inr u, log') \<Rightarrow> (Returned (profile_output policyId name props createdAt (now_modified clk)), log')))"
  using assms by (simp add: WarpDeviceProfile_def Let_def profile_output_def cong: prod.case_cong sum.case_cong)

lemma WarpDeviceProfile_policy_failed:
  assumes "ctx_phase this = Create"
    and "createPolicy api name props [] = (Inl error, log)"
  shows "WarpDeviceProfile_policy api clk this props name adopt =
           (if adopt \<and> profile_exists_error error
            then (case findPolicyByName api name log of
                    (Inl e, log') \<Rightarrow> (Inl e, log')
                  | (Inr None, log') \<Rightarrow> (Inl (profile_adoption_failed name), log')
                  | (Inr (Some existing), log') \<Rightarrow>
                      (Inr (existing, case ctx_output this of Some out \<Rightarrow> wd_createdAt out | None \<Rightarrow> now_default clk), log'))
            else (Inl error, log))"
  using assms by (simp add: WarpDeviceProfile_policy_def Let_def)

lemma WarpDeviceProfile_conflict_reraised:
  assumes "ctx_phase this = Create"
    and "name = physical_name (wdp_name props) (map_option wd_name (ctx_output this)) (ctx_scope this) ident"
    and "createPolicy api name props [] = (Inl error, log)"
    and "\<not> adopt_setting (wdp_adopt props) (ctx_scope this)"
  shows "WarpDeviceProfile (Inr api) clk this ident props = (Thrown error, log)"
  using assms(2-4)
  by (simp add: WarpDeviceProfile_create_phase [OF assms(1)] WarpDeviceProfile_policy_failed [OF assms(1)] Let_def)

lemma WarpDeviceProfile_adopt_missing:
  assumes "ctx_phase this = Create"
    and "name = physical_name (wdp_name props) (map_option wd_name (ctx_output this)) (ctx_scope this) ident"
    and "createPolicy api name props [] = (Inl error, log)"
    and "adopt_setting (wdp_adopt props) (ctx_scope this)" "profile_exists_error error"
    and "findPolicyByName api name log = (Inr None, log')"
  shows "WarpDeviceProfile (Inr api) clk this ident props = (Thrown (profile_adoption_failed name), log')"
  using assms(2-6)
  by (simp add: WarpDeviceProfile_create_phase [OF assms(1)] WarpDeviceProfile_policy_failed [OF assms(1)] Let_def)

lemma WarpDeviceProfile_adopt_found:
  assumes "ctx_phase this = Create"
    and "name = physical_name (wdp_name props) (map_option wd_name (ctx_output this)) (ctx_scope this) ident"
    and "createPolicy api name props [] = (Inl error, log)"
    and "adopt_setting (wdp_adopt props) (ctx_scope this)" "profile_exists_error error"
    and "findPolicyByName api name log = (Inr (Some existing), log')"
    and "ws_splitTunnel (wdp_settings props) = None"
  shows "WarpDeviceProfile (Inr api) clk this ident props =
           (Returned (profile_output existing name props
                        (case ctx_output this of Some out \<Rightarrow> wd_createdAt out | None \<Rightarrow> now_default clk)
                        (now_modified clk)), log')"
  using assms(2-7)
  by (simp add: WarpDeviceProfile_create_phase [OF assms(1)] WarpDeviceProfile_policy_failed [OF assms(1)] Let_def)

lemma find_Some_holds: "find P xs = Some x \<Longrightarrow> P x \<and> x \<in> set xs"
  by (induction xs) (auto split: if_splits)

lemma findPolicyByName_natural_key:
  assumes "findPolicyByName api name log = (Inr (Some existing), log')"
  shows "\<exists>policies policy. json_body (api_get api (''/accounts/'' @ accountId api @ ''/devices/policies'')) = Some policies
            \<and> policy \<in> set policies \<and> cpl_name policy = name
            \<and> existing = (case cpl_policy_id policy of Some i \<Rightarrow> i | None \<Rightarrow> cpl_id policy)"
proof -
  let ?r = "api_get api (''/accounts/'' @ accountId api @ ''/devices/policies'')"
  from assms have ok: "ok ?r"
    by (auto simp: findPolicyByName_def Let_def split: if_splits)
  from assms ok obtain policies where p: "json_body ?r = Some policies"
    by (cases "json_body ?r") (auto simp: findPolicyByName_def Let_def)
  from assms ok p obtain policy where f: "find (\<lambda>p. cpl_name p = name) policies = Some policy"
    by (cases "find (\<lambda>p. cpl_name p = name) policies") (auto simp: findPolicyByName_def Let_def)
  from assms ok p f have e: "existing = (case cpl_policy_id policy of Some i \<Rightarrow> i | None \<Rightarrow> cpl_id policy)"
    by (auto simp: findPolicyByName_def Let_def)
  from find_Some_holds [OF f] p e show ?thesis by blast
qed


lemma TunnelRoute_not_adopted:
  assumes "ctx_phase this = Create"
    and "createRoute api (trp_network props) tunnelId (trp_comment props) (trp_virtualNetworkId props) [] = (Inl error, log)"
    and "tunnelId = props_tunnelId props"
    and "\<not> (adopt_setting (trp_adopt props) (ctx_scope this) \<and> route_exists_error error)"
  shows "TunnelRoute (Inr api) this ident props = Some (Thrown error, log)"
  using assms by (auto simp: TunnelRoute_create_phase props_tunnelId_def TunnelRoute_adopt_def)

lemma TunnelRoute_lookup_failed:
  assumes "ctx_phase this = Create"
    and "createRoute api (trp_network props) tunnelId (trp_comment props) (trp_virtualNetworkId props) [] = (Inl error, log)"
    and "tunnelId = props_tunnelId props"
    and "adopt_setting (trp_adopt props) (ctx_scope this)" "route_exists_error error"
    and "listTunnelRoutes api None log = Some (Inl e, log')"
  shows "TunnelRoute (Inr api) this ident props = Some (Thrown e, log')"
  using assms by (simp add: TunnelRoute_create_phase props_tunnelId_def TunnelRoute_adopt_def findRouteByNetworkAndTunnel_def)

lemma TunnelRoute_adopt_plain:
  assumes "ctx_phase this = Create"
    and "createRoute api (trp_network props) tunnelId (trp_comment props) (trp_virtualNetworkId props) [] = (Inl error, log)"
    and "tunnelId = props_tunnelId props"
    and "adopt_setting (trp_adopt props) (ctx_scope this)" "route_exists_error error"
    and "listTunnelRoutes api None log = Some (Inr routes, log')"
    and "find (\<lambda>route. cr_network route = trp_network props \<and> cr_tunnel_id route = tunnelId) routes = Some existing"
    and "trp_comment props = None" "trp_virtualNetworkId props = None"
  shows "TunnelRoute (Inr api) this ident props = Some (Returned (route_output existing), log')"
  using TunnelRoute_adopt_found [OF assms(1-7), of ident] assms(8,9) by simp

lemma TunnelRoute_adopt_applied:
  assumes "ctx_phase this = Create"
    and "createRoute api (trp_network props) tunnelId (trp_comment props) (trp_virtualNetworkId props) [] = (Inl error, log)"
    and "tunnelId = props_tunnelId props"
    and "adopt_setting (trp_adopt props) (ctx_scope this)" "route_exists_error error"
    and "listTunnelRoutes api None log = Some (Inr routes, log')"
    and "find (\<lambda>route. cr_network route = trp_network props \<and> cr_tunnel_id route = tunnelId) routes = Some existing"
    and "trp_comment props \<noteq> None \<or> trp_virtualNetworkId props \<noteq> None"
    and "updateRoute api (cr_id existing) (trp_comment props) (trp_virtualNetworkId props) log' = (r, log'')"
  shows "TunnelRoute (Inr api) this ident props =
           Some (case r of Inl e \<Rightarrow> Thrown e | Inr updated \<Rightarrow> Returned (route_output updated), log'')"
  using TunnelRoute_adopt_found [OF assms(1-7), of ident] assms(8,9) by (cases r) auto

lemma RateCard_not_adopted:
  assumes "ctx_phase this = Create"
    and "createStripeV2Client env (map_option KeySecret (rcp_apiKey props)) = Inr client"
    and "rateCards_create client (RateCard_create_params props) io0 = (Inl error, s)"
    and "\<not> (isStripeV2ConflictError error \<and> adopt_setting (rcp_adopt props) (ctx_scope this)
            \<and> truthy_str (rcp_lookupKey props))"
  shows "RateCard env this ident props = (Thrown error, s)"
  using assms(4) by (auto simp: RateCard_create_phase [OF assms(1-3)] RateCard_adopt_def)

lemma RateCard_lookup_failed:
  assumes "ctx_phase this = Create"
    and "createStripeV2Client env (map_option KeySecret (rcp_apiKey props)) = Inr client"
    and "rateCards_create client (RateCard_create_params props) io0 = (Inl error, s)"
    and "adopt_setting (rcp_adopt props) (ctx_scope this)" "isStripeV2ConflictError error"
    and "truthy_str (rcp_lookupKey props)"
    and "rateCards_list client s = (Inl e, s')"
  shows "RateCard env this ident props = (Thrown e, s')"
  using assms(4-7) by (simp add: RateCard_create_phase [OF assms(1-3)] RateCard_adopt_def)

lemma RateCard_adopt_applied:
  assumes "ctx_phase this = Create"
    and "createStripeV2Client env (map_option KeySecret (rcp_apiKey props)) = Inr client"
    and "rateCards_create client (RateCard_create_params props) io0 = (Inl error, s)"
    and "adopt_setting (rcp_adopt props) (ctx_scope this)" "isStripeV2ConflictError error"
    and "truthy_str (rcp_lookupKey props)"
    and "rateCards_list client s = (Inr cards, s')"
    and "find (\<lambda>rc. v2c_lookup_key rc = rcp_lookupKey props) cards = Some existing"
    and "rateCards_update client (v2c_id existing) (RateCard_adopt_params props) s' = (r, s'')"
  shows "RateCard env this ident props =
           (case r of Inl e \<Rightarrow> Thrown e | Inr updated \<Rightarrow> Returned (mapV2RateCardToOutput updated), s'')"
  using assms(4-9)
  by (cases r) (simp_all add: RateCard_create_phase [OF assms(1-3)] RateCard_adopt_def RateCard_adopt_params_def)

lemma WarpDeviceProfile_not_adopted:
  assumes "ctx_phase this = Create"
    and "name = physical_name (wdp_name props) (map_option wd_name (ctx_output this)) (ctx_scope this) ident"
    and "createPolicy api name props [] = (Inl error, log)"
    and "\<not> (adopt_setting (wdp_adopt props) (ctx_scope this) \<and> profile_exists_error error)"
  shows "WarpDeviceProfile (Inr api) clk this ident props = (Thrown error, log)"
  using assms(2-4)
  by (auto simp: WarpDeviceProfile_create_phase [OF assms(1)] WarpDeviceProfile_policy_failed [OF assms(1)] Let_def)

lemma WarpDeviceProfile_lookup_failed:
  assumes "ctx_phase this = Create"
    and "name = physical_name (wdp_name props) (map_option wd_name (ctx_output this)) (ctx_scope this) ident"
    and "createPolicy api name props [] = (Inl error, log)"
    and "adopt_setting (wdp_adopt props) (ctx_scope this)" "profile_exists_error error"
    and "findPolicyByName api name log = (Inl e, log')"
  shows "WarpDeviceProfile (Inr api) clk this ident props = (Thrown e, log')"
  using assms(2-6)
  by (simp add: WarpDeviceProfile_create_phase [OF assms(1)] WarpDeviceProfile_policy_failed [OF assms(1)] Let_def)

lemma WarpDeviceProfile_adopt_applied:
  assumes "ctx_phase this = Create"
    and "name = physical_name (wdp_name props) (map_option wd_name (ctx_output this)) (ctx_scope this) ident"
    and "createPolicy api name props [] = (Inl error, log)"
    and "adopt_setting (wdp_adopt props) (ctx_scope this)" "profile_exists_error error"
    and "findPolicyByName api name log = (Inr (Some existing), log')"
    and "ws_splitTunnel (wdp_settings props) = Some config"
    and "updateSplitTunnel api existing config log' = (r, log'')"
  shows "WarpDeviceProfile (Inr api) clk this ident props =
           (case r of
              Inl e \<Rightarrow> Thrown e
            | Inr u \<Rightarrow> Returned (profile_output existing name props
                                   (case ctx_output this of Some out \<Rightarrow> wd_createdAt out | None \<Rightarrow> now_default clk)
                                   (now_modified clk)), log'')"
  using assms(2-8)
  by (cases r)
     (simp_all add: WarpDeviceProfile_create_phase [OF assms(1)] WarpDeviceProfile_policy_failed [OF assms(1)] Let_def)

text \<open>The examples: what the example providers answer.\<close>

lemma gone_get: "page_response gone_route_api k = page_response two_page_api k"
  by (simp add: page_response_def gone_route_api_def two_page_api_def)

lemma gone_gathered: "gathered gone_route_api p n = gathered two_page_api p n"
  by (simp add: gathered_def gone_get)

lemma gone_requests: "page_requests gone_route_api p n = page_requests two_page_api p n"
  by (simp add: page_requests_def gone_route_api_def two_page_api_def)

lemma first_stop_gone: "first_stop gone_route_api None 2"
  using first_stop_two
  by (simp add: first_stop_def stops_at_def has_more_def gone_get gone_gathered)

lemma gone_list:
  "listTunnelRoutes gone_route_api None log = Some (Inr [route_a, route_b], log @ page_requests two_page_api 1 2)"
  using listTunnelRoutes_run [OF first_stop_gone, of log]
  unfolding gone_gathered gone_requests two_page_gathered by simp

lemma gone_create:
  "createRoute gone_route_api ''10.0.0.0/8'' ''t1'' None None [] =
     (Inl (api_error_of 409 ''route already exists'' ''create'' ''route'' ''10.0.0.0/8 -> t1''),
      [\<lparr> req_method = POST, url = ''/accounts/acct/teamnet/routes'',
         body = Some (JObject [(''network'', JString ''10.0.0.0/8''), (''tunnel_id'', JString ''t1'')]) \<rparr>])"
  by (simp add: createRoute_def Let_def gone_route_api_def two_page_api_def routes_url_def)

lemma gone_find:
  "find (\<lambda>route. cr_network route = ''10.0.0.0/8'' \<and> cr_tunnel_id route = ''t1'') [route_a, route_b] = Some route_a"
  by (simp add: route_a_def)

lemma policy_create:
  "createPolicy example_policy_api ''app-eng-dev'' profile_props [] =
     (Inl (api_error_of 409 ''profile already exists'' ''create'' ''warp_device_profile'' ''app-eng-dev''),
      [\<lparr> req_method = POST, url = ''/accounts/acct/devices/policy'',
         body = Some (buildRequestBody ''app-eng-dev'' None no_settings) \<rparr>])"
  by (simp add: createPolicy_def Let_def example_policy_api_def policy_url_def profile_props_def)

lemma policy_error:
  "profile_exists_error (api_error_of 409 ''profile already exists'' ''create'' ''warp_device_profile'' ''app-eng-dev'')"
proof -
  have "sublist ''already exists'' (''profile '' @ ''already exists'' @ [])"
    by (rule sublist_appendI)
  then show ?thesis by (simp add: profile_exists_error_def api_error_of_def)
qed

lemma policy_find:
  "findPolicyByName example_policy_api ''app-eng-dev'' log =
     (Inr (Some ''p1''), log @ [\<lparr> req_method = GET, url = ''/accounts/acct/devices/policies'', body = None \<rparr>])"
  by (simp add: findPolicyByName_def Let_def example_policy_api_def)

lemma not_retryable_409: "\<not> isStripeV2RetryableError (stripe_error 409)"
  by (simp add: isStripeV2RetryableError_def stripe_error_def)

lemma card_create:
  "rateCards_create (projr (createStripeV2Client example_stripe None)) params io0 =
     (Inl (stripe_error 409),
      \<lparr> sent = [\<lparr> req_method = POST, url = ''/v2/billing/rate_cards'', body = Some params \<rparr>], slept = [] \<rparr>)"
proof -
  have "request_v2 (raw_rate_card (rawRequest example_stripe)) POST ''/v2/billing/rate_cards'' (Some params) io0 =
          (Inl (stripe_error 409),
           io0\<lparr> sent := sent io0 @ [\<lparr> req_method = POST, url = ''/v2/billing/rate_cards'', body = Some params \<rparr>] \<rparr>)"
    by (rule request_v2_first_final) (simp_all add: example_stripe_def not_retryable_409)
  then show ?thesis
    by (simp add: createStripeV2Client_def example_stripe_def io0_def)
qed

lemma card_list:
  "rateCards_list (projr (createStripeV2Client example_stripe None)) s =
     (Inr [example_card], s\<lparr> sent := sent s @ [\<lparr> req_method = GET, url = ''/v2/billing/rate_cards'', body = None \<rparr>] \<rparr>)"
proof -
  have "request_v2 (raw_rate_cards (rawRequest example_stripe)) GET ''/v2/billing/rate_cards'' None s =
          (Inr [example_card], s\<lparr> sent := sent s @ [\<lparr> req_method = GET, url = ''/v2/billing/rate_cards'', body = None \<rparr>] \<rparr>)"
    by (rule request_v2_first_final) (simp_all add: example_stripe_def)
  then show ?thesis
    by (simp add: createStripeV2Client_def example_stripe_def)
qed

lemma card_update:
  "rateCards_update (projr (createStripeV2Client example_stripe None)) ''rc_1'' params s =
     (Inr example_card,
      s\<lparr> sent := sent s @ [\<lparr> req_method = POST, url = ''/v2/billing/rate_cards/rc_1'', body = Some params \<rparr>] \<rparr>)"
proof -
  have "request_v2 (raw_rate_card (rawRequest example_stripe)) POST ''/v2/billing/rate_cards/rc_1'' (Some params) s =
          (Inr example_card,
           s\<lparr> sent := sent s @ [\<lparr> req_method = POST, url = ''/v2/billing/rate_cards/rc_1'', body = Some params \<rparr>] \<rparr>)"
    by (rule request_v2_first_final) (simp_all add: example_stripe_def)
  then show ?thesis
    by (simp add: createStripeV2Client_def example_stripe_def)
qed

lemma ex_facts:
    "trp_network route_props = ''10.0.0.0/8''" "props_tunnelId route_props = ''t1''"
    "trp_comment route_props = None" "trp_virtualNetworkId route_props = None"
    "adopt_setting (trp_adopt route_props) example_scope"
    "rcp_apiKey card_props = None" "adopt_setting (rcp_adopt card_props) example_scope"
    "rcp_lookupKey card_props = Some ''k1''" "v2c_lookup_key example_card = Some ''k1''" "v2c_id example_card = ''rc_1''"
    "wdp_name profile_props = None" "adopt_setting (wdp_adopt profile_props) example_scope"
    "ws_splitTunnel (wdp_settings profile_props) = None"
    "createPhysicalName example_scope ''eng'' = ''app-eng-dev''"
    "now_default example_clock = 5" "now_modified example_clock = 7"
    by (simp_all add: route_props_def props_tunnelId_def example_scope_def card_props_def example_card_def
        profile_props_def no_settings_def example_clock_def)

lemma route_api_facts:
  "accountId gone_route_api = ''acct''" "accountId patch_fails_route_api = ''acct''"
  "accountId list_fails_route_api = ''acct''"
  "api_post patch_fails_route_api = api_post gone_route_api"
  "api_post list_fails_route_api = api_post gone_route_api"
  "handleApiError gone_route_api = api_error_of" "handleApiError patch_fails_route_api = api_error_of"
  "handleApiError list_fails_route_api = api_error_of"
  "api_get patch_fails_route_api = api_get two_page_api" "api_get gone_route_api = api_get two_page_api"
  "accountId two_page_api = ''acct''"
  by (simp_all add: gone_route_api_def patch_fails_route_api_def list_fails_route_api_def two_page_api_def)

lemma conflict_create:
  assumes "api_post api = api_post gone_route_api" "accountId api = ''acct''" "handleApiError api = api_error_of"
  shows "createRoute api n t c v [] =
     (Inl (api_error_of 409 ''route already exists'' ''create'' ''route'' (n @ '' -> '' @ t)),
      [\<lparr> req_method = POST, url = ''/accounts/acct/teamnet/routes'',
         body = Some (JObject ([(''network'', JString n), (''tunnel_id'', JString t)]
                               @ opt_member ''comment'' c @ opt_member ''virtual_network_id'' v)) \<rparr>])"
  using assms by (simp add: createRoute_def Let_def gone_route_api_def routes_url_def)

lemma conflict_error: "route_exists_error (api_error_of 409 txt a b c)"
  by (simp add: route_exists_error_def api_error_of_def)

lemma two_pages_list:
  assumes "api_get api = api_get two_page_api" "accountId api = ''acct''"
  shows "listTunnelRoutes api None log =
           Some (Inr [route_a, route_b],
                 log @ [\<lparr> req_method = GET, url = ''/accounts/acct/teamnet/routes?page=1&per_page=100'', body = None \<rparr>,
                        \<lparr> req_method = GET, url = ''/accounts/acct/teamnet/routes?page=2&per_page=100'', body = None \<rparr>])"
proof -
  have g: "page_response api k = page_response two_page_api k" for k
    using assms by (simp add: page_response_def two_page_api_def)
  have ga: "gathered api p n = gathered two_page_api p n" for p n
    by (simp add: gathered_def g)
  have rq: "page_requests api p n = page_requests two_page_api p n" for p n
    using assms by (simp add: page_requests_def two_page_api_def)
  have "first_stop api None 2"
    using first_stop_two by (simp add: first_stop_def stops_at_def has_more_def g ga)
  from listTunnelRoutes_run [OF this, of log] show ?thesis
    unfolding ga rq two_page_gathered two_page_requests by simp
qed

lemma failed_list_run:
  "listTunnelRoutes list_fails_route_api None log =
     Some (Inl (api_error_of 500 ''unavailable'' ''list'' ''route'' ''all''),
           log @ [\<lparr> req_method = GET, url = ''/accounts/acct/teamnet/routes?page=1&per_page=100'', body = None \<rparr>])"
  unfolding listTunnelRoutes_def
  by (subst listTunnelRoutes_loop.simps)
     (simp add: Let_def list_fails_route_api_def gone_route_api_def two_page_api_def failed_list_def url1)

lemma find_examples:
  "find (\<lambda>route. cr_network route = ''10.0.0.0/8'' \<and> cr_tunnel_id route = ''t1'') [route_a, route_b] = Some route_a"
  "find (\<lambda>route. cr_network route = ''192.168.0.0/24'' \<and> cr_tunnel_id route = ''t1'') [route_a, route_b] = None"
  by (simp_all add: route_a_def route_b_def)

lemma patch_examples:
  "updateRoute gone_route_api ''a'' (Some ''new'') None log =
     (Inr (route_a \<lparr> cr_comment := Some ''new'' \<rparr>),
      log @ [\<lparr> req_method = PATCH, url = ''/accounts/acct/teamnet/routes/a'',
                body = Some (JObject [(''comment'', JString ''new'')]) \<rparr>])"
  "updateRoute patch_fails_route_api ''a'' (Some ''new'') None log =
     (Inl (api_error_of 500 [] ''update'' ''route'' ''a''),
      log @ [\<lparr> req_method = PATCH, url = ''/accounts/acct/teamnet/routes/a'',
                body = Some (JObject [(''comment'', JString ''new'')]) \<rparr>])"
  by (simp_all add: updateRoute_def Let_def patch_fails_route_api_def gone_route_api_def two_page_api_def
      route_url_def no_route_response_def)

lemma policy_api_facts:
  "accountId example_policy_api = ''acct''" "accountId put_fails_policy_api = ''acct''"
  "accountId list_fails_policy_api = ''acct''" "accountId plain_conflict_policy_api = ''acct''"
  "api_post put_fails_policy_api = api_post example_policy_api"
  "api_post list_fails_policy_api = api_post example_policy_api"
  "api_get put_fails_policy_api = api_get example_policy_api"
  "handleApiError example_policy_api = api_error_of" "handleApiError put_fails_policy_api = api_error_of"
  "handleApiError list_fails_policy_api = api_error_of" "handleApiError plain_conflict_policy_api = api_error_of"
  by (simp_all add: example_policy_api_def put_fails_policy_api_def list_fails_policy_api_def
      plain_conflict_policy_api_def)

lemma policy_conflict_create:
  assumes "api_post api = api_post example_policy_api" "accountId api = ''acct''" "handleApiError api = api_error_of"
  shows "createPolicy api name props [] =
     (Inl (api_error_of 409 ''profile already exists'' ''create'' ''warp_device_profile'' name),
      [\<lparr> req_method = POST, url = ''/accounts/acct/devices/policy'',
         body = Some (buildRequestBody name (wdp_enabled props) (wdp_settings props)) \<rparr>])"
  using assms by (simp add: createPolicy_def Let_def example_policy_api_def policy_url_def)

lemma plain_conflict_create:
  "createPolicy plain_conflict_policy_api name props [] =
     (Inl (api_error_of 409 ''conflict'' ''create'' ''warp_device_profile'' name),
      [\<lparr> req_method = POST, url = ''/accounts/acct/devices/policy'',
         body = Some (buildRequestBody name (wdp_enabled props) (wdp_settings props)) \<rparr>])"
  by (simp add: createPolicy_def Let_def plain_conflict_policy_api_def example_policy_api_def policy_url_def)

lemma policy_conflict_error:
  "profile_exists_error (api_error_of 409 ''profile already exists'' a b c)"
proof -
  have "sublist ''already exists'' (''profile '' @ ''already exists'' @ [])"
    by (rule sublist_appendI)
  then show ?thesis by (simp add: profile_exists_error_def api_error_of_def)
qed

lemma policy_lookup:
  assumes "api_get api = api_get example_policy_api" "accountId api = ''acct''"
  shows "findPolicyByName api name log =
     (Inr (if name = ''app-eng-dev'' then Some ''p1'' else None),
      log @ [\<lparr> req_method = GET, url = ''/accounts/acct/devices/policies'', body = None \<rparr>])"
  using assms by (simp add: findPolicyByName_def Let_def example_policy_api_def)

lemma policy_lookup_failed:
  "findPolicyByName list_fails_policy_api name log =
     (Inl (api_error_of 500 ''unavailable'' ''list'' ''warp_device_profile'' ''all''),
      log @ [\<lparr> req_method = GET, url = ''/accounts/acct/devices/policies'', body = None \<rparr>])"
  by (simp add: findPolicyByName_def Let_def list_fails_policy_api_def example_policy_api_def)

lemma split_tunnel_examples:
  "updateSplitTunnel example_policy_api ''p1'' split_example log =
     (Inr (), log @ [\<lparr> req_method = PUT, url = ''/accounts/acct/devices/policy/p1/exclude'',
                        body = Some (split_tunnel_routes split_example) \<rparr>])"
  "updateSplitTunnel put_fails_policy_api ''p1'' split_example log =
     (Inl (api_error_of 500 ''unavailable'' ''update split tunnel excludes'' ''warp_device_profile'' ''p1''),
      log @ [\<lparr> req_method = PUT, url = ''/accounts/acct/devices/policy/p1/exclude'',
                body = Some (split_tunnel_routes split_example) \<rparr>])"
  by (simp_all add: updateSplitTunnel_def Let_def put_fails_policy_api_def example_policy_api_def policy_url_def
      split_example_def failed_policy_def)

lemma stripe_env_facts:
  "importPeer update_fails_stripe = None" "importPeer list_fails_stripe = None" "importPeer example_stripe = None"
  "env_STRIPE_API_KEY update_fails_stripe = Some ''sk_test''" "env_STRIPE_API_KEY list_fails_stripe = Some ''sk_test''"
  "env_STRIPE_API_KEY example_stripe = Some ''sk_test''"
  by (simp_all add: update_fails_stripe_def list_fails_stripe_def example_stripe_def)

lemma stripe_client:
  assumes "importPeer env = None" "env_STRIPE_API_KEY env = Some ''sk_test''"
  shows "createStripeV2Client env None = Inr (projr (createStripeV2Client env None))"
  using assms by (simp add: createStripeV2Client_def)

lemma stripe_client_calls:
  assumes "importPeer env = None" "env_STRIPE_API_KEY env = Some ''sk_test''"
  shows "rateCards_create (projr (createStripeV2Client env None)) params
           = request_v2 (raw_rate_card (rawRequest env)) POST ''/v2/billing/rate_cards'' (Some params)"
    and "rateCards_list (projr (createStripeV2Client env None))
           = request_v2 (raw_rate_cards (rawRequest env)) GET ''/v2/billing/rate_cards'' None"
    and "rateCards_update (projr (createStripeV2Client env None)) i params
           = request_v2 (raw_rate_card (rawRequest env)) POST (''/v2/billing/rate_cards/'' @ i) (Some params)"
  using assms by (simp_all add: createStripeV2Client_def)

lemma stripe_once:
  assumes "raw (sent s) \<lparr> req_method = m, url = path, body = b \<rparr> = Inl (stripe_error st)" "st \<noteq> 429"
  shows "request_v2 raw m path b s
           = (Inl (stripe_error st), s\<lparr> sent := sent s @ [\<lparr> req_method = m, url = path, body = b \<rparr>] \<rparr>)"
  by (rule request_v2_first_final) (use assms in \<open>auto simp: isStripeV2RetryableError_def stripe_error_def\<close>)

lemma stripe_ok:
  assumes "raw (sent s) \<lparr> req_method = m, url = path, body = b \<rparr> = Inr v"
  shows "request_v2 raw m path b s = (Inr v, s\<lparr> sent := sent s @ [\<lparr> req_method = m, url = path, body = b \<rparr>] \<rparr>)"
  by (rule request_v2_first_final) (use assms in auto)

lemma card_conflict:
  assumes "env = example_stripe \<or> env = update_fails_stripe \<or> env = list_fails_stripe"
  shows "rateCards_create (projr (createStripeV2Client env None)) params io0 =
     (Inl (stripe_error 409),
      \<lparr> sent = [\<lparr> req_method = POST, url = ''/v2/billing/rate_cards'', body = Some params \<rparr>], slept = [] \<rparr>)"
proof -
  from assms have e: "importPeer env = None" "env_STRIPE_API_KEY env = Some ''sk_test''"
    using stripe_env_facts by auto
  from assms have r: "raw_rate_card (rawRequest env) (sent io0)
                        \<lparr> req_method = POST, url = ''/v2/billing/rate_cards'', body = Some params \<rparr>
                      = Inl (stripe_error 409)"
    by (auto simp: example_stripe_def update_fails_stripe_def list_fails_stripe_def)
  show ?thesis
    unfolding stripe_client_calls [OF e]
    using stripe_once [where raw = "raw_rate_card (rawRequest env)" and s = io0, OF r] by (simp add: io0_def)
qed

lemma card_lookup:
  assumes "env = example_stripe \<or> env = update_fails_stripe"
  shows "rateCards_list (projr (createStripeV2Client env None)) s =
     (Inr [example_card], s\<lparr> sent := sent s @ [\<lparr> req_method = GET, url = ''/v2/billing/rate_cards'', body = None \<rparr>] \<rparr>)"
proof -
  from assms have e: "importPeer env = None" "env_STRIPE_API_KEY env = Some ''sk_test''"
    using stripe_env_facts by auto
  from assms have r: "raw_rate_cards (rawRequest env) (sent s)
                        \<lparr> req_method = GET, url = ''/v2/billing/rate_cards'', body = None \<rparr> = Inr [example_card]"
    by (auto simp: example_stripe_def update_fails_stripe_def)
  show ?thesis
    unfolding stripe_client_calls [OF e]
    using stripe_ok [where raw = "raw_rate_cards (rawRequest env)" and s = s, OF r] by simp
qed

lemma card_lookup_failed:
  "rateCards_list (projr (createStripeV2Client list_fails_stripe None)) s =
     (Inl (stripe_error 500), s\<lparr> sent := sent s @ [\<lparr> req_method = GET, url = ''/v2/billing/rate_cards'', body = None \<rparr>] \<rparr>)"
proof -
  have e: "importPeer list_fails_stripe = None" "env_STRIPE_API_KEY list_fails_stripe = Some ''sk_test''"
    by (rule stripe_env_facts)+
  have r: "raw_rate_cards (rawRequest list_fails_stripe) (sent s)
             \<lparr> req_method = GET, url = ''/v2/billing/rate_cards'', body = None \<rparr> = Inl (stripe_error 500)"
    by (simp add: list_fails_stripe_def)
  show ?thesis
    unfolding stripe_client_calls [OF e]
    using stripe_once [where raw = "raw_rate_cards (rawRequest list_fails_stripe)" and s = s, OF r] by simp
qed

lemma card_update_failed:
  "rateCards_update (projr (createStripeV2Client update_fails_stripe None)) ''rc_1'' params s =
     (Inl (stripe_error 500),
      s\<lparr> sent := sent s @ [\<lparr> req_method = POST, url = ''/v2/billing/rate_cards/rc_1'', body = Some params \<rparr>] \<rparr>)"
proof -
  have e: "importPeer update_fails_stripe = None" "env_STRIPE_API_KEY update_fails_stripe = Some ''sk_test''"
    by (rule stripe_env_facts)+
  have r: "raw_rate_card (rawRequest update_fails_stripe) (sent s)
             \<lparr> req_method = POST, url = ''/v2/billing/rate_cards/'' @ ''rc_1'', body = Some params \<rparr> = Inl (stripe_error 500)"
    by (simp add: update_fails_stripe_def)
  show ?thesis
    unfolding stripe_client_calls [OF e]
    using stripe_once [where raw = "raw_rate_card (rawRequest update_fails_stripe)" and s = s, OF r] by simp
qed

lemma updated_props_facts:
  "props_tunnelId (route_props \<lparr> trp_adopt := a \<rparr>) = ''t1''"
  "props_tunnelId (route_props \<lparr> trp_network := n \<rparr>) = ''t1''"
  "props_tunnelId (route_props \<lparr> trp_comment := c \<rparr>) = ''t1''"
  "cr_id route_a = ''a''"
  "ws_splitTunnel (wdp_settings tunnel_props) = Some split_example"
  "wdp_name tunnel_props = None" "adopt_setting (wdp_adopt tunnel_props) example_scope"
  "route_output route_a = route_out"
  "mapV2RateCardToOutput example_card = card_out"
  "cr_network route_a = ''10.0.0.0/8''" "cr_tunnel_id route_a = ''t1''"
  "cr_network route_b \<noteq> ''192.168.0.0/24''" "cr_network route_a \<noteq> ''192.168.0.0/24''"
  "isStripeV2ConflictError (stripe_error 409)"
  by (simp_all add: isStripeV2ConflictError_def stripe_error_def route_props_def props_tunnelId_def route_a_def route_b_def tunnel_props_def example_scope_def
      profile_props_def no_settings_def
      route_out_def route_output_def card_out_def mapV2RateCardToOutput_def example_card_def)

lemma example_clients:
  "createStripeV2Client example_stripe None = Inr (projr (createStripeV2Client example_stripe None))"
  "createStripeV2Client update_fails_stripe None = Inr (projr (createStripeV2Client update_fails_stripe None))"
  "createStripeV2Client list_fails_stripe None = Inr (projr (createStripeV2Client list_fails_stripe None))"
  by (rule stripe_client; rule stripe_env_facts)+

lemma other_id_facts:
  "accountId other_id_route_api = ''acct''" "api_post other_id_route_api = api_post gone_route_api"
  "handleApiError other_id_route_api = api_error_of" "api_get other_id_route_api = api_get two_page_api"
  by (simp_all add: other_id_route_api_def gone_route_api_def two_page_api_def)

lemma other_id_patch:
  "updateRoute other_id_route_api ''a'' (Some ''new'') None log =
     (Inr (route_b \<lparr> cr_comment := Some ''new'' \<rparr>),
      log @ [\<lparr> req_method = PATCH, url = ''/accounts/acct/teamnet/routes/a'',
                body = Some (JObject [(''comment'', JString ''new'')]) \<rparr>])"
  by (simp add: updateRoute_def Let_def other_id_route_api_def gone_route_api_def two_page_api_def route_url_def)

lemma plain_conflict_not_known:
  "\<not> profile_exists_error (api_error_of 409 ''conflict'' a b c)"
proof -
  have "\<not> sublist xs ''conflict''" if "8 < length xs" for xs :: string
    using that sublist_length_le [of xs "''conflict''"] by auto
  then show ?thesis by (simp add: profile_exists_error_def api_error_of_def)
qed

lemma card_no_key: "rcp_lookupKey (card_props \<lparr> rcp_lookupKey := None \<rparr>) = None"
  by simp

text \<open>
  C1 (as amended). A create-phase invocation whose create call failed. The error tests
  of the three handlers are the first three conjuncts. When the handler does not adopt
  (the effective adopt setting is false, the error is none its test accepts, or, for
  RateCard, no lookupKey is given) the error of the create call is thrown and nothing
  but the create call was sent. When it adopts, the existing object is looked up by its
  natural key (network and tunnel id, lookupKey, profile name): a failed lookup throws
  its error; no match throws an error (for RateCard the conflict error itself); a match
  is returned in the output shape of a create, after the requested props have been
  applied to it (a PATCH of comment and virtual network for TunnelRoute when one is
  given, an update for RateCard, a PUT of the split tunnel for WarpDeviceProfile when
  one is given), the error of that request being thrown when it fails. The output
  carries the id of the existing object: always for WarpDeviceProfile and for a
  TunnelRoute without comment and virtual network, and otherwise when the answer to
  the update carries that id.
\<close>

theorem adoption_on_conflict:
  "(route_exists_error e \<longleftrightarrow>
      (instanceof_Error e \<and> (sublist ''already exists'' (message e) \<or> sublist ''duplicate'' (message e)
                                \<or> err_status e = Some 409)))
   \<and> (isStripeV2ConflictError e \<longleftrightarrow> (err_status e = Some 409 \<or> err_statusCode e = Some 409))
   \<and> (profile_exists_error e \<longleftrightarrow>
      (err_class e = CloudflareApiError \<and> (err_status e = Some 400 \<or> err_status e = Some 409)
       \<and> (sublist ''already exists'' (message e) \<or> sublist ''duplicate'' (message e)
            \<or> sublist ''precedence must be unique'' (message e))))
   \<and> (ctx_phase thisT = Create
      \<and> createRoute apiT (trp_network propsT) (props_tunnelId propsT) (trp_comment propsT)
            (trp_virtualNetworkId propsT) [] = (Inl errT, logT)
      \<and> \<not> (adopt_setting (trp_adopt propsT) (ctx_scope thisT) \<and> route_exists_error errT)
      \<longrightarrow> TunnelRoute (Inr apiT) thisT identT propsT = Some (Thrown errT, logT))
   \<and> (ctx_phase thisT = Create
      \<and> createRoute apiT (trp_network propsT) (props_tunnelId propsT) (trp_comment propsT)
            (trp_virtualNetworkId propsT) [] = (Inl errT, logT)
      \<and> adopt_setting (trp_adopt propsT) (ctx_scope thisT) \<and> route_exists_error errT
      \<and> listTunnelRoutes apiT None logT = Some (Inl lookupT, logT')
      \<longrightarrow> TunnelRoute (Inr apiT) thisT identT propsT = Some (Thrown lookupT, logT'))
   \<and> (ctx_phase thisT = Create
      \<and> createRoute apiT (trp_network propsT) (props_tunnelId propsT) (trp_comment propsT)
            (trp_virtualNetworkId propsT) [] = (Inl errT, logT)
      \<and> adopt_setting (trp_adopt propsT) (ctx_scope thisT) \<and> route_exists_error errT
      \<and> listTunnelRoutes apiT None logT = Some (Inr routes, logT')
      \<and> find (\<lambda>route. cr_network route = trp_network propsT \<and> cr_tunnel_id route = props_tunnelId propsT) routes = None
      \<longrightarrow> TunnelRoute (Inr apiT) thisT identT propsT =
            Some (Thrown (adoption_failed (trp_network propsT) (props_tunnelId propsT)), logT'))
   \<and> (ctx_phase thisT = Create
      \<and> createRoute apiT (trp_network propsT) (props_tunnelId propsT) (trp_comment propsT)
            (trp_virtualNetworkId propsT) [] = (Inl errT, logT)
      \<and> adopt_setting (trp_adopt propsT) (ctx_scope thisT) \<and> route_exists_error errT
      \<and> listTunnelRoutes apiT None logT = Some (Inr routes, logT')
      \<and> find (\<lambda>route. cr_network route = trp_network propsT \<and> cr_tunnel_id route = props_tunnelId propsT) routes
            = Some existingT
      \<and> trp_comment propsT = None \<and> trp_virtualNetworkId propsT = None
      \<longrightarrow> cr_network existingT = trp_network propsT \<and> cr_tunnel_id existingT = props_tunnelId propsT
          \<and> TunnelRoute (Inr apiT) thisT identT propsT = Some (Returned (route_output existingT), logT')
          \<and> tr_id (route_output existingT) = cr_id existingT)
   \<and> (ctx_phase thisT = Create
      \<and> createRoute apiT (trp_network propsT) (props_tunnelId propsT) (trp_comment propsT)
            (trp_virtualNetworkId propsT) [] = (Inl errT, logT)
      \<and> adopt_setting (trp_adopt propsT) (ctx_scope thisT) \<and> route_exists_error errT
      \<and> listTunnelRoutes apiT None logT = Some (Inr routes, logT')
      \<and> find (\<lambda>route. cr_network route = trp_network propsT \<and> cr_tunnel_id route = props_tunnelId propsT) routes
            = Some existingT
      \<and> (trp_comment propsT \<noteq> None \<or> trp_virtualNetworkId propsT \<noteq> None)
      \<and> updateRoute apiT (cr_id existingT) (trp_comment propsT) (trp_virtualNetworkId propsT) logT' = (appliedT, logT'')
      \<longrightarrow> cr_network existingT = trp_network propsT \<and> cr_tunnel_id existingT = props_tunnelId propsT
          \<and> TunnelRoute (Inr apiT) thisT identT propsT =
              Some (case appliedT of Inl e \<Rightarrow> Thrown e | Inr updated \<Rightarrow> Returned (route_output updated), logT''))
   \<and> (ctx_phase thisT = Create
      \<and> createRoute apiT (trp_network propsT) (props_tunnelId propsT) (trp_comment propsT)
            (trp_virtualNetworkId propsT) [] = (Inl errT, logT)
      \<and> adopt_setting (trp_adopt propsT) (ctx_scope thisT) \<and> route_exists_error errT
      \<and> listTunnelRoutes apiT None logT = Some (Inr routes, logT')
      \<and> find (\<lambda>route. cr_network route = trp_network propsT \<and> cr_tunnel_id route = props_tunnelId propsT) routes
            = Some existingT
      \<and> (trp_comment propsT \<noteq> None \<or> trp_virtualNetworkId propsT \<noteq> None)
      \<and> updateRoute apiT (cr_id existingT) (trp_comment propsT) (trp_virtualNetworkId propsT) logT' = (Inr updatedT, logT'')
      \<and> cr_id updatedT = cr_id existingT
      \<longrightarrow> (\<exists>out. TunnelRoute (Inr apiT) thisT identT propsT = Some (Returned out, logT'')
                 \<and> tr_id out = cr_id existingT))
   \<and> (ctx_phase thisC = Create
      \<and> createStripeV2Client envC (map_option KeySecret (rcp_apiKey propsC)) = Inr clientC
      \<and> rateCards_create clientC (RateCard_create_params propsC) io0 = (Inl errC, sC)
      \<and> \<not> (isStripeV2ConflictError errC \<and> adopt_setting (rcp_adopt propsC) (ctx_scope thisC)
              \<and> truthy_str (rcp_lookupKey propsC))
      \<longrightarrow> RateCard envC thisC identC propsC = (Thrown errC, sC))
   \<and> (ctx_phase thisC = Create
      \<and> createStripeV2Client envC (map_option KeySecret (rcp_apiKey propsC)) = Inr clientC
      \<and> rateCards_create clientC (RateCard_create_params propsC) io0 = (Inl errC, sC)
      \<and> adopt_setting (rcp_adopt propsC) (ctx_scope thisC) \<and> isStripeV2ConflictError errC
      \<and> truthy_str (rcp_lookupKey propsC)
      \<and> rateCards_list clientC sC = (Inl lookupC, sC')
      \<longrightarrow> RateCard envC thisC identC propsC = (Thrown lookupC, sC'))
   \<and> (ctx_phase thisC = Create
      \<and> createStripeV2Client envC (map_option KeySecret (rcp_apiKey propsC)) = Inr clientC
      \<and> rateCards_create clientC (RateCard_create_params propsC) io0 = (Inl errC, sC)
      \<and> adopt_setting (rcp_adopt propsC) (ctx_scope thisC) \<and> isStripeV2ConflictError errC
      \<and> truthy_str (rcp_lookupKey propsC)
      \<and> rateCards_list clientC sC = (Inr cards, sC')
      \<and> find (\<lambda>rc. v2c_lookup_key rc = rcp_lookupKey propsC) cards = None
      \<longrightarrow> RateCard envC thisC identC propsC = (Thrown errC, sC'))
   \<and> (ctx_phase thisC = Create
      \<and> createStripeV2Client envC (map_option KeySecret (rcp_apiKey propsC)) = Inr clientC
      \<and> rateCards_create clientC (RateCard_create_params propsC) io0 = (Inl errC, sC)
      \<and> adopt_setting (rcp_adopt propsC) (ctx_scope thisC) \<and> isStripeV2ConflictError errC
      \<and> truthy_str (rcp_lookupKey propsC)
      \<and> rateCards_list clientC sC = (Inr cards, sC')
      \<and> find (\<lambda>rc. v2c_lookup_key rc = rcp_lookupKey propsC) cards = Some existingC
      \<and> rateCards_update clientC (v2c_id existingC) (RateCard_adopt_params propsC) sC' = (appliedC, sC'')
      \<longrightarrow> v2c_lookup_key existingC = rcp_lookupKey propsC
          \<and> RateCard envC thisC identC propsC =
              (case appliedC of Inl e \<Rightarrow> Thrown e | Inr updated \<Rightarrow> Returned (mapV2RateCardToOutput updated), sC''))
   \<and> (ctx_phase thisC = Create
      \<and> createStripeV2Client envC (map_option KeySecret (rcp_apiKey propsC)) = Inr clientC
      \<and> rateCards_create clientC (RateCard_create_params propsC) io0 = (Inl errC, sC)
      \<and> adopt_setting (rcp_adopt propsC) (ctx_scope thisC) \<and> isStripeV2ConflictError errC
      \<and> truthy_str (rcp_lookupKey propsC)
      \<and> rateCards_list clientC sC = (Inr cards, sC')
      \<and> find (\<lambda>rc. v2c_lookup_key rc = rcp_lookupKey propsC) cards = Some existingC
      \<and> rateCards_update clientC (v2c_id existingC) (RateCard_adopt_params propsC) sC' = (Inr updatedC, sC'')
      \<and> v2c_id updatedC = v2c_id existingC
      \<longrightarrow> (\<exists>out. RateCard envC thisC identC propsC = (Returned out, sC'') \<and> rc_id out = v2c_id existingC))
   \<and> (ctx_phase thisW = Create
      \<and> nameW = physical_name (wdp_name propsW) (map_option wd_name (ctx_output thisW)) (ctx_scope thisW) identW
      \<and> createPolicy apiW nameW propsW [] = (Inl errW, logW)
      \<and> \<not> (adopt_setting (wdp_adopt propsW) (ctx_scope thisW) \<and> profile_exists_error errW)
      \<longrightarrow> WarpDeviceProfile (Inr apiW) clk thisW identW propsW = (Thrown errW, logW))
   \<and> (ctx_phase thisW = Create
      \<and> nameW = physical_name (wdp_name propsW) (map_option wd_name (ctx_output thisW)) (ctx_scope thisW) identW
      \<and> createPolicy apiW nameW propsW [] = (Inl errW, logW)
      \<and> adopt_setting (wdp_adopt propsW) (ctx_scope thisW) \<and> profile_exists_error errW
      \<and> findPolicyByName apiW nameW logW = (Inl lookupW, logW')
      \<longrightarrow> WarpDeviceProfile (Inr apiW) clk thisW identW propsW = (Thrown lookupW, logW'))
   \<and> (ctx_phase thisW = Create
      \<and> nameW = physical_name (wdp_name propsW) (map_option wd_name (ctx_output thisW)) (ctx_scope thisW) identW
      \<and> createPolicy apiW nameW propsW [] = (Inl errW, logW)
      \<and> adopt_setting (wdp_adopt propsW) (ctx_scope thisW) \<and> profile_exists_error errW
      \<and> findPolicyByName apiW nameW logW = (Inr None, logW')
      \<longrightarrow> WarpDeviceProfile (Inr apiW) clk thisW identW propsW = (Thrown (profile_adoption_failed nameW), logW'))
   \<and> (ctx_phase thisW = Create
      \<and> nameW = physical_name (wdp_name propsW) (map_option wd_name (ctx_output thisW)) (ctx_scope thisW) identW
      \<and> createPolicy apiW nameW propsW [] = (Inl errW, logW)
      \<and> adopt_setting (wdp_adopt propsW) (ctx_scope thisW) \<and> profile_exists_error errW
      \<and> findPolicyByName apiW nameW logW = (Inr (Some existingW), logW')
      \<and> ws_splitTunnel (wdp_settings propsW) = None
      \<longrightarrow> (\<exists>policies policy.
              json_body (api_get apiW (''/accounts/'' @ accountId apiW @ ''/devices/policies'')) = Some policies
              \<and> policy \<in> set policies \<and> cpl_name policy = nameW
              \<and> existingW = (case cpl_policy_id policy of Some i \<Rightarrow> i | None \<Rightarrow> cpl_id policy))
          \<and> WarpDeviceProfile (Inr apiW) clk thisW identW propsW = (Returned (profile_output existingW nameW propsW
                      (case ctx_output thisW of Some out \<Rightarrow> wd_createdAt out | None \<Rightarrow> now_default clk)
                      (now_modified clk)), logW')
          \<and> wd_policyId (profile_output existingW nameW propsW
                      (case ctx_output thisW of Some out \<Rightarrow> wd_createdAt out | None \<Rightarrow> now_default clk)
                      (now_modified clk)) = existingW)
   \<and> (ctx_phase thisW = Create
      \<and> nameW = physical_name (wdp_name propsW) (map_option wd_name (ctx_output thisW)) (ctx_scope thisW) identW
      \<and> createPolicy apiW nameW propsW [] = (Inl errW, logW)
      \<and> adopt_setting (wdp_adopt propsW) (ctx_scope thisW) \<and> profile_exists_error errW
      \<and> findPolicyByName apiW nameW logW = (Inr (Some existingW), logW')
      \<and> ws_splitTunnel (wdp_settings propsW) = Some configW
      \<and> updateSplitTunnel apiW existingW configW logW' = (appliedW, logW'')
      \<longrightarrow> (\<exists>policies policy.
              json_body (api_get apiW (''/accounts/'' @ accountId apiW @ ''/devices/policies'')) = Some policies
              \<and> policy \<in> set policies \<and> cpl_name policy = nameW
              \<and> existingW = (case cpl_policy_id policy of Some i \<Rightarrow> i | None \<Rightarrow> cpl_id policy))
          \<and> WarpDeviceProfile (Inr apiW) clk thisW identW propsW =
              (case appliedW of Inl e \<Rightarrow> Thrown e | Inr u \<Rightarrow> Returned (profile_output existingW nameW propsW
                      (case ctx_output thisW of Some out \<Rightarrow> wd_createdAt out | None \<Rightarrow> now_default clk)
                      (now_modified clk)), logW''))"
proof (intro conjI impI)
  show "route_exists_error e \<longleftrightarrow>
      (instanceof_Error e \<and> (sublist ''already exists'' (message e) \<or> sublist ''duplicate'' (message e)
                                \<or> err_status e = Some 409))"
    by (simp only: route_exists_error_def)
  show "isStripeV2ConflictError e \<longleftrightarrow> (err_status e = Some 409 \<or> err_statusCode e = Some 409)"
    by (simp only: isStripeV2ConflictError_def)
  show "profile_exists_error e \<longleftrightarrow>
      (err_class e = CloudflareApiError \<and> (err_status e = Some 400 \<or> err_status e = Some 409)
       \<and> (sublist ''already exists'' (message e) \<or> sublist ''duplicate'' (message e)
            \<or> sublist ''precedence must be unique'' (message e)))"
    by (simp only: profile_exists_error_def)
next
  assume a: "ctx_phase thisT = Create
      \<and> createRoute apiT (trp_network propsT) (props_tunnelId propsT) (trp_comment propsT)
            (trp_virtualNetworkId propsT) [] = (Inl errT, logT)
      \<and> \<not> (adopt_setting (trp_adopt propsT) (ctx_scope thisT) \<and> route_exists_error errT)"
  show "TunnelRoute (Inr apiT) thisT identT propsT = Some (Thrown errT, logT)"
    by (rule TunnelRoute_not_adopted [where tunnelId = "props_tunnelId propsT"]) (use a in blast)+
next
  assume a: "ctx_phase thisT = Create
      \<and> createRoute apiT (trp_network propsT) (props_tunnelId propsT) (trp_comment propsT)
            (trp_virtualNetworkId propsT) [] = (Inl errT, logT)
      \<and> adopt_setting (trp_adopt propsT) (ctx_scope thisT) \<and> route_exists_error errT
      \<and> listTunnelRoutes apiT None logT = Some (Inl lookupT, logT')"
  show "TunnelRoute (Inr apiT) thisT identT propsT = Some (Thrown lookupT, logT')"
    by (rule TunnelRoute_lookup_failed [where log = logT and error = errT and tunnelId = "props_tunnelId propsT"])
       (use a in blast)+
next
  assume a: "ctx_phase thisT = Create
      \<and> createRoute apiT (trp_network propsT) (props_tunnelId propsT) (trp_comment propsT)
            (trp_virtualNetworkId propsT) [] = (Inl errT, logT)
      \<and> adopt_setting (trp_adopt propsT) (ctx_scope thisT) \<and> route_exists_error errT
      \<and> listTunnelRoutes apiT None logT = Some (Inr routes, logT')
      \<and> find (\<lambda>route. cr_network route = trp_network propsT \<and> cr_tunnel_id route = props_tunnelId propsT) routes = None"
  show "TunnelRoute (Inr apiT) thisT identT propsT =
            Some (Thrown (adoption_failed (trp_network propsT) (props_tunnelId propsT)), logT')"
    by (rule TunnelRoute_adopt_missing [where routes = routes and log = logT and error = errT]) (use a in blast)+
next
  assume a: "ctx_phase thisT = Create
      \<and> createRoute apiT (trp_network propsT) (props_tunnelId propsT) (trp_comment propsT)
            (trp_virtualNetworkId propsT) [] = (Inl errT, logT)
      \<and> adopt_setting (trp_adopt propsT) (ctx_scope thisT) \<and> route_exists_error errT
      \<and> listTunnelRoutes apiT None logT = Some (Inr routes, logT')
      \<and> find (\<lambda>route. cr_network route = trp_network propsT \<and> cr_tunnel_id route = props_tunnelId propsT) routes
            = Some existingT
      \<and> trp_comment propsT = None \<and> trp_virtualNetworkId propsT = None"
  then have f: "find (\<lambda>route. cr_network route = trp_network propsT \<and> cr_tunnel_id route = props_tunnelId propsT) routes
            = Some existingT" by blast
  from find_natural_key [OF f]
  show "cr_network existingT = trp_network propsT" and "cr_tunnel_id existingT = props_tunnelId propsT"
    by blast+
  show "TunnelRoute (Inr apiT) thisT identT propsT = Some (Returned (route_output existingT), logT')"
    by (rule TunnelRoute_adopt_plain [where routes = routes and log = logT and error = errT
          and tunnelId = "props_tunnelId propsT"]) (use a in blast)+
  show "tr_id (route_output existingT) = cr_id existingT" by (simp add: route_output_def)
next
  assume a: "ctx_phase thisT = Create
      \<and> createRoute apiT (trp_network propsT) (props_tunnelId propsT) (trp_comment propsT)
            (trp_virtualNetworkId propsT) [] = (Inl errT, logT)
      \<and> adopt_setting (trp_adopt propsT) (ctx_scope thisT) \<and> route_exists_error errT
      \<and> listTunnelRoutes apiT None logT = Some (Inr routes, logT')
      \<and> find (\<lambda>route. cr_network route = trp_network propsT \<and> cr_tunnel_id route = props_tunnelId propsT) routes
            = Some existingT
      \<and> (trp_comment propsT \<noteq> None \<or> trp_virtualNetworkId propsT \<noteq> None)
      \<and> updateRoute apiT (cr_id existingT) (trp_comment propsT) (trp_virtualNetworkId propsT) logT' = (appliedT, logT'')"
  then have f: "find (\<lambda>route. cr_network route = trp_network propsT \<and> cr_tunnel_id route = props_tunnelId propsT) routes
            = Some existingT" by blast
  from find_natural_key [OF f]
  show "cr_network existingT = trp_network propsT" and "cr_tunnel_id existingT = props_tunnelId propsT"
    by blast+
  show "TunnelRoute (Inr apiT) thisT identT propsT =
              Some (case appliedT of Inl e \<Rightarrow> Thrown e | Inr updated \<Rightarrow> Returned (route_output updated), logT'')"
    by (rule TunnelRoute_adopt_applied [where routes = routes and log = logT and error = errT
          and tunnelId = "props_tunnelId propsT" and log' = logT' and existing = existingT]) (use a in blast)+
next
  assume a: "ctx_phase thisT = Create
      \<and> createRoute apiT (trp_network propsT) (props_tunnelId propsT) (trp_comment propsT)
            (trp_virtualNetworkId propsT) [] = (Inl errT, logT)
      \<and> adopt_setting (trp_adopt propsT) (ctx_scope thisT) \<and> route_exists_error errT
      \<and> listTunnelRoutes apiT None logT = Some (Inr routes, logT')
      \<and> find (\<lambda>route. cr_network route = trp_network propsT \<and> cr_tunnel_id route = props_tunnelId propsT) routes
            = Some existingT
      \<and> (trp_comment propsT \<noteq> None \<or> trp_virtualNetworkId propsT \<noteq> None)
      \<and> updateRoute apiT (cr_id existingT) (trp_comment propsT) (trp_virtualNetworkId propsT) logT' = (Inr updatedT, logT'')
      \<and> cr_id updatedT = cr_id existingT"
  have "TunnelRoute (Inr apiT) thisT identT propsT =
              Some (case Inr updatedT of Inl e \<Rightarrow> Thrown e | Inr updated \<Rightarrow> Returned (route_output updated), logT'')"
    by (rule TunnelRoute_adopt_applied [where routes = routes and log = logT and error = errT
          and tunnelId = "props_tunnelId propsT" and log' = logT' and existing = existingT]) (use a in blast)+
  moreover from a have "tr_id (route_output updatedT) = cr_id existingT" by (simp add: route_output_def)
  ultimately show "\<exists>out. TunnelRoute (Inr apiT) thisT identT propsT = Some (Returned out, logT'')
                 \<and> tr_id out = cr_id existingT" by simp
next
  assume a: "ctx_phase thisC = Create
      \<and> createStripeV2Client envC (map_option KeySecret (rcp_apiKey propsC)) = Inr clientC
      \<and> rateCards_create clientC (RateCard_create_params propsC) io0 = (Inl errC, sC)
      \<and> \<not> (isStripeV2ConflictError errC \<and> adopt_setting (rcp_adopt propsC) (ctx_scope thisC)
              \<and> truthy_str (rcp_lookupKey propsC))"
  show "RateCard envC thisC identC propsC = (Thrown errC, sC)"
    by (rule RateCard_not_adopted [where client = clientC]) (use a in blast)+
next
  assume a: "ctx_phase thisC = Create
      \<and> createStripeV2Client envC (map_option KeySecret (rcp_apiKey propsC)) = Inr clientC
      \<and> rateCards_create clientC (RateCard_create_params propsC) io0 = (Inl errC, sC)
      \<and> adopt_setting (rcp_adopt propsC) (ctx_scope thisC) \<and> isStripeV2ConflictError errC
      \<and> truthy_str (rcp_lookupKey propsC)
      \<and> rateCards_list clientC sC = (Inl lookupC, sC')"
  show "RateCard envC thisC identC propsC = (Thrown lookupC, sC')"
    by (rule RateCard_lookup_failed [where client = clientC and error = errC and s = sC]) (use a in blast)+
next
  assume a: "ctx_phase thisC = Create
      \<and> createStripeV2Client envC (map_option KeySecret (rcp_apiKey propsC)) = Inr clientC
      \<and> rateCards_create clientC (RateCard_create_params propsC) io0 = (Inl errC, sC)
      \<and> adopt_setting (rcp_adopt propsC) (ctx_scope thisC) \<and> isStripeV2ConflictError errC
      \<and> truthy_str (rcp_lookupKey propsC)
      \<and> rateCards_list clientC sC = (Inr cards, sC')
      \<and> find (\<lambda>rc. v2c_lookup_key rc = rcp_lookupKey propsC) cards = None"
  show "RateCard envC thisC identC propsC = (Thrown errC, sC')"
    by (rule RateCard_adopt_missing [where client = clientC and s = sC and cards = cards]) (use a in blast)+
next
  assume a: "ctx_phase thisC = Create
      \<and> createStripeV2Client envC (map_option KeySecret (rcp_apiKey propsC)) = Inr clientC
      \<and> rateCards_create clientC (RateCard_create_params propsC) io0 = (Inl errC, sC)
      \<and> adopt_setting (rcp_adopt propsC) (ctx_scope thisC) \<and> isStripeV2ConflictError errC
      \<and> truthy_str (rcp_lookupKey propsC)
      \<and> rateCards_list clientC sC = (Inr cards, sC')
      \<and> find (\<lambda>rc. v2c_lookup_key rc = rcp_lookupKey propsC) cards = Some existingC
      \<and> rateCards_update clientC (v2c_id existingC) (RateCard_adopt_params propsC) sC' = (appliedC, sC'')"
  then have f: "find (\<lambda>rc. v2c_lookup_key rc = rcp_lookupKey propsC) cards = Some existingC" by blast
  from find_Some_holds [OF f] show "v2c_lookup_key existingC = rcp_lookupKey propsC" by blast
  show "RateCard envC thisC identC propsC =
              (case appliedC of Inl e \<Rightarrow> Thrown e | Inr updated \<Rightarrow> Returned (mapV2RateCardToOutput updated), sC'')"
    by (rule RateCard_adopt_applied [where client = clientC and error = errC and s = sC and cards = cards
          and s' = sC' and existing = existingC]) (use a in blast)+
next
  assume a: "ctx_phase thisC = Create
      \<and> createStripeV2Client envC (map_option KeySecret (rcp_apiKey propsC)) = Inr clientC
      \<and> rateCards_create clientC (RateCard_create_params propsC) io0 = (Inl errC, sC)
      \<and> adopt_setting (rcp_adopt propsC) (ctx_scope thisC) \<and> isStripeV2ConflictError errC
      \<and> truthy_str (rcp_lookupKey propsC)
      \<and> rateCards_list clientC sC = (Inr cards, sC')
      \<and> find (\<lambda>rc. v2c_lookup_key rc = rcp_lookupKey propsC) cards = Some existingC
      \<and> rateCards_update clientC (v2c_id existingC) (RateCard_adopt_params propsC) sC' = (Inr updatedC, sC'')
      \<and> v2c_id updatedC = v2c_id existingC"
  have "RateCard envC thisC identC propsC =
              (case Inr updatedC of Inl e \<Rightarrow> Thrown e | Inr updated \<Rightarrow> Returned (mapV2RateCardToOutput updated), sC'')"
    by (rule RateCard_adopt_applied [where client = clientC and error = errC and s = sC and cards = cards
          and s' = sC' and existing = existingC]) (use a in blast)+
  moreover from a have "rc_id (mapV2RateCardToOutput updatedC) = v2c_id existingC"
    by (simp add: mapV2RateCardToOutput_def)
  ultimately show "\<exists>out. RateCard envC thisC identC propsC = (Returned out, sC'') \<and> rc_id out = v2c_id existingC"
    by simp
next
  assume a: "ctx_phase thisW = Create
      \<and> nameW = physical_name (wdp_name propsW) (map_option wd_name (ctx_output thisW)) (ctx_scope thisW) identW
      \<and> createPolicy apiW nameW propsW [] = (Inl errW, logW)
      \<and> \<not> (adopt_setting (wdp_adopt propsW) (ctx_scope thisW) \<and> profile_exists_error errW)"
  show "WarpDeviceProfile (Inr apiW) clk thisW identW propsW = (Thrown errW, logW)"
    by (rule WarpDeviceProfile_not_adopted [where name = nameW]) (use a in blast)+
next
  assume a: "ctx_phase thisW = Create
      \<and> nameW = physical_name (wdp_name propsW) (map_option wd_name (ctx_output thisW)) (ctx_scope thisW) identW
      \<and> createPolicy apiW nameW propsW [] = (Inl errW, logW)
      \<and> adopt_setting (wdp_adopt propsW) (ctx_scope thisW) \<and> profile_exists_error errW
      \<and> findPolicyByName apiW nameW logW = (Inl lookupW, logW')"
  show "WarpDeviceProfile (Inr apiW) clk thisW identW propsW = (Thrown lookupW, logW')"
    by (rule WarpDeviceProfile_lookup_failed [where name = nameW and error = errW and log = logW]) (use a in blast)+
next
  assume a: "ctx_phase thisW = Create
      \<and> nameW = physical_name (wdp_name propsW) (map_option wd_name (ctx_output thisW)) (ctx_scope thisW) identW
      \<and> createPolicy apiW nameW propsW [] = (Inl errW, logW)
      \<and> adopt_setting (wdp_adopt propsW) (ctx_scope thisW) \<and> profile_exists_error errW
      \<and> findPolicyByName apiW nameW logW = (Inr None, logW')"
  show "WarpDeviceProfile (Inr apiW) clk thisW identW propsW = (Thrown (profile_adoption_failed nameW), logW')"
    by (rule WarpDeviceProfile_adopt_missing [where error = errW and log = logW]) (use a in blast)+
next
  assume a: "ctx_phase thisW = Create
      \<and> nameW = physical_name (wdp_name propsW) (map_option wd_name (ctx_output thisW)) (ctx_scope thisW) identW
      \<and> createPolicy apiW nameW propsW [] = (Inl errW, logW)
      \<and> adopt_setting (wdp_adopt propsW) (ctx_scope thisW) \<and> profile_exists_error errW
      \<and> findPolicyByName apiW nameW logW = (Inr (Some existingW), logW')
      \<and> ws_splitTunnel (wdp_settings propsW) = None"
  then have f: "findPolicyByName apiW nameW logW = (Inr (Some existingW), logW')" by blast
  from findPolicyByName_natural_key [OF f]
  show "\<exists>policies policy.
              json_body (api_get apiW (''/accounts/'' @ accountId apiW @ ''/devices/policies'')) = Some policies
              \<and> policy \<in> set policies \<and> cpl_name policy = nameW
              \<and> existingW = (case cpl_policy_id policy of Some i \<Rightarrow> i | None \<Rightarrow> cpl_id policy)" .
  show "WarpDeviceProfile (Inr apiW) clk thisW identW propsW = (Returned (profile_output existingW nameW propsW
                      (case ctx_output thisW of Some out \<Rightarrow> wd_createdAt out | None \<Rightarrow> now_default clk)
                      (now_modified clk)), logW')"
    by (rule WarpDeviceProfile_adopt_found [where error = errW and log = logW]) (use a in blast)+
  show "wd_policyId (profile_output existingW nameW propsW
                      (case ctx_output thisW of Some out \<Rightarrow> wd_createdAt out | None \<Rightarrow> now_default clk)
                      (now_modified clk)) = existingW"
    by (simp add: profile_output_def)
next
  assume a: "ctx_phase thisW = Create
      \<and> nameW = physical_name (wdp_name propsW) (map_option wd_name (ctx_output thisW)) (ctx_scope thisW) identW
      \<and> createPolicy apiW nameW propsW [] = (Inl errW, logW)
      \<and> adopt_setting (wdp_adopt propsW) (ctx_scope thisW) \<and> profile_exists_error errW
      \<and> findPolicyByName apiW nameW logW = (Inr (Some existingW), logW')
      \<and> ws_splitTunnel (wdp_settings propsW) = Some configW
      \<and> updateSplitTunnel apiW existingW configW logW' = (appliedW, logW'')"
  then have f: "findPolicyByName apiW nameW logW = (Inr (Some existingW), logW')" by blast
  from findPolicyByName_natural_key [OF f]
  show "\<exists>policies policy.
              json_body (api_get apiW (''/accounts/'' @ accountId apiW @ ''/devices/policies'')) = Some policies
              \<and> policy \<in> set policies \<and> cpl_name policy = nameW
              \<and> existingW = (case cpl_policy_id policy of Some i \<Rightarrow> i | None \<Rightarrow> cpl_id policy)" .
  show "WarpDeviceProfile (Inr apiW) clk thisW identW propsW =
              (case appliedW of Inl e \<Rightarrow> Thrown e | Inr u \<Rightarrow> Returned (profile_output existingW nameW propsW
                      (case ctx_output thisW of Some out \<Rightarrow> wd_createdAt out | None \<Rightarrow> now_default clk)
                      (now_modified clk)), logW'')"
    by (rule WarpDeviceProfile_adopt_applied [where error = errW and log = logW and log' = logW' and config = configW])
       (use a in blast)+
qed

theorem adoption_on_conflict_witness:
  "TunnelRoute (Inr gone_route_api) (\<lparr> ctx_phase = Create, ctx_output = None :: TunnelRoute option, ctx_scope = example_scope \<rparr>) ''r'' (route_props \<lparr> trp_adopt := Some False \<rparr>) = Some (Thrown (api_error_of 409 ''route already exists'' ''create'' ''route'' ''10.0.0.0/8 -> t1''), [(\<lparr> req_method = POST, url = ''/accounts/acct/teamnet/routes'',
                 body = Some (JObject [(''network'', JString ''10.0.0.0/8''), (''tunnel_id'', JString ''t1'')]) \<rparr>)])
   \<and> TunnelRoute (Inr list_fails_route_api) (\<lparr> ctx_phase = Create, ctx_output = None :: TunnelRoute option, ctx_scope = example_scope \<rparr>) ''r'' route_props
       = Some (Thrown (api_error_of 500 ''unavailable'' ''list'' ''route'' ''all''), [(\<lparr> req_method = POST, url = ''/accounts/acct/teamnet/routes'',
                 body = Some (JObject [(''network'', JString ''10.0.0.0/8''), (''tunnel_id'', JString ''t1'')]) \<rparr>), (\<lparr> req_method = GET, url = ''/accounts/acct/teamnet/routes?page=1&per_page=100'', body = None \<rparr>)])
   \<and> TunnelRoute (Inr gone_route_api) (\<lparr> ctx_phase = Create, ctx_output = None :: TunnelRoute option, ctx_scope = example_scope \<rparr>) ''r'' (route_props \<lparr> trp_network := ''192.168.0.0/24'' \<rparr>)
       = Some (Thrown (adoption_failed ''192.168.0.0/24'' ''t1''), [(\<lparr> req_method = POST, url = ''/accounts/acct/teamnet/routes'',
                 body = Some (JObject [(''network'', JString ''192.168.0.0/24''), (''tunnel_id'', JString ''t1'')]) \<rparr>), (\<lparr> req_method = GET, url = ''/accounts/acct/teamnet/routes?page=1&per_page=100'', body = None \<rparr>), (\<lparr> req_method = GET, url = ''/accounts/acct/teamnet/routes?page=2&per_page=100'', body = None \<rparr>)])
   \<and> TunnelRoute (Inr gone_route_api) (\<lparr> ctx_phase = Create, ctx_output = None :: TunnelRoute option, ctx_scope = example_scope \<rparr>) ''r'' route_props = Some (Returned route_out, [(\<lparr> req_method = POST, url = ''/accounts/acct/teamnet/routes'',
                 body = Some (JObject [(''network'', JString ''10.0.0.0/8''), (''tunnel_id'', JString ''t1'')]) \<rparr>), (\<lparr> req_method = GET, url = ''/accounts/acct/teamnet/routes?page=1&per_page=100'', body = None \<rparr>), (\<lparr> req_method = GET, url = ''/accounts/acct/teamnet/routes?page=2&per_page=100'', body = None \<rparr>)])
       \<and> tr_id route_out = cr_id route_a
   \<and> TunnelRoute (Inr gone_route_api) (\<lparr> ctx_phase = Create, ctx_output = None :: TunnelRoute option, ctx_scope = example_scope \<rparr>) ''r'' (route_props \<lparr> trp_comment := Some ''new'' \<rparr>)
       = Some (Returned (route_output (route_a \<lparr> cr_comment := Some ''new'' \<rparr>)), [(\<lparr> req_method = POST, url = ''/accounts/acct/teamnet/routes'',
                 body = Some (JObject [(''network'', JString ''10.0.0.0/8''), (''tunnel_id'', JString ''t1''),
                                       (''comment'', JString ''new'')]) \<rparr>), (\<lparr> req_method = GET, url = ''/accounts/acct/teamnet/routes?page=1&per_page=100'', body = None \<rparr>), (\<lparr> req_method = GET, url = ''/accounts/acct/teamnet/routes?page=2&per_page=100'', body = None \<rparr>), (\<lparr> req_method = PATCH, url = ''/accounts/acct/teamnet/routes/a'',
                 body = Some (JObject [(''comment'', JString ''new'')]) \<rparr>)])
   \<and> TunnelRoute (Inr patch_fails_route_api) (\<lparr> ctx_phase = Create, ctx_output = None :: TunnelRoute option, ctx_scope = example_scope \<rparr>) ''r'' (route_props \<lparr> trp_comment := Some ''new'' \<rparr>)
       = Some (Thrown (api_error_of 500 [] ''update'' ''route'' ''a''), [(\<lparr> req_method = POST, url = ''/accounts/acct/teamnet/routes'',
                 body = Some (JObject [(''network'', JString ''10.0.0.0/8''), (''tunnel_id'', JString ''t1''),
                                       (''comment'', JString ''new'')]) \<rparr>), (\<lparr> req_method = GET, url = ''/accounts/acct/teamnet/routes?page=1&per_page=100'', body = None \<rparr>), (\<lparr> req_method = GET, url = ''/accounts/acct/teamnet/routes?page=2&per_page=100'', body = None \<rparr>), (\<lparr> req_method = PATCH, url = ''/accounts/acct/teamnet/routes/a'',
                 body = Some (JObject [(''comment'', JString ''new'')]) \<rparr>)])
   \<and> (\<exists>out. TunnelRoute (Inr gone_route_api) (\<lparr> ctx_phase = Create, ctx_output = None :: TunnelRoute option, ctx_scope = example_scope \<rparr>) ''r'' (route_props \<lparr> trp_comment := Some ''new'' \<rparr>) = Some (Returned out, [(\<lparr> req_method = POST, url = ''/accounts/acct/teamnet/routes'',
                 body = Some (JObject [(''network'', JString ''10.0.0.0/8''), (''tunnel_id'', JString ''t1''),
                                       (''comment'', JString ''new'')]) \<rparr>), (\<lparr> req_method = GET, url = ''/accounts/acct/teamnet/routes?page=1&per_page=100'', body = None \<rparr>), (\<lparr> req_method = GET, url = ''/accounts/acct/teamnet/routes?page=2&per_page=100'', body = None \<rparr>), (\<lparr> req_method = PATCH, url = ''/accounts/acct/teamnet/routes/a'',
                 body = Some (JObject [(''comment'', JString ''new'')]) \<rparr>)])
              \<and> tr_id out = cr_id route_a)
   \<and> RateCard example_stripe (\<lparr> ctx_phase = Create, ctx_output = None :: RateCard option, ctx_scope = example_scope \<rparr>) ''card'' (card_props \<lparr> rcp_adopt := Some False \<rparr>) = (Thrown (stripe_error 409), \<lparr> sent = [\<lparr> req_method = POST, url = ''/v2/billing/rate_cards'', body = Some (RateCard_create_params (card_props \<lparr> rcp_adopt := Some False \<rparr>)) \<rparr>], slept = [] \<rparr>)
   \<and> RateCard list_fails_stripe (\<lparr> ctx_phase = Create, ctx_output = None :: RateCard option, ctx_scope = example_scope \<rparr>) ''card'' card_props = (Thrown (stripe_error 500), \<lparr> sent = [\<lparr> req_method = POST, url = ''/v2/billing/rate_cards'', body = Some (RateCard_create_params card_props) \<rparr>, (\<lparr> req_method = GET, url = ''/v2/billing/rate_cards'', body = None \<rparr>)], slept = [] \<rparr>)
   \<and> RateCard example_stripe (\<lparr> ctx_phase = Create, ctx_output = None :: RateCard option, ctx_scope = example_scope \<rparr>) ''card'' (card_props \<lparr> rcp_lookupKey := Some ''other'' \<rparr>) = (Thrown (stripe_error 409), \<lparr> sent = [\<lparr> req_method = POST, url = ''/v2/billing/rate_cards'', body = Some (RateCard_create_params (card_props \<lparr> rcp_lookupKey := Some ''other'' \<rparr>)) \<rparr>, (\<lparr> req_method = GET, url = ''/v2/billing/rate_cards'', body = None \<rparr>)], slept = [] \<rparr>)
   \<and> RateCard example_stripe (\<lparr> ctx_phase = Create, ctx_output = None :: RateCard option, ctx_scope = example_scope \<rparr>) ''card'' card_props = (Returned card_out, \<lparr> sent = [\<lparr> req_method = POST, url = ''/v2/billing/rate_cards'', body = Some (RateCard_create_params card_props) \<rparr>, (\<lparr> req_method = GET, url = ''/v2/billing/rate_cards'', body = None \<rparr>), \<lparr> req_method = POST, url = ''/v2/billing/rate_cards/rc_1'', body = Some (RateCard_adopt_params card_props) \<rparr>], slept = [] \<rparr>)
   \<and> RateCard update_fails_stripe (\<lparr> ctx_phase = Create, ctx_output = None :: RateCard option, ctx_scope = example_scope \<rparr>) ''card'' card_props = (Thrown (stripe_error 500), \<lparr> sent = [\<lparr> req_method = POST, url = ''/v2/billing/rate_cards'', body = Some (RateCard_create_params card_props) \<rparr>, (\<lparr> req_method = GET, url = ''/v2/billing/rate_cards'', body = None \<rparr>), \<lparr> req_method = POST, url = ''/v2/billing/rate_cards/rc_1'', body = Some (RateCard_adopt_params card_props) \<rparr>], slept = [] \<rparr>)
   \<and> (\<exists>out. RateCard example_stripe (\<lparr> ctx_phase = Create, ctx_output = None :: RateCard option, ctx_scope = example_scope \<rparr>) ''card'' card_props = (Returned out, \<lparr> sent = [\<lparr> req_method = POST, url = ''/v2/billing/rate_cards'', body = Some (RateCard_create_params card_props) \<rparr>, (\<lparr> req_method = GET, url = ''/v2/billing/rate_cards'', body = None \<rparr>), \<lparr> req_method = POST, url = ''/v2/billing/rate_cards/rc_1'', body = Some (RateCard_adopt_params card_props) \<rparr>], slept = [] \<rparr>)
              \<and> rc_id out = v2c_id example_card)
   \<and> WarpDeviceProfile (Inr example_policy_api) example_clock (\<lparr> ctx_phase = Create, ctx_output = None :: WarpDeviceProfile option, ctx_scope = example_scope \<rparr>) ''eng'' (profile_props \<lparr> wdp_adopt := Some False \<rparr>)
       = (Thrown ((api_error_of 409 ''profile already exists'' ''create'' ''warp_device_profile'' ''app-eng-dev'')), [\<lparr> req_method = POST, url = ''/accounts/acct/devices/policy'',
                 body = Some (buildRequestBody ''app-eng-dev'' (wdp_enabled (profile_props \<lparr> wdp_adopt := Some False \<rparr>)) (wdp_settings (profile_props \<lparr> wdp_adopt := Some False \<rparr>))) \<rparr>])
   \<and> WarpDeviceProfile (Inr list_fails_policy_api) example_clock (\<lparr> ctx_phase = Create, ctx_output = None :: WarpDeviceProfile option, ctx_scope = example_scope \<rparr>) ''eng'' profile_props
       = (Thrown (api_error_of 500 ''unavailable'' ''list'' ''warp_device_profile'' ''all''),
          [\<lparr> req_method = POST, url = ''/accounts/acct/devices/policy'',
                 body = Some (buildRequestBody ''app-eng-dev'' (wdp_enabled profile_props) (wdp_settings profile_props)) \<rparr>, (\<lparr> req_method = GET, url = ''/accounts/acct/devices/policies'', body = None \<rparr>)])
   \<and> WarpDeviceProfile (Inr example_policy_api) example_clock (\<lparr> ctx_phase = Create, ctx_output = None :: WarpDeviceProfile option, ctx_scope = example_scope \<rparr>) ''eng'' (profile_props \<lparr> wdp_name := Some ''other'' \<rparr>)
       = (Thrown (profile_adoption_failed ''other''), [\<lparr> req_method = POST, url = ''/accounts/acct/devices/policy'',
                 body = Some (buildRequestBody ''other'' (wdp_enabled (profile_props \<lparr> wdp_name := Some ''other'' \<rparr>)) (wdp_settings (profile_props \<lparr> wdp_name := Some ''other'' \<rparr>))) \<rparr>, (\<lparr> req_method = GET, url = ''/accounts/acct/devices/policies'', body = None \<rparr>)])
   \<and> WarpDeviceProfile (Inr example_policy_api) example_clock (\<lparr> ctx_phase = Create, ctx_output = None :: WarpDeviceProfile option, ctx_scope = example_scope \<rparr>) ''eng'' profile_props
       = (Returned (profile_output ''p1'' ''app-eng-dev'' profile_props 5 7), [\<lparr> req_method = POST, url = ''/accounts/acct/devices/policy'',
                 body = Some (buildRequestBody ''app-eng-dev'' (wdp_enabled profile_props) (wdp_settings profile_props)) \<rparr>, (\<lparr> req_method = GET, url = ''/accounts/acct/devices/policies'', body = None \<rparr>)])
       \<and> wd_policyId (profile_output ''p1'' ''app-eng-dev'' profile_props 5 7) = ''p1''
   \<and> WarpDeviceProfile (Inr example_policy_api) example_clock (\<lparr> ctx_phase = Create, ctx_output = None :: WarpDeviceProfile option, ctx_scope = example_scope \<rparr>) ''eng'' tunnel_props
       = (Returned (profile_output ''p1'' ''app-eng-dev'' tunnel_props 5 7),
          [\<lparr> req_method = POST, url = ''/accounts/acct/devices/policy'',
                 body = Some (buildRequestBody ''app-eng-dev'' (wdp_enabled tunnel_props) (wdp_settings tunnel_props)) \<rparr>, (\<lparr> req_method = GET, url = ''/accounts/acct/devices/policies'', body = None \<rparr>), (\<lparr> req_method = PUT, url = ''/accounts/acct/devices/policy/p1/exclude'',
                 body = Some (split_tunnel_routes split_example) \<rparr>)])
   \<and> WarpDeviceProfile (Inr put_fails_policy_api) example_clock (\<lparr> ctx_phase = Create, ctx_output = None :: WarpDeviceProfile option, ctx_scope = example_scope \<rparr>) ''eng'' tunnel_props
       = (Thrown (api_error_of 500 ''unavailable'' ''update split tunnel excludes'' ''warp_device_profile'' ''p1''), [\<lparr> req_method = POST, url = ''/accounts/acct/devices/policy'',
                 body = Some (buildRequestBody ''app-eng-dev'' (wdp_enabled tunnel_props) (wdp_settings tunnel_props)) \<rparr>, (\<lparr> req_method = GET, url = ''/accounts/acct/devices/policies'', body = None \<rparr>), (\<lparr> req_method = PUT, url = ''/accounts/acct/devices/policy/p1/exclude'',
                 body = Some (split_tunnel_routes split_example) \<rparr>)])"
proof -
  note w_facts = ex_facts updated_props_facts route_api_facts conflict_create conflict_error two_pages_list
    failed_list_run find_examples patch_examples policy_api_facts policy_conflict_create policy_conflict_error
    policy_lookup policy_lookup_failed split_tunnel_examples stripe_env_facts card_conflict
    card_lookup card_lookup_failed card_update_failed card_update physical_name_def
  note r_facts = ex_facts updated_props_facts
  let ?ctxT = "\<lparr> ctx_phase = Create, ctx_output = None :: TunnelRoute option, ctx_scope = example_scope \<rparr>"
  let ?ctxC = "\<lparr> ctx_phase = Create, ctx_output = None :: RateCard option, ctx_scope = example_scope \<rparr>"
  let ?ctxW = "\<lparr> ctx_phase = Create, ctx_output = None :: WarpDeviceProfile option, ctx_scope = example_scope \<rparr>"
  let ?postA = "\<lparr> req_method = POST, url = ''/accounts/acct/teamnet/routes'',
                 body = Some (JObject [(''network'', JString ''10.0.0.0/8''), (''tunnel_id'', JString ''t1'')]) \<rparr>"
  let ?postB = "\<lparr> req_method = POST, url = ''/accounts/acct/teamnet/routes'',
                 body = Some (JObject [(''network'', JString ''192.168.0.0/24''), (''tunnel_id'', JString ''t1'')]) \<rparr>"
  let ?postC = "\<lparr> req_method = POST, url = ''/accounts/acct/teamnet/routes'',
                 body = Some (JObject [(''network'', JString ''10.0.0.0/8''), (''tunnel_id'', JString ''t1''),
                                       (''comment'', JString ''new'')]) \<rparr>"
  let ?get1 = "\<lparr> req_method = GET, url = ''/accounts/acct/teamnet/routes?page=1&per_page=100'', body = None \<rparr>"
  let ?get2 = "\<lparr> req_method = GET, url = ''/accounts/acct/teamnet/routes?page=2&per_page=100'', body = None \<rparr>"
  let ?patch = "\<lparr> req_method = PATCH, url = ''/accounts/acct/teamnet/routes/a'',
                 body = Some (JObject [(''comment'', JString ''new'')]) \<rparr>"
  let ?errA = "api_error_of 409 ''route already exists'' ''create'' ''route'' ''10.0.0.0/8 -> t1''"
  let ?errB = "api_error_of 409 ''route already exists'' ''create'' ''route'' ''192.168.0.0/24 -> t1''"
  let ?cget = "\<lparr> req_method = GET, url = ''/v2/billing/rate_cards'', body = None \<rparr>"
  let ?wget = "\<lparr> req_method = GET, url = ''/accounts/acct/devices/policies'', body = None \<rparr>"
  let ?wput = "\<lparr> req_method = PUT, url = ''/accounts/acct/devices/policy/p1/exclude'',
                 body = Some (split_tunnel_routes split_example) \<rparr>"
  have h_t1: "ctx_phase (?ctxT) = Create
      \<and> createRoute (gone_route_api) (trp_network (route_props \<lparr> trp_adopt := Some False \<rparr>)) (props_tunnelId (route_props \<lparr> trp_adopt := Some False \<rparr>)) (trp_comment (route_props \<lparr> trp_adopt := Some False \<rparr>))
            (trp_virtualNetworkId (route_props \<lparr> trp_adopt := Some False \<rparr>)) [] = (Inl (?errA), ([?postA]))
      \<and> \<not> (adopt_setting (trp_adopt (route_props \<lparr> trp_adopt := Some False \<rparr>)) (ctx_scope (?ctxT)) \<and> route_exists_error (?errA))"
    by (simp add: w_facts)
  note w_t1 = adoption_on_conflict
    [where thisT = "?ctxT" and apiT = "gone_route_api" and identT = "''r''" and propsT = "route_props \<lparr> trp_adopt := Some False \<rparr>" and errT = "?errA" and logT = "[?postA]",
     THEN conjunct2, THEN conjunct2, THEN conjunct2, THEN conjunct1, rule_format, OF h_t1]
  from w_t1 have r_t1: "TunnelRoute (Inr gone_route_api) ?ctxT ''r'' (route_props \<lparr> trp_adopt := Some False \<rparr>) = Some (Thrown ?errA, [?postA])"
    by (simp add: r_facts)
  have h_t2: "ctx_phase (?ctxT) = Create
      \<and> createRoute (list_fails_route_api) (trp_network (route_props)) (props_tunnelId (route_props)) (trp_comment (route_props))
            (trp_virtualNetworkId (route_props)) [] = (Inl (?errA), ([?postA]))
      \<and> adopt_setting (trp_adopt (route_props)) (ctx_scope (?ctxT)) \<and> route_exists_error (?errA)
      \<and> listTunnelRoutes (list_fails_route_api) None ([?postA]) = Some (Inl (api_error_of 500 ''unavailable'' ''list'' ''route'' ''all''), ([?postA, ?get1]))"
    by (simp add: w_facts)
  note w_t2 = adoption_on_conflict
    [where thisT = "?ctxT" and apiT = "list_fails_route_api" and identT = "''r''" and propsT = "route_props" and errT = "?errA" and logT = "[?postA]" and lookupT = "api_error_of 500 ''unavailable'' ''list'' ''route'' ''all''" and logT' = "[?postA, ?get1]",
     THEN conjunct2, THEN conjunct2, THEN conjunct2, THEN conjunct2, THEN conjunct1, rule_format, OF h_t2]
  from w_t2 have r_t2: "TunnelRoute (Inr list_fails_route_api) ?ctxT ''r'' route_props
       = Some (Thrown (api_error_of 500 ''unavailable'' ''list'' ''route'' ''all''), [?postA, ?get1])"
    by (simp add: r_facts)
  have h_t3: "ctx_phase (?ctxT) = Create
      \<and> createRoute (gone_route_api) (trp_network (route_props \<lparr> trp_network := ''192.168.0.0/24'' \<rparr>)) (props_tunnelId (route_props \<lparr> trp_network := ''192.168.0.0/24'' \<rparr>)) (trp_comment (route_props \<lparr> trp_network := ''192.168.0.0/24'' \<rparr>))
            (trp_virtualNetworkId (route_props \<lparr> trp_network := ''192.168.0.0/24'' \<rparr>)) [] = (Inl (?errB), ([?postB]))
      \<and> adopt_setting (trp_adopt (route_props \<lparr> trp_network := ''192.168.0.0/24'' \<rparr>)) (ctx_scope (?ctxT)) \<and> route_exists_error (?errB)
      \<and> listTunnelRoutes (gone_route_api) None ([?postB]) = Some (Inr ([route_a, route_b]), ([?postB, ?get1, ?get2]))
      \<and> find (\<lambda>route. cr_network route = trp_network (route_props \<lparr> trp_network := ''192.168.0.0/24'' \<rparr>) \<and> cr_tunnel_id route = props_tunnelId (route_props \<lparr> trp_network := ''192.168.0.0/24'' \<rparr>)) ([route_a, route_b]) = None"
    by (simp add: w_facts)
  note w_t3 = adoption_on_conflict
    [where thisT = "?ctxT" and apiT = "gone_route_api" and identT = "''r''" and propsT = "route_props \<lparr> trp_network := ''192.168.0.0/24'' \<rparr>" and errT = "?errB" and logT = "[?postB]" and routes = "[route_a, route_b]" and logT' = "[?postB, ?get1, ?get2]",
     THEN conjunct2, THEN conjunct2, THEN conjunct2, THEN conjunct2, THEN conjunct2, THEN conjunct1, rule_format, OF h_t3]
  from w_t3 have r_t3: "TunnelRoute (Inr gone_route_api) ?ctxT ''r'' (route_props \<lparr> trp_network := ''192.168.0.0/24'' \<rparr>)
       = Some (Thrown (adoption_failed ''192.168.0.0/24'' ''t1''), [?postB, ?get1, ?get2])"
    by (simp add: r_facts)
  have h_t4: "ctx_phase (?ctxT) = Create
      \<and> createRoute (gone_route_api) (trp_network (route_props)) (props_tunnelId (route_props)) (trp_comment (route_props))
            (trp_virtualNetworkId (route_props)) [] = (Inl (?errA), ([?postA]))
      \<and> adopt_setting (trp_adopt (route_props)) (ctx_scope (?ctxT)) \<and> route_exists_error (?errA)
      \<and> listTunnelRoutes (gone_route_api) None ([?postA]) = Some (Inr ([route_a, route_b]), ([?postA, ?get1, ?get2]))
      \<and> find (\<lambda>route. cr_network route = trp_network (route_props) \<and> cr_tunnel_id route = props_tunnelId (route_props)) ([route_a, route_b])
            = Some (route_a)
      \<and> trp_comment (route_props) = None \<and> trp_virtualNetworkId (route_props) = None"
    by (simp add: w_facts)
  note w_t4 = adoption_on_conflict
    [where thisT = "?ctxT" and apiT = "gone_route_api" and identT = "''r''" and propsT = "route_props" and errT = "?errA" and logT = "[?postA]" and routes = "[route_a, route_b]" and existingT = "route_a" and logT' = "[?postA, ?get1, ?get2]",
     THEN conjunct2, THEN conjunct2, THEN conjunct2, THEN conjunct2, THEN conjunct2, THEN conjunct2, THEN conjunct1, rule_format, OF h_t4]
  from w_t4 have r_t4: "TunnelRoute (Inr gone_route_api) ?ctxT ''r'' route_props = Some (Returned route_out, [?postA, ?get1, ?get2])
       \<and> tr_id route_out = cr_id route_a"
    by (simp add: r_facts)
  have h_t5a: "ctx_phase (?ctxT) = Create
      \<and> createRoute (gone_route_api) (trp_network (route_props \<lparr> trp_comment := Some ''new'' \<rparr>)) (props_tunnelId (route_props \<lparr> trp_comment := Some ''new'' \<rparr>)) (trp_comment (route_props \<lparr> trp_comment := Some ''new'' \<rparr>))
            (trp_virtualNetworkId (route_props \<lparr> trp_comment := Some ''new'' \<rparr>)) [] = (Inl (?errA), ([?postC]))
      \<and> adopt_setting (trp_adopt (route_props \<lparr> trp_comment := Some ''new'' \<rparr>)) (ctx_scope (?ctxT)) \<and> route_exists_error (?errA)
      \<and> listTunnelRoutes (gone_route_api) None ([?postC]) = Some (Inr ([route_a, route_b]), ([?postC, ?get1, ?get2]))
      \<and> find (\<lambda>route. cr_network route = trp_network (route_props \<lparr> trp_comment := Some ''new'' \<rparr>) \<and> cr_tunnel_id route = props_tunnelId (route_props \<lparr> trp_comment := Some ''new'' \<rparr>)) ([route_a, route_b])
            = Some (route_a)
      \<and> (trp_comment (route_props \<lparr> trp_comment := Some ''new'' \<rparr>) \<noteq> None \<or> trp_virtualNetworkId (route_props \<lparr> trp_comment := Some ''new'' \<rparr>) \<noteq> None)
      \<and> updateRoute (gone_route_api) (cr_id (route_a)) (trp_comment (route_props \<lparr> trp_comment := Some ''new'' \<rparr>)) (trp_virtualNetworkId (route_props \<lparr> trp_comment := Some ''new'' \<rparr>)) ([?postC, ?get1, ?get2]) = ((Inr (route_a \<lparr> cr_comment := Some ''new'' \<rparr>)), ([?postC, ?get1, ?get2, ?patch]))"
    by (simp add: w_facts)
  note w_t5a = adoption_on_conflict
    [where thisT = "?ctxT" and apiT = "gone_route_api" and identT = "''r''" and propsT = "route_props \<lparr> trp_comment := Some ''new'' \<rparr>" and errT = "?errA" and logT = "[?postC]" and routes = "[route_a, route_b]" and existingT = "route_a" and appliedT = "Inr (route_a \<lparr> cr_comment := Some ''new'' \<rparr>)" and logT' = "[?postC, ?get1, ?get2]" and logT'' = "[?postC, ?get1, ?get2, ?patch]",
     THEN conjunct2, THEN conjunct2, THEN conjunct2, THEN conjunct2, THEN conjunct2, THEN conjunct2, THEN conjunct2, THEN conjunct1, rule_format, OF h_t5a]
  from w_t5a have r_t5a: "TunnelRoute (Inr gone_route_api) ?ctxT ''r'' (route_props \<lparr> trp_comment := Some ''new'' \<rparr>)
       = Some (Returned (route_output (route_a \<lparr> cr_comment := Some ''new'' \<rparr>)), [?postC, ?get1, ?get2, ?patch])"
    by (simp add: r_facts)
  have h_t5b: "ctx_phase (?ctxT) = Create
      \<and> createRoute (patch_fails_route_api) (trp_network (route_props \<lparr> trp_comment := Some ''new'' \<rparr>)) (props_tunnelId (route_props \<lparr> trp_comment := Some ''new'' \<rparr>)) (trp_comment (route_props \<lparr> trp_comment := Some ''new'' \<rparr>))
            (trp_virtualNetworkId (route_props \<lparr> trp_comment := Some ''new'' \<rparr>)) [] = (Inl (?errA), ([?postC]))
      \<and> adopt_setting (trp_adopt (route_props \<lparr> trp_comment := Some ''new'' \<rparr>)) (ctx_scope (?ctxT)) \<and> route_exists_error (?errA)
      \<and> listTunnelRoutes (patch_fails_route_api) None ([?postC]) = Some (Inr ([route_a, route_b]), ([?postC, ?get1, ?get2]))
      \<and> find (\<lambda>route. cr_network route = trp_network (route_props \<lparr> trp_comment := Some ''new'' \<rparr>) \<and> cr_tunnel_id route = props_tunnelId (route_props \<lparr> trp_comment := Some ''new'' \<rparr>)) ([route_a, route_b])
            = Some (route_a)
      \<and> (trp_comment (route_props \<lparr> trp_comment := Some ''new'' \<rparr>) \<noteq> None \<or> trp_virtualNetworkId (route_props \<lparr> trp_comment := Some ''new'' \<rparr>) \<noteq> None)
      \<and> updateRoute (patch_fails_route_api) (cr_id (route_a)) (trp_comment (route_props \<lparr> trp_comment := Some ''new'' \<rparr>)) (trp_virtualNetworkId (route_props \<lparr> trp_comment := Some ''new'' \<rparr>)) ([?postC, ?get1, ?get2]) = ((Inl (api_error_of 500 [] ''update'' ''route'' ''a'')), ([?postC, ?get1, ?get2, ?patch]))"
    by (simp add: w_facts)
  note w_t5b = adoption_on_conflict
    [where thisT = "?ctxT" and apiT = "patch_fails_route_api" and identT = "''r''" and propsT = "route_props \<lparr> trp_comment := Some ''new'' \<rparr>" and errT = "?errA" and logT = "[?postC]" and routes = "[route_a, route_b]" and existingT = "route_a" and appliedT = "Inl (api_error_of 500 [] ''update'' ''route'' ''a'')" and logT' = "[?postC, ?get1, ?get2]" and logT'' = "[?postC, ?get1, ?get2, ?patch]",
     THEN conjunct2, THEN conjunct2, THEN conjunct2, THEN conjunct2, THEN conjunct2, THEN conjunct2, THEN conjunct2, THEN conjunct1, rule_format, OF h_t5b]
  from w_t5b have r_t5b: "TunnelRoute (Inr patch_fails_route_api) ?ctxT ''r'' (route_props \<lparr> trp_comment := Some ''new'' \<rparr>)
       = Some (Thrown (api_error_of 500 [] ''update'' ''route'' ''a''), [?postC, ?get1, ?get2, ?patch])"
    by (simp add: r_facts)
  have h_t6: "ctx_phase (?ctxT) = Create
      \<and> createRoute (gone_route_api) (trp_network (route_props \<lparr> trp_comment := Some ''new'' \<rparr>)) (props_tunnelId (route_props \<lparr> trp_comment := Some ''new'' \<rparr>)) (trp_comment (route_props \<lparr> trp_comment := Some ''new'' \<rparr>))
            (trp_virtualNetworkId (route_props \<lparr> trp_comment := Some ''new'' \<rparr>)) [] = (Inl (?errA), ([?postC]))
      \<and> adopt_setting (trp_adopt (route_props \<lparr> trp_comment := Some ''new'' \<rparr>)) (ctx_scope (?ctxT)) \<and> route_exists_error (?errA)
      \<and> listTunnelRoutes (gone_route_api) None ([?postC]) = Some (Inr ([route_a, route_b]), ([?postC, ?get1, ?get2]))
      \<and> find (\<lambda>route. cr_network route = trp_network (route_props \<lparr> trp_comment := Some ''new'' \<rparr>) \<and> cr_tunnel_id route = props_tunnelId (route_props \<lparr> trp_comment := Some ''new'' \<rparr>)) ([route_a, route_b])
            = Some (route_a)
      \<and> (trp_comment (route_props \<lparr> trp_comment := Some ''new'' \<rparr>) \<noteq> None \<or> trp_virtualNetworkId (route_props \<lparr> trp_comment := Some ''new'' \<rparr>) \<noteq> None)
      \<and> updateRoute (gone_route_api) (cr_id (route_a)) (trp_comment (route_props \<lparr> trp_comment := Some ''new'' \<rparr>)) (trp_virtualNetworkId (route_props \<lparr> trp_comment := Some ''new'' \<rparr>)) ([?postC, ?get1, ?get2]) = (Inr (route_a \<lparr> cr_comment := Some ''new'' \<rparr>), ([?postC, ?get1, ?get2, ?patch]))
      \<and> cr_id (route_a \<lparr> cr_comment := Some ''new'' \<rparr>) = cr_id (route_a)"
    by (simp add: w_facts)
  note w_t6 = adoption_on_conflict
    [where thisT = "?ctxT" and apiT = "gone_route_api" and identT = "''r''" and propsT = "route_props \<lparr> trp_comment := Some ''new'' \<rparr>" and errT = "?errA" and logT = "[?postC]" and routes = "[route_a, route_b]" and existingT = "route_a" and updatedT = "route_a \<lparr> cr_comment := Some ''new'' \<rparr>" and logT' = "[?postC, ?get1, ?get2]" and logT'' = "[?postC, ?get1, ?get2, ?patch]",
     THEN conjunct2, THEN conjunct2, THEN conjunct2, THEN conjunct2, THEN conjunct2, THEN conjunct2, THEN conjunct2, THEN conjunct2, THEN conjunct1, rule_format, OF h_t6]
  from w_t6 have r_t6: "(\<exists>out. TunnelRoute (Inr gone_route_api) ?ctxT ''r'' (route_props \<lparr> trp_comment := Some ''new'' \<rparr>) = Some (Returned out, [?postC, ?get1, ?get2, ?patch])
              \<and> tr_id out = cr_id route_a)"
    by (simp add: r_facts)
  have h_c1: "ctx_phase (?ctxC) = Create
      \<and> createStripeV2Client (example_stripe) (map_option KeySecret (rcp_apiKey (card_props \<lparr> rcp_adopt := Some False \<rparr>))) = Inr (projr (createStripeV2Client example_stripe None))
      \<and> rateCards_create (projr (createStripeV2Client example_stripe None)) (RateCard_create_params (card_props \<lparr> rcp_adopt := Some False \<rparr>)) io0 = (Inl (stripe_error 409), (\<lparr> sent = [\<lparr> req_method = POST, url = ''/v2/billing/rate_cards'', body = Some (RateCard_create_params (card_props \<lparr> rcp_adopt := Some False \<rparr>)) \<rparr>], slept = [] \<rparr>))
      \<and> \<not> (isStripeV2ConflictError (stripe_error 409) \<and> adopt_setting (rcp_adopt (card_props \<lparr> rcp_adopt := Some False \<rparr>)) (ctx_scope (?ctxC))
              \<and> truthy_str (rcp_lookupKey (card_props \<lparr> rcp_adopt := Some False \<rparr>)))"
    using example_clients by (simp add: w_facts)
  note w_c1 = adoption_on_conflict
    [where thisC = "?ctxC" and envC = "example_stripe" and identC = "''card''" and propsC = "card_props \<lparr> rcp_adopt := Some False \<rparr>" and clientC = "projr (createStripeV2Client example_stripe None)" and errC = "stripe_error 409" and sC = "\<lparr> sent = [\<lparr> req_method = POST, url = ''/v2/billing/rate_cards'', body = Some (RateCard_create_params (card_props \<lparr> rcp_adopt := Some False \<rparr>)) \<rparr>], slept = [] \<rparr>",
     THEN conjunct2, THEN conjunct2, THEN conjunct2, THEN conjunct2, THEN conjunct2, THEN conjunct2, THEN conjunct2, THEN conjunct2, THEN conjunct2, THEN conjunct1, rule_format, OF h_c1]
  from w_c1 have r_c1: "RateCard example_stripe ?ctxC ''card'' (card_props \<lparr> rcp_adopt := Some False \<rparr>) = (Thrown (stripe_error 409), \<lparr> sent = [\<lparr> req_method = POST, url = ''/v2/billing/rate_cards'', body = Some (RateCard_create_params (card_props \<lparr> rcp_adopt := Some False \<rparr>)) \<rparr>], slept = [] \<rparr>)"
    by (simp add: r_facts)
  have h_c2: "ctx_phase (?ctxC) = Create
      \<and> createStripeV2Client (list_fails_stripe) (map_option KeySecret (rcp_apiKey (card_props))) = Inr (projr (createStripeV2Client list_fails_stripe None))
      \<and> rateCards_create (projr (createStripeV2Client list_fails_stripe None)) (RateCard_create_params (card_props)) io0 = (Inl (stripe_error 409), (\<lparr> sent = [\<lparr> req_method = POST, url = ''/v2/billing/rate_cards'', body = Some (RateCard_create_params card_props) \<rparr>], slept = [] \<rparr>))
      \<and> adopt_setting (rcp_adopt (card_props)) (ctx_scope (?ctxC)) \<and> isStripeV2ConflictError (stripe_error 409)
      \<and> truthy_str (rcp_lookupKey (card_props))
      \<and> rateCards_list (projr (createStripeV2Client list_fails_stripe None)) (\<lparr> sent = [\<lparr> req_method = POST, url = ''/v2/billing/rate_cards'', body = Some (RateCard_create_params card_props) \<rparr>], slept = [] \<rparr>) = (Inl (stripe_error 500), (\<lparr> sent = [\<lparr> req_method = POST, url = ''/v2/billing/rate_cards'', body = Some (RateCard_create_params card_props) \<rparr>, ?cget], slept = [] \<rparr>))"
    using example_clients by (simp add: w_facts)
  note w_c2 = adoption_on_conflict
    [where thisC = "?ctxC" and envC = "list_fails_stripe" and identC = "''card''" and propsC = "card_props" and clientC = "projr (createStripeV2Client list_fails_stripe None)" and errC = "stripe_error 409" and sC = "\<lparr> sent = [\<lparr> req_method = POST, url = ''/v2/billing/rate_cards'', body = Some (RateCard_create_params card_props) \<rparr>], slept = [] \<rparr>" and lookupC = "stripe_error 500" and sC' = "\<lparr> sent = [\<lparr> req_method = POST, url = ''/v2/billing/rate_cards'', body = Some (RateCard_create_params card_props) \<rparr>, ?cget], slept = [] \<rparr>",
     THEN conjunct2, THEN conjunct2, THEN conjunct2, THEN conjunct2, THEN conjunct2, THEN conjunct2, THEN conjunct2, THEN conjunct2, THEN conjunct2, THEN conjunct2, THEN conjunct1, rule_format, OF h_c2]
  from w_c2 have r_c2: "RateCard list_fails_stripe ?ctxC ''card'' card_props = (Thrown (stripe_error 500), \<lparr> sent = [\<lparr> req_method = POST, url = ''/v2/billing/rate_cards'', body = Some (RateCard_create_params card_props) \<rparr>, ?cget], slept = [] \<rparr>)"
    by (simp add: r_facts)
  have h_c3: "ctx_phase (?ctxC) = Create
      \<and> createStripeV2Client (example_stripe) (map_option KeySecret (rcp_apiKey (card_props \<lparr> rcp_lookupKey := Some ''other'' \<rparr>))) = Inr (projr (createStripeV2Client example_stripe None))
      \<and> rateCards_create (projr (createStripeV2Client example_stripe None)) (RateCard_create_params (card_props \<lparr> rcp_lookupKey := Some ''other'' \<rparr>)) io0 = (Inl (stripe_error 409), (\<lparr> sent = [\<lparr> req_method = POST, url = ''/v2/billing/rate_cards'', body = Some (RateCard_create_params (card_props \<lparr> rcp_lookupKey := Some ''other'' \<rparr>)) \<rparr>], slept = [] \<rparr>))
      \<and> adopt_setting (rcp_adopt (card_props \<lparr> rcp_lookupKey := Some ''other'' \<rparr>)) (ctx_scope (?ctxC)) \<and> isStripeV2ConflictError (stripe_error 409)
      \<and> truthy_str (rcp_lookupKey (card_props \<lparr> rcp_lookupKey := Some ''other'' \<rparr>))
      \<and> rateCards_list (projr (createStripeV2Client example_stripe None)) (\<lparr> sent = [\<lparr> req_method = POST, url = ''/v2/billing/rate_cards'', body = Some (RateCard_create_params (card_props \<lparr> rcp_lookupKey := Some ''other'' \<rparr>)) \<rparr>], slept = [] \<rparr>) = (Inr ([example_card]), (\<lparr> sent = [\<lparr> req_method = POST, url = ''/v2/billing/rate_cards'', body = Some (RateCard_create_params (card_props \<lparr> rcp_lookupKey := Some ''other'' \<rparr>)) \<rparr>, ?cget], slept = [] \<rparr>))
      \<and> find (\<lambda>rc. v2c_lookup_key rc = rcp_lookupKey (card_props \<lparr> rcp_lookupKey := Some ''other'' \<rparr>)) ([example_card]) = None"
    using example_clients by (simp add: w_facts)
  note w_c3 = adoption_on_conflict
    [where thisC = "?ctxC" and envC = "example_stripe" and identC = "''card''" and propsC = "card_props \<lparr> rcp_lookupKey := Some ''other'' \<rparr>" and clientC = "projr (createStripeV2Client example_stripe None)" and errC = "stripe_error 409" and sC = "\<lparr> sent = [\<lparr> req_method = POST, url = ''/v2/billing/rate_cards'', body = Some (RateCard_create_params (card_props \<lparr> rcp_lookupKey := Some ''other'' \<rparr>)) \<rparr>], slept = [] \<rparr>" and cards = "[example_card]" and sC' = "\<lparr> sent = [\<lparr> req_method = POST, url = ''/v2/billing/rate_cards'', body = Some (RateCard_create_params (card_props \<lparr> rcp_lookupKey := Some ''other'' \<rparr>)) \<rparr>, ?cget], slept = [] \<rparr>",
     THEN conjunct2, THEN conjunct2, THEN conjunct2, THEN conjunct2, THEN conjunct2, THEN conjunct2, THEN conjunct2, THEN conjunct2, THEN conjunct2, THEN conjunct2, THEN conjunct2, THEN conjunct1, rule_format, OF h_c3]
  from w_c3 have r_c3: "RateCard example_stripe ?ctxC ''card'' (card_props \<lparr> rcp_lookupKey := Some ''other'' \<rparr>) = (Thrown (stripe_error 409), \<lparr> sent = [\<lparr> req_method = POST, url = ''/v2/billing/rate_cards'', body = Some (RateCard_create_params (card_props \<lparr> rcp_lookupKey := Some ''other'' \<rparr>)) \<rparr>, ?cget], slept = [] \<rparr>)"
    by (simp add: r_facts)
  have h_c4a: "ctx_phase (?ctxC) = Create
      \<and> createStripeV2Client (example_stripe) (map_option KeySecret (rcp_apiKey (card_props))) = Inr (projr (createStripeV2Client example_stripe None))
      \<and> rateCards_create (projr (createStripeV2Client example_stripe None)) (RateCard_create_params (card_props)) io0 = (Inl (stripe_error 409), (\<lparr> sent = [\<lparr> req_method = POST, url = ''/v2/billing/rate_cards'', body = Some (RateCard_create_params card_props) \<rparr>], slept = [] \<rparr>))
      \<and> adopt_setting (rcp_adopt (card_props)) (ctx_scope (?ctxC)) \<and> isStripeV2ConflictError (stripe_error 409)
      \<and> truthy_str (rcp_lookupKey (card_props))
      \<and> rateCards_list (projr (createStripeV2Client example_stripe None)) (\<lparr> sent = [\<lparr> req_method = POST, url = ''/v2/billing/rate_cards'', body = Some (RateCard_create_params card_props) \<rparr>], slept = [] \<rparr>) = (Inr ([example_card]), (\<lparr> sent = [\<lparr> req_method = POST, url = ''/v2/billing/rate_cards'', body = Some (RateCard_create_params card_props) \<rparr>, ?cget], slept = [] \<rparr>))
      \<and> find (\<lambda>rc. v2c_lookup_key rc = rcp_lookupKey (card_props)) ([example_card]) = Some (example_card)
      \<and> rateCards_update (projr (createStripeV2Client example_stripe None)) (v2c_id (example_card)) (RateCard_adopt_params (card_props)) (\<lparr> sent = [\<lparr> req_method = POST, url = ''/v2/billing/rate_cards'', body = Some (RateCard_create_params card_props) \<rparr>, ?cget], slept = [] \<rparr>) = ((Inr example_card), (\<lparr> sent = [\<lparr> req_method = POST, url = ''/v2/billing/rate_cards'', body = Some (RateCard_create_params card_props) \<rparr>, ?cget, \<lparr> req_method = POST, url = ''/v2/billing/rate_cards/rc_1'', body = Some (RateCard_adopt_params card_props) \<rparr>], slept = [] \<rparr>))"
    using example_clients by (simp add: w_facts)
  note w_c4a = adoption_on_conflict
    [where thisC = "?ctxC" and envC = "example_stripe" and identC = "''card''" and propsC = "card_props" and clientC = "projr (createStripeV2Client example_stripe None)" and errC = "stripe_error 409" and sC = "\<lparr> sent = [\<lparr> req_method = POST, url = ''/v2/billing/rate_cards'', body = Some (RateCard_create_params card_props) \<rparr>], slept = [] \<rparr>" and cards = "[example_card]" and existingC = "example_card" and appliedC = "Inr example_card" and sC' = "\<lparr> sent = [\<lparr> req_method = POST, url = ''/v2/billing/rate_cards'', body = Some (RateCard_create_params card_props) \<rparr>, ?cget], slept = [] \<rparr>" and sC'' = "\<lparr> sent = [\<lparr> req_method = POST, url = ''/v2/billing/rate_cards'', body = Some (RateCard_create_params card_props) \<rparr>, ?cget, \<lparr> req_method = POST, url = ''/v2/billing/rate_cards/rc_1'', body = Some (RateCard_adopt_params card_props) \<rparr>], slept = [] \<rparr>",
     THEN conjunct2, THEN conjunct2, THEN conjunct2, THEN conjunct2, THEN conjunct2, THEN conjunct2, THEN conjunct2, THEN conjunct2, THEN conjunct2, THEN conjunct2, THEN conjunct2, THEN conjunct2, THEN conjunct1, rule_format, OF h_c4a]
  from w_c4a have r_c4a: "RateCard example_stripe ?ctxC ''card'' card_props = (Returned card_out, \<lparr> sent = [\<lparr> req_method = POST, url = ''/v2/billing/rate_cards'', body = Some (RateCard_create_params card_props) \<rparr>, ?cget, \<lparr> req_method = POST, url = ''/v2/billing/rate_cards/rc_1'', body = Some (RateCard_adopt_params card_props) \<rparr>], slept = [] \<rparr>)"
    by (simp add: r_facts)
  have h_c4b: "ctx_phase (?ctxC) = Create
      \<and> createStripeV2Client (update_fails_stripe) (map_option KeySecret (rcp_apiKey (card_props))) = Inr (projr (createStripeV2Client update_fails_stripe None))
      \<and> rateCards_create (projr (createStripeV2Client update_fails_stripe None)) (RateCard_create_params (card_props)) io0 = (Inl (stripe_error 409), (\<lparr> sent = [\<lparr> req_method = POST, url = ''/v2/billing/rate_cards'', body = Some (RateCard_create_params card_props) \<rparr>], slept = [] \<rparr>))
      \<and> adopt_setting (rcp_adopt (card_props)) (ctx_scope (?ctxC)) \<and> isStripeV2ConflictError (stripe_error 409)
      \<and> truthy_str (rcp_lookupKey (card_props))
      \<and> rateCards_list (projr (createStripeV2Client update_fails_stripe None)) (\<lparr> sent = [\<lparr> req_method = POST, url = ''/v2/billing/rate_cards'', body = Some (RateCard_create_params card_props) \<rparr>], slept = [] \<rparr>) = (Inr ([example_card]), (\<lparr> sent = [\<lparr> req_method = POST, url = ''/v2/billing/rate_cards'', body = Some (RateCard_create_params card_props) \<rparr>, ?cget], slept = [] \<rparr>))
      \<and> find (\<lambda>rc. v2c_lookup_key rc = rcp_lookupKey (card_props)) ([example_card]) = Some (example_card)
      \<and> rateCards_update (projr (createStripeV2Client update_fails_stripe None)) (v2c_id (example_card)) (RateCard_adopt_params (card_props)) (\<lparr> sent = [\<lparr> req_method = POST, url = ''/v2/billing/rate_cards'', body = Some (RateCard_create_params card_props) \<rparr>, ?cget], slept = [] \<rparr>) = ((Inl (stripe_error 500)), (\<lparr> sent = [\<lparr> req_method = POST, url = ''/v2/billing/rate_cards'', body = Some (RateCard_create_params card_props) \<rparr>, ?cget, \<lparr> req_method = POST, url = ''/v2/billing/rate_cards/rc_1'', body = Some (RateCard_adopt_params card_props) \<rparr>], slept = [] \<rparr>))"
    using example_clients by (simp add: w_facts)
  note w_c4b = adoption_on_conflict
    [where thisC = "?ctxC" and envC = "update_fails_stripe" and identC = "''card''" and propsC = "card_props" and clientC = "projr (createStripeV2Client update_fails_stripe None)" and errC = "stripe_error 409" and sC = "\<lparr> sent = [\<lparr> req_method = POST, url = ''/v2/billing/rate_cards'', body = Some (RateCard_create_params card_props) \<rparr>], slept = [] \<rparr>" and cards = "[example_card]" and existingC = "example_card" and appliedC = "Inl (stripe_error 500)" and sC' = "\<lparr> sent = [\<lparr> req_method = POST, url = ''/v2/billing/rate_cards'', body = Some (RateCard_create_params card_props) \<rparr>, ?cget], slept = [] \<rparr>" and sC'' = "\<lparr> sent = [\<lparr> req_method = POST, url = ''/v2/billing/rate_cards'', body = Some (RateCard_create_params card_props) \<rparr>, ?cget, \<lparr> req_method = POST, url = ''/v2/billing/rate_cards/rc_1'', body = Some (RateCard_adopt_params card_props) \<rparr>], slept = [] \<rparr>",
     THEN conjunct2, THEN conjunct2, THEN conjunct2, THEN conjunct2, THEN conjunct2, THEN conjunct2, THEN conjunct2, THEN conjunct2, THEN conjunct2, THEN conjunct2, THEN conjunct2, THEN conjunct2, THEN conjunct1, rule_format, OF h_c4b]
  from w_c4b have r_c4b: "RateCard update_fails_stripe ?ctxC ''card'' card_props = (Thrown (stripe_error 500), \<lparr> sent = [\<lparr> req_method = POST, url = ''/v2/billing/rate_cards'', body = Some (RateCard_create_params card_props) \<rparr>, ?cget, \<lparr> req_method = POST, url = ''/v2/billing/rate_cards/rc_1'', body = Some (RateCard_adopt_params card_props) \<rparr>], slept = [] \<rparr>)"
    by (simp add: r_facts)
  have h_c5: "ctx_phase (?ctxC) = Create
      \<and> createStripeV2Client (example_stripe) (map_option KeySecret (rcp_apiKey (card_props))) = Inr (projr (createStripeV2Client example_stripe None))
      \<and> rateCards_create (projr (createStripeV2Client example_stripe None)) (RateCard_create_params (card_props)) io0 = (Inl (stripe_error 409), (\<lparr> sent = [\<lparr> req_method = POST, url = ''/v2/billing/rate_cards'', body = Some (RateCard_create_params card_props) \<rparr>], slept = [] \<rparr>))
      \<and> adopt_setting (rcp_adopt (card_props)) (ctx_scope (?ctxC)) \<and> isStripeV2ConflictError (stripe_error 409)
      \<and> truthy_str (rcp_lookupKey (card_props))
      \<and> rateCards_list (projr (createStripeV2Client example_stripe None)) (\<lparr> sent = [\<lparr> req_method = POST, url = ''/v2/billing/rate_cards'', body = Some (RateCard_create_params card_props) \<rparr>], slept = [] \<rparr>) = (Inr ([example_card]), (\<lparr> sent = [\<lparr> req_method = POST, url = ''/v2/billing/rate_cards'', body = Some (RateCard_create_params card_props) \<rparr>, ?cget], slept = [] \<rparr>))
      \<and> find (\<lambda>rc. v2c_lookup_key rc = rcp_lookupKey (card_props)) ([example_card]) = Some (example_card)
      \<and> rateCards_update (projr (createStripeV2Client example_stripe None)) (v2c_id (example_card)) (RateCard_adopt_params (card_props)) (\<lparr> sent = [\<lparr> req_method = POST, url = ''/v2/billing/rate_cards'', body = Some (RateCard_create_params card_props) \<rparr>, ?cget], slept = [] \<rparr>) = (Inr (example_card), (\<lparr> sent = [\<lparr> req_method = POST, url = ''/v2/billing/rate_cards'', body = Some (RateCard_create_params card_props) \<rparr>, ?cget, \<lparr> req_method = POST, url = ''/v2/billing/rate_cards/rc_1'', body = Some (RateCard_adopt_params card_props) \<rparr>], slept = [] \<rparr>))
      \<and> v2c_id (example_card) = v2c_id (example_card)"
    using example_clients by (simp add: w_facts)
  note w_c5 = adoption_on_conflict
    [where thisC = "?ctxC" and envC = "example_stripe" and identC = "''card''" and propsC = "card_props" and clientC = "projr (createStripeV2Client example_stripe None)" and errC = "stripe_error 409" and sC = "\<lparr> sent = [\<lparr> req_method = POST, url = ''/v2/billing/rate_cards'', body = Some (RateCard_create_params card_props) \<rparr>], slept = [] \<rparr>" and cards = "[example_card]" and existingC = "example_card" and updatedC = "example_card" and sC' = "\<lparr> sent = [\<lparr> req_method = POST, url = ''/v2/billing/rate_cards'', body = Some (RateCard_create_params card_props) \<rparr>, ?cget], slept = [] \<rparr>" and sC'' = "\<lparr> sent = [\<lparr> req_method = POST, url = ''/v2/billing/rate_cards'', body = Some (RateCard_create_params card_props) \<rparr>, ?cget, \<lparr> req_method = POST, url = ''/v2/billing/rate_cards/rc_1'', body = Some (RateCard_adopt_params card_props) \<rparr>], slept = [] \<rparr>",
     THEN conjunct2, THEN conjunct2, THEN conjunct2, THEN conjunct2, THEN conjunct2, THEN conjunct2, THEN conjunct2, THEN conjunct2, THEN conjunct2, THEN conjunct2, THEN conjunct2, THEN conjunct2, THEN conjunct2, THEN conjunct1, rule_format, OF h_c5]
  from w_c5 have r_c5: "(\<exists>out. RateCard example_stripe ?ctxC ''card'' card_props = (Returned out, \<lparr> sent = [\<lparr> req_method = POST, url = ''/v2/billing/rate_cards'', body = Some (RateCard_create_params card_props) \<rparr>, ?cget, \<lparr> req_method = POST, url = ''/v2/billing/rate_cards/rc_1'', body = Some (RateCard_adopt_params card_props) \<rparr>], slept = [] \<rparr>)
              \<and> rc_id out = v2c_id example_card)"
    by (simp add: r_facts)
  have h_w1: "ctx_phase (?ctxW) = Create
      \<and> (''app-eng-dev'') = physical_name (wdp_name (profile_props \<lparr> wdp_adopt := Some False \<rparr>)) (map_option wd_name (ctx_output (?ctxW))) (ctx_scope (?ctxW)) (''eng'')
      \<and> createPolicy (example_policy_api) (''app-eng-dev'') (profile_props \<lparr> wdp_adopt := Some False \<rparr>) [] = (Inl ((api_error_of 409 ''profile already exists'' ''create'' ''warp_device_profile'' (''app-eng-dev''))), ([\<lparr> req_method = POST, url = ''/accounts/acct/devices/policy'',
                 body = Some (buildRequestBody (''app-eng-dev'') (wdp_enabled (profile_props \<lparr> wdp_adopt := Some False \<rparr>)) (wdp_settings (profile_props \<lparr> wdp_adopt := Some False \<rparr>))) \<rparr>]))
      \<and> \<not> (adopt_setting (wdp_adopt (profile_props \<lparr> wdp_adopt := Some False \<rparr>)) (ctx_scope (?ctxW)) \<and> profile_exists_error ((api_error_of 409 ''profile already exists'' ''create'' ''warp_device_profile'' (''app-eng-dev''))))"
    by (simp add: w_facts)
  note w_w1 = adoption_on_conflict
    [where thisW = "?ctxW" and apiW = "example_policy_api" and clk = "example_clock" and identW = "''eng''" and propsW = "profile_props \<lparr> wdp_adopt := Some False \<rparr>" and nameW = "''app-eng-dev''" and errW = "(api_error_of 409 ''profile already exists'' ''create'' ''warp_device_profile'' (''app-eng-dev''))" and logW = "[\<lparr> req_method = POST, url = ''/accounts/acct/devices/policy'',
                 body = Some (buildRequestBody (''app-eng-dev'') (wdp_enabled (profile_props \<lparr> wdp_adopt := Some False \<rparr>)) (wdp_settings (profile_props \<lparr> wdp_adopt := Some False \<rparr>))) \<rparr>]",
     THEN conjunct2, THEN conjunct2, THEN conjunct2, THEN conjunct2, THEN conjunct2, THEN conjunct2, THEN conjunct2, THEN conjunct2, THEN conjunct2, THEN conjunct2, THEN conjunct2, THEN conjunct2, THEN conjunct2, THEN conjunct2, THEN conjunct1, rule_format, OF h_w1]
  from w_w1 have r_w1: "WarpDeviceProfile (Inr example_policy_api) example_clock ?ctxW ''eng'' (profile_props \<lparr> wdp_adopt := Some False \<rparr>)
       = (Thrown ((api_error_of 409 ''profile already exists'' ''create'' ''warp_device_profile'' ''app-eng-dev'')), [\<lparr> req_method = POST, url = ''/accounts/acct/devices/policy'',
                 body = Some (buildRequestBody ''app-eng-dev'' (wdp_enabled (profile_props \<lparr> wdp_adopt := Some False \<rparr>)) (wdp_settings (profile_props \<lparr> wdp_adopt := Some False \<rparr>))) \<rparr>])"
    by (simp add: r_facts)
  have h_w2: "ctx_phase (?ctxW) = Create
      \<and> (''app-eng-dev'') = physical_name (wdp_name (profile_props)) (map_option wd_name (ctx_output (?ctxW))) (ctx_scope (?ctxW)) (''eng'')
      \<and> createPolicy (list_fails_policy_api) (''app-eng-dev'') (profile_props) [] = (Inl ((api_error_of 409 ''profile already exists'' ''create'' ''warp_device_profile'' (''app-eng-dev''))), ([\<lparr> req_method = POST, url = ''/accounts/acct/devices/policy'',
                 body = Some (buildRequestBody (''app-eng-dev'') (wdp_enabled (profile_props)) (wdp_settings (profile_props))) \<rparr>]))
      \<and> adopt_setting (wdp_adopt (profile_props)) (ctx_scope (?ctxW)) \<and> profile_exists_error ((api_error_of 409 ''profile already exists'' ''create'' ''warp_device_profile'' (''app-eng-dev'')))
      \<and> findPolicyByName (list_fails_policy_api) (''app-eng-dev'') ([\<lparr> req_method = POST, url = ''/accounts/acct/devices/policy'',
                 body = Some (buildRequestBody (''app-eng-dev'') (wdp_enabled (profile_props)) (wdp_settings (profile_props))) \<rparr>]) = (Inl (api_error_of 500 ''unavailable'' ''list'' ''warp_device_profile'' ''all''), ([\<lparr> req_method = POST, url = ''/accounts/acct/devices/policy'',
                 body = Some (buildRequestBody ''app-eng-dev'' (wdp_enabled profile_props) (wdp_settings profile_props)) \<rparr>, ?wget]))"
    by (simp add: w_facts)
  note w_w2 = adoption_on_conflict
    [where thisW = "?ctxW" and apiW = "list_fails_policy_api" and clk = "example_clock" and identW = "''eng''" and propsW = "profile_props" and nameW = "''app-eng-dev''" and errW = "(api_error_of 409 ''profile already exists'' ''create'' ''warp_device_profile'' (''app-eng-dev''))" and logW = "[\<lparr> req_method = POST, url = ''/accounts/acct/devices/policy'',
                 body = Some (buildRequestBody (''app-eng-dev'') (wdp_enabled (profile_props)) (wdp_settings (profile_props))) \<rparr>]" and lookupW = "api_error_of 500 ''unavailable'' ''list'' ''warp_device_profile'' ''all''" and logW' = "[\<lparr> req_method = POST, url = ''/accounts/acct/devices/policy'',
                 body = Some (buildRequestBody ''app-eng-dev'' (wdp_enabled profile_props) (wdp_settings profile_props)) \<rparr>, ?wget]",
     THEN conjunct2, THEN conjunct2, THEN conjunct2, THEN conjunct2, THEN conjunct2, THEN conjunct2, THEN conjunct2, THEN conjunct2, THEN conjunct2, THEN conjunct2, THEN conjunct2, THEN conjunct2, THEN conjunct2, THEN conjunct2, THEN conjunct2, THEN conjunct1, rule_format, OF h_w2]
  from w_w2 have r_w2: "WarpDeviceProfile (Inr list_fails_policy_api) example_clock ?ctxW ''eng'' profile_props
       = (Thrown (api_error_of 500 ''unavailable'' ''list'' ''warp_device_profile'' ''all''),
          [\<lparr> req_method = POST, url = ''/accounts/acct/devices/policy'',
                 body = Some (buildRequestBody ''app-eng-dev'' (wdp_enabled profile_props) (wdp_settings profile_props)) \<rparr>, ?wget])"
    by (simp add: r_facts)
  have h_w3: "ctx_phase (?ctxW) = Create
      \<and> (''other'') = physical_name (wdp_name (profile_props \<lparr> wdp_name := Some ''other'' \<rparr>)) (map_option wd_name (ctx_output (?ctxW))) (ctx_scope (?ctxW)) (''eng'')
      \<and> createPolicy (example_policy_api) (''other'') (profile_props \<lparr> wdp_name := Some ''other'' \<rparr>) [] = (Inl ((api_error_of 409 ''profile already exists'' ''create'' ''warp_device_profile'' (''other''))), ([\<lparr> req_method = POST, url = ''/accounts/acct/devices/policy'',
                 body = Some (buildRequestBody (''other'') (wdp_enabled (profile_props \<lparr> wdp_name := Some ''other'' \<rparr>)) (wdp_settings (profile_props \<lparr> wdp_name := Some ''other'' \<rparr>))) \<rparr>]))
      \<and> adopt_setting (wdp_adopt (profile_props \<lparr> wdp_name := Some ''other'' \<rparr>)) (ctx_scope (?ctxW)) \<and> profile_exists_error ((api_error_of 409 ''profile already exists'' ''create'' ''warp_device_profile'' (''other'')))
      \<and> findPolicyByName (example_policy_api) (''other'') ([\<lparr> req_method = POST, url = ''/accounts/acct/devices/policy'',
                 body = Some (buildRequestBody (''other'') (wdp_enabled (profile_props \<lparr> wdp_name := Some ''other'' \<rparr>)) (wdp_settings (profile_props \<lparr> wdp_name := Some ''other'' \<rparr>))) \<rparr>]) = (Inr None, ([\<lparr> req_method = POST, url = ''/accounts/acct/devices/policy'',
                 body = Some (buildRequestBody ''other'' (wdp_enabled (profile_props \<lparr> wdp_name := Some ''other'' \<rparr>)) (wdp_settings (profile_props \<lparr> wdp_name := Some ''other'' \<rparr>))) \<rparr>, ?wget]))"
    by (simp add: w_facts)
  note w_w3 = adoption_on_conflict
    [where thisW = "?ctxW" and apiW = "example_policy_api" and clk = "example_clock" and identW = "''eng''" and propsW = "profile_props \<lparr> wdp_name := Some ''other'' \<rparr>" and nameW = "''other''" and errW = "(api_error_of 409 ''profile already exists'' ''create'' ''warp_device_profile'' (''other''))" and logW = "[\<lparr> req_method = POST, url = ''/accounts/acct/devices/policy'',
                 body = Some (buildRequestBody (''other'') (wdp_enabled (profile_props \<lparr> wdp_name := Some ''other'' \<rparr>)) (wdp_settings (profile_props \<lparr> wdp_name := Some ''other'' \<rparr>))) \<rparr>]" and logW' = "[\<lparr> req_method = POST, url = ''/accounts/acct/devices/policy'',
                 body = Some (buildRequestBody ''other'' (wdp_enabled (profile_props \<lparr> wdp_name := Some ''other'' \<rparr>)) (wdp_settings (profile_props \<lparr> wdp_name := Some ''other'' \<rparr>))) \<rparr>, ?wget]",
     THEN conjunct2, THEN conjunct2, THEN conjunct2, THEN conjunct2, THEN conjunct2, THEN conjunct2, THEN conjunct2, THEN conjunct2, THEN conjunct2, THEN conjunct2, THEN conjunct2, THEN conjunct2, THEN conjunct2, THEN conjunct2, THEN conjunct2, THEN conjunct2, THEN conjunct1, rule_format, OF h_w3]
  from w_w3 have r_w3: "WarpDeviceProfile (Inr example_policy_api) example_clock ?ctxW ''eng'' (profile_props \<lparr> wdp_name := Some ''other'' \<rparr>)
       = (Thrown (profile_adoption_failed ''other''), [\<lparr> req_method = POST, url = ''/accounts/acct/devices/policy'',
                 body = Some (buildRequestBody ''other'' (wdp_enabled (profile_props \<lparr> wdp_name := Some ''other'' \<rparr>)) (wdp_settings (profile_props \<lparr> wdp_name := Some ''other'' \<rparr>))) \<rparr>, ?wget])"
    by (simp add: r_facts)
  have h_w4: "ctx_phase (?ctxW) = Create
      \<and> (''app-eng-dev'') = physical_name (wdp_name (profile_props)) (map_option wd_name (ctx_output (?ctxW))) (ctx_scope (?ctxW)) (''eng'')
      \<and> createPolicy (example_policy_api) (''app-eng-dev'') (profile_props) [] = (Inl ((api_error_of 409 ''profile already exists'' ''create'' ''warp_device_profile'' (''app-eng-dev''))), ([\<lparr> req_method = POST, url = ''/accounts/acct/devices/policy'',
                 body = Some (buildRequestBody (''app-eng-dev'') (wdp_enabled (profile_props)) (wdp_settings (profile_props))) \<rparr>]))
      \<and> adopt_setting (wdp_adopt (profile_props)) (ctx_scope (?ctxW)) \<and> profile_exists_error ((api_error_of 409 ''profile already exists'' ''create'' ''warp_device_profile'' (''app-eng-dev'')))
      \<and> findPolicyByName (example_policy_api) (''app-eng-dev'') ([\<lparr> req_method = POST, url = ''/accounts/acct/devices/policy'',
                 body = Some (buildRequestBody (''app-eng-dev'') (wdp_enabled (profile_props)) (wdp_settings (profile_props))) \<rparr>]) = (Inr (Some (''p1'')), ([\<lparr> req_method = POST, url = ''/accounts/acct/devices/policy'',
                 body = Some (buildRequestBody ''app-eng-dev'' (wdp_enabled profile_props) (wdp_settings profile_props)) \<rparr>, ?wget]))
      \<and> ws_splitTunnel (wdp_settings (profile_props)) = None"
    by (simp add: w_facts)
  note w_w4 = adoption_on_conflict
    [where thisW = "?ctxW" and apiW = "example_policy_api" and clk = "example_clock" and identW = "''eng''" and propsW = "profile_props" and nameW = "''app-eng-dev''" and errW = "(api_error_of 409 ''profile already exists'' ''create'' ''warp_device_profile'' (''app-eng-dev''))" and logW = "[\<lparr> req_method = POST, url = ''/accounts/acct/devices/policy'',
                 body = Some (buildRequestBody (''app-eng-dev'') (wdp_enabled (profile_props)) (wdp_settings (profile_props))) \<rparr>]" and existingW = "''p1''" and logW' = "[\<lparr> req_method = POST, url = ''/accounts/acct/devices/policy'',
                 body = Some (buildRequestBody ''app-eng-dev'' (wdp_enabled profile_props) (wdp_settings profile_props)) \<rparr>, ?wget]",
     THEN conjunct2, THEN conjunct2, THEN conjunct2, THEN conjunct2, THEN conjunct2, THEN conjunct2, THEN conjunct2, THEN conjunct2, THEN conjunct2, THEN conjunct2, THEN conjunct2, THEN conjunct2, THEN conjunct2, THEN conjunct2, THEN conjunct2, THEN conjunct2, THEN conjunct2, THEN conjunct1, rule_format, OF h_w4]
  from w_w4 have r_w4: "WarpDeviceProfile (Inr example_policy_api) example_clock ?ctxW ''eng'' profile_props
       = (Returned (profile_output ''p1'' ''app-eng-dev'' profile_props 5 7), [\<lparr> req_method = POST, url = ''/accounts/acct/devices/policy'',
                 body = Some (buildRequestBody ''app-eng-dev'' (wdp_enabled profile_props) (wdp_settings profile_props)) \<rparr>, ?wget])
       \<and> wd_policyId (profile_output ''p1'' ''app-eng-dev'' profile_props 5 7) = ''p1''"
    by (simp add: r_facts)
  have h_w5a: "ctx_phase (?ctxW) = Create
      \<and> (''app-eng-dev'') = physical_name (wdp_name (tunnel_props)) (map_option wd_name (ctx_output (?ctxW))) (ctx_scope (?ctxW)) (''eng'')
      \<and> createPolicy (example_policy_api) (''app-eng-dev'') (tunnel_props) [] = (Inl ((api_error_of 409 ''profile already exists'' ''create'' ''warp_device_profile'' (''app-eng-dev''))), ([\<lparr> req_method = POST, url = ''/accounts/acct/devices/policy'',
                 body = Some (buildRequestBody (''app-eng-dev'') (wdp_enabled (tunnel_props)) (wdp_settings (tunnel_props))) \<rparr>]))
      \<and> adopt_setting (wdp_adopt (tunnel_props)) (ctx_scope (?ctxW)) \<and> profile_exists_error ((api_error_of 409 ''profile already exists'' ''create'' ''warp_device_profile'' (''app-eng-dev'')))
      \<and> findPolicyByName (example_policy_api) (''app-eng-dev'') ([\<lparr> req_method = POST, url = ''/accounts/acct/devices/policy'',
                 body = Some (buildRequestBody (''app-eng-dev'') (wdp_enabled (tunnel_props)) (wdp_settings (tunnel_props))) \<rparr>]) = (Inr (Some (''p1'')), ([\<lparr> req_method = POST, url = ''/accounts/acct/devices/policy'',
                 body = Some (buildRequestBody ''app-eng-dev'' (wdp_enabled tunnel_props) (wdp_settings tunnel_props)) \<rparr>, ?wget]))
      \<and> ws_splitTunnel (wdp_settings (tunnel_props)) = Some (split_example)
      \<and> updateSplitTunnel (example_policy_api) (''p1'') (split_example) ([\<lparr> req_method = POST, url = ''/accounts/acct/devices/policy'',
                 body = Some (buildRequestBody ''app-eng-dev'' (wdp_enabled tunnel_props) (wdp_settings tunnel_props)) \<rparr>, ?wget]) = ((Inr ()), ([\<lparr> req_method = POST, url = ''/accounts/acct/devices/policy'',
                 body = Some (buildRequestBody ''app-eng-dev'' (wdp_enabled tunnel_props) (wdp_settings tunnel_props)) \<rparr>, ?wget, ?wput]))"
    by (simp add: w_facts)
  note w_w5a = adoption_on_conflict
    [where thisW = "?ctxW" and apiW = "example_policy_api" and clk = "example_clock" and identW = "''eng''" and propsW = "tunnel_props" and nameW = "''app-eng-dev''" and errW = "(api_error_of 409 ''profile already exists'' ''create'' ''warp_device_profile'' (''app-eng-dev''))" and logW = "[\<lparr> req_method = POST, url = ''/accounts/acct/devices/policy'',
                 body = Some (buildRequestBody (''app-eng-dev'') (wdp_enabled (tunnel_props)) (wdp_settings (tunnel_props))) \<rparr>]" and existingW = "''p1''" and configW = "split_example" and appliedW = "Inr ()" and logW' = "[\<lparr> req_method = POST, url = ''/accounts/acct/devices/policy'',
                 body = Some (buildRequestBody ''app-eng-dev'' (wdp_enabled tunnel_props) (wdp_settings tunnel_props)) \<rparr>, ?wget]" and logW'' = "[\<lparr> req_method = POST, url = ''/accounts/acct/devices/policy'',
                 body = Some (buildRequestBody ''app-eng-dev'' (wdp_enabled tunnel_props) (wdp_settings tunnel_props)) \<rparr>, ?wget, ?wput]",
     THEN conjunct2, THEN conjunct2, THEN conjunct2, THEN conjunct2, THEN conjunct2, THEN conjunct2, THEN conjunct2, THEN conjunct2, THEN conjunct2, THEN conjunct2, THEN conjunct2, THEN conjunct2, THEN conjunct2, THEN conjunct2, THEN conjunct2, THEN conjunct2, THEN conjunct2, THEN conjunct2, rule_format, OF h_w5a]
  from w_w5a have r_w5a: "WarpDeviceProfile (Inr example_policy_api) example_clock ?ctxW ''eng'' tunnel_props
       = (Returned (profile_output ''p1'' ''app-eng-dev'' tunnel_props 5 7),
          [\<lparr> req_method = POST, url = ''/accounts/acct/devices/policy'',
                 body = Some (buildRequestBody ''app-eng-dev'' (wdp_enabled tunnel_props) (wdp_settings tunnel_props)) \<rparr>, ?wget, ?wput])"
    by (simp add: r_facts)
  have h_w5b: "ctx_phase (?ctxW) = Create
      \<and> (''app-eng-dev'') = physical_name (wdp_name (tunnel_props)) (map_option wd_name (ctx_output (?ctxW))) (ctx_scope (?ctxW)) (''eng'')
      \<and> createPolicy (put_fails_policy_api) (''app-eng-dev'') (tunnel_props) [] = (Inl ((api_error_of 409 ''profile already exists'' ''create'' ''warp_device_profile'' (''app-eng-dev''))), ([\<lparr> req_method = POST, url = ''/accounts/acct/devices/policy'',
                 body = Some (buildRequestBody (''app-eng-dev'') (wdp_enabled (tunnel_props)) (wdp_settings (tunnel_props))) \<rparr>]))
      \<and> adopt_setting (wdp_adopt (tunnel_props)) (ctx_scope (?ctxW)) \<and> profile_exists_error ((api_error_of 409 ''profile already exists'' ''create'' ''warp_device_profile'' (''app-eng-dev'')))
      \<and> findPolicyByName (put_fails_policy_api) (''app-eng-dev'') ([\<lparr> req_method = POST, url = ''/accounts/acct/devices/policy'',
                 body = Some (buildRequestBody (''app-eng-dev'') (wdp_enabled (tunnel_props)) (wdp_settings (tunnel_props))) \<rparr>]) = (Inr (Some (''p1'')), ([\<lparr> req_method = POST, url = ''/accounts/acct/devices/policy'',
                 body = Some (buildRequestBody ''app-eng-dev'' (wdp_enabled tunnel_props) (wdp_settings tunnel_props)) \<rparr>, ?wget]))
      \<and> ws_splitTunnel (wdp_settings (tunnel_props)) = Some (split_example)
      \<and> updateSplitTunnel (put_fails_policy_api) (''p1'') (split_example) ([\<lparr> req_method = POST, url = ''/accounts/acct/devices/policy'',
                 body = Some (buildRequestBody ''app-eng-dev'' (wdp_enabled tunnel_props) (wdp_settings tunnel_props)) \<rparr>, ?wget]) = ((Inl (api_error_of 500 ''unavailable'' ''update split tunnel excludes'' ''warp_device_profile'' ''p1'')), ([\<lparr> req_method = POST, url = ''/accounts/acct/devices/policy'',
                 body = Some (buildRequestBody ''app-eng-dev'' (wdp_enabled tunnel_props) (wdp_settings tunnel_props)) \<rparr>, ?wget, ?wput]))"
    by (simp add: w_facts)
  note w_w5b = adoption_on_conflict
    [where thisW = "?ctxW" and apiW = "put_fails_policy_api" and clk = "example_clock" and identW = "''eng''" and propsW = "tunnel_props" and nameW = "''app-eng-dev''" and errW = "(api_error_of 409 ''profile already exists'' ''create'' ''warp_device_profile'' (''app-eng-dev''))" and logW = "[\<lparr> req_method = POST, url = ''/accounts/acct/devices/policy'',
                 body = Some (buildRequestBody (''app-eng-dev'') (wdp_enabled (tunnel_props)) (wdp_settings (tunnel_props))) \<rparr>]" and existingW = "''p1''" and configW = "split_example" and appliedW = "Inl (api_error_of 500 ''unavailable'' ''update split tunnel excludes'' ''warp_device_profile'' ''p1'')" and logW' = "[\<lparr> req_method = POST, url = ''/accounts/acct/devices/policy'',
                 body = Some (buildRequestBody ''app-eng-dev'' (wdp_enabled tunnel_props) (wdp_settings tunnel_props)) \<rparr>, ?wget]" and logW'' = "[\<lparr> req_method = POST, url = ''/accounts/acct/devices/policy'',
                 body = Some (buildRequestBody ''app-eng-dev'' (wdp_enabled tunnel_props) (wdp_settings tunnel_props)) \<rparr>, ?wget, ?wput]",
     THEN conjunct2, THEN conjunct2, THEN conjunct2, THEN conjunct2, THEN conjunct2, THEN conjunct2, THEN conjunct2, THEN conjunct2, THEN conjunct2, THEN conjunct2, THEN conjunct2, THEN conjunct2, THEN conjunct2, THEN conjunct2, THEN conjunct2, THEN conjunct2, THEN conjunct2, THEN conjunct2, rule_format, OF h_w5b]
  from w_w5b have r_w5b: "WarpDeviceProfile (Inr put_fails_policy_api) example_clock ?ctxW ''eng'' tunnel_props
       = (Thrown (api_error_of 500 ''unavailable'' ''update split tunnel excludes'' ''warp_device_profile'' ''p1''), [\<lparr> req_method = POST, url = ''/accounts/acct/devices/policy'',
                 body = Some (buildRequestBody ''app-eng-dev'' (wdp_enabled tunnel_props) (wdp_settings tunnel_props)) \<rparr>, ?wget, ?wput])"
    by (simp add: r_facts)
  from r_t1 r_t2 r_t3 r_t4 r_t5a r_t5b r_t6 r_c1 r_c2 r_c3 r_c4a r_c4b r_c5 r_w1 r_w2 r_w3 r_w4 r_w5a r_w5b show ?thesis by blast
qed

text \<open>
  The claim as stated fails in four ways. A RateCard without a lookup key: the create
  call fails with a 409 and the effective adopt setting is true, but no lookup is made
  (the only request sent is the create) and the conflict error is thrown. A
  WarpDeviceProfile with a split tunnel: the existing profile is found, but the PUT of
  the split tunnel fails and its error is thrown instead of the profile being returned.
  A WarpDeviceProfile whose create call fails with status 409 and the message
  "conflict": the effective adopt setting is true, but the handler's test asks for one
  of three phrases in the message, so the error is thrown without a lookup. A
  TunnelRoute with a comment whose PATCH is answered with another route: the output
  carries the id of the answer, not the id of the route found by the lookup.
\<close>

theorem adoption_without_lookupKey:
  "adopt_setting (rcp_adopt (card_props \<lparr> rcp_lookupKey := None \<rparr>)) example_scope
   \<and> isStripeV2ConflictError (stripe_error 409)
   \<and> RateCard example_stripe \<lparr> ctx_phase = Create, ctx_output = None, ctx_scope = example_scope \<rparr>
        ''card'' (card_props \<lparr> rcp_lookupKey := None \<rparr>)
      = (Thrown (stripe_error 409),
         \<lparr> sent = [\<lparr> req_method = POST, url = ''/v2/billing/rate_cards'',
                     body = Some (RateCard_create_params (card_props \<lparr> rcp_lookupKey := None \<rparr>)) \<rparr>],
           slept = [] \<rparr>)
   \<and> adopt_setting (wdp_adopt tunnel_props) example_scope
   \<and> profile_exists_error (api_error_of 409 ''profile already exists'' ''create'' ''warp_device_profile'' ''app-eng-dev'')
   \<and> WarpDeviceProfile (Inr put_fails_policy_api) example_clock
        \<lparr> ctx_phase = Create, ctx_output = None, ctx_scope = example_scope \<rparr> ''eng'' tunnel_props
      = (Thrown (api_error_of 500 ''unavailable'' ''update split tunnel excludes'' ''warp_device_profile'' ''p1''),
         [\<lparr> req_method = POST, url = ''/accounts/acct/devices/policy'',
            body = Some (buildRequestBody ''app-eng-dev'' (wdp_enabled tunnel_props) (wdp_settings tunnel_props)) \<rparr>,
          \<lparr> req_method = GET, url = ''/accounts/acct/devices/policies'', body = None \<rparr>,
          \<lparr> req_method = PUT, url = ''/accounts/acct/devices/policy/p1/exclude'',
            body = Some (split_tunnel_routes split_example) \<rparr>])
   \<and> adopt_setting (wdp_adopt profile_props) example_scope
   \<and> err_status (api_error_of 409 ''conflict'' ''create'' ''warp_device_profile'' ''app-eng-dev'') = Some 409
   \<and> WarpDeviceProfile (Inr plain_conflict_policy_api) example_clock
        \<lparr> ctx_phase = Create, ctx_output = None, ctx_scope = example_scope \<rparr> ''eng'' profile_props
      = (Thrown (api_error_of 409 ''conflict'' ''create'' ''warp_device_profile'' ''app-eng-dev''),
         [\<lparr> req_method = POST, url = ''/accounts/acct/devices/policy'',
            body = Some (buildRequestBody ''app-eng-dev'' (wdp_enabled profile_props) (wdp_settings profile_props)) \<rparr>])
   \<and> adopt_setting (trp_adopt (route_props \<lparr> trp_comment := Some ''new'' \<rparr>)) example_scope
   \<and> TunnelRoute (Inr other_id_route_api) \<lparr> ctx_phase = Create, ctx_output = None, ctx_scope = example_scope \<rparr>
        ''r'' (route_props \<lparr> trp_comment := Some ''new'' \<rparr>)
      = Some (Returned (route_output (route_b \<lparr> cr_comment := Some ''new'' \<rparr>)),
              [\<lparr> req_method = POST, url = ''/accounts/acct/teamnet/routes'',
                 body = Some (JObject [(''network'', JString ''10.0.0.0/8''), (''tunnel_id'', JString ''t1''),
                                       (''comment'', JString ''new'')]) \<rparr>,
               \<lparr> req_method = GET, url = ''/accounts/acct/teamnet/routes?page=1&per_page=100'', body = None \<rparr>,
               \<lparr> req_method = GET, url = ''/accounts/acct/teamnet/routes?page=2&per_page=100'', body = None \<rparr>,
               \<lparr> req_method = PATCH, url = ''/accounts/acct/teamnet/routes/a'',
                 body = Some (JObject [(''comment'', JString ''new'')]) \<rparr>])
   \<and> tr_id (route_output (route_b \<lparr> cr_comment := Some ''new'' \<rparr>)) = ''b''"
proof -
  let ?ctxC = "\<lparr> ctx_phase = Create, ctx_output = None :: RateCard option, ctx_scope = example_scope \<rparr>"
  let ?ctxW = "\<lparr> ctx_phase = Create, ctx_output = None :: WarpDeviceProfile option, ctx_scope = example_scope \<rparr>"
  let ?ctxT = "\<lparr> ctx_phase = Create, ctx_output = None :: TunnelRoute option, ctx_scope = example_scope \<rparr>"
  let ?commented = "route_props \<lparr> trp_comment := Some ''new'' \<rparr>"
  note facts = ex_facts updated_props_facts policy_api_facts policy_conflict_create policy_conflict_error
    policy_lookup split_tunnel_examples plain_conflict_create plain_conflict_not_known physical_name_def
    other_id_facts conflict_create conflict_error two_pages_list find_examples other_id_patch
  have a1: "adopt_setting (rcp_adopt (card_props \<lparr> rcp_lookupKey := None \<rparr>)) example_scope"
    by (simp add: card_props_def example_scope_def)
  have a2: "isStripeV2ConflictError (stripe_error 409)"
    by (simp add: isStripeV2ConflictError_def stripe_error_def)
  have k: "rcp_apiKey (card_props \<lparr> rcp_lookupKey := None \<rparr>) = None"
    by (simp add: card_props_def)
  have a3: "RateCard example_stripe ?ctxC ''card'' (card_props \<lparr> rcp_lookupKey := None \<rparr>)
      = (Thrown (stripe_error 409),
         \<lparr> sent = [\<lparr> req_method = POST, url = ''/v2/billing/rate_cards'',
                     body = Some (RateCard_create_params (card_props \<lparr> rcp_lookupKey := None \<rparr>)) \<rparr>],
           slept = [] \<rparr>)"
  proof (rule RateCard_not_adopted [where client = "projr (createStripeV2Client example_stripe None)"])
    show "createStripeV2Client example_stripe (map_option KeySecret (rcp_apiKey (card_props \<lparr> rcp_lookupKey := None \<rparr>)))
            = Inr (projr (createStripeV2Client example_stripe None))"
      using example_client by (simp add: k)
  qed (simp_all add: card_create)
  have b1: "adopt_setting (wdp_adopt tunnel_props) example_scope"
    by (simp add: facts)
  have b2: "profile_exists_error (api_error_of 409 ''profile already exists'' ''create'' ''warp_device_profile'' ''app-eng-dev'')"
    by (rule policy_conflict_error)
  have b3: "WarpDeviceProfile (Inr put_fails_policy_api) example_clock ?ctxW ''eng'' tunnel_props
      = (case Inl (api_error_of 500 ''unavailable'' ''update split tunnel excludes'' ''warp_device_profile'' ''p1'') :: js_error + unit of
           Inl e \<Rightarrow> Thrown e
         | Inr u \<Rightarrow> Returned (profile_output ''p1'' ''app-eng-dev'' tunnel_props
                       (case ctx_output ?ctxW of Some out \<Rightarrow> wd_createdAt out | None \<Rightarrow> now_default example_clock)
                       (now_modified example_clock)),
         [\<lparr> req_method = POST, url = ''/accounts/acct/devices/policy'',
            body = Some (buildRequestBody ''app-eng-dev'' (wdp_enabled tunnel_props) (wdp_settings tunnel_props)) \<rparr>,
          \<lparr> req_method = GET, url = ''/accounts/acct/devices/policies'', body = None \<rparr>,
          \<lparr> req_method = PUT, url = ''/accounts/acct/devices/policy/p1/exclude'',
            body = Some (split_tunnel_routes split_example) \<rparr>])"
    by (rule WarpDeviceProfile_adopt_applied
          [where error = "api_error_of 409 ''profile already exists'' ''create'' ''warp_device_profile'' ''app-eng-dev''"
             and log = "[\<lparr> req_method = POST, url = ''/accounts/acct/devices/policy'',
                          body = Some (buildRequestBody ''app-eng-dev'' (wdp_enabled tunnel_props) (wdp_settings tunnel_props)) \<rparr>]"
             and log' = "[\<lparr> req_method = POST, url = ''/accounts/acct/devices/policy'',
                          body = Some (buildRequestBody ''app-eng-dev'' (wdp_enabled tunnel_props) (wdp_settings tunnel_props)) \<rparr>,
                         \<lparr> req_method = GET, url = ''/accounts/acct/devices/policies'', body = None \<rparr>]"
             and config = split_example])
       (simp_all add: facts)
  have c1: "adopt_setting (wdp_adopt profile_props) example_scope"
    by (simp add: facts)
  have c2: "err_status (api_error_of 409 ''conflict'' ''create'' ''warp_device_profile'' ''app-eng-dev'') = Some 409"
    by (simp add: api_error_of_def)
  have c3: "WarpDeviceProfile (Inr plain_conflict_policy_api) example_clock ?ctxW ''eng'' profile_props
      = (Thrown (api_error_of 409 ''conflict'' ''create'' ''warp_device_profile'' ''app-eng-dev''),
         [\<lparr> req_method = POST, url = ''/accounts/acct/devices/policy'',
            body = Some (buildRequestBody ''app-eng-dev'' (wdp_enabled profile_props) (wdp_settings profile_props)) \<rparr>])"
    by (rule WarpDeviceProfile_not_adopted [where name = "''app-eng-dev''"]) (simp_all add: facts)
  have d1: "adopt_setting (trp_adopt ?commented) example_scope"
    by (simp add: facts)
  have d2: "TunnelRoute (Inr other_id_route_api) ?ctxT ''r'' ?commented
      = Some (case Inr (route_b \<lparr> cr_comment := Some ''new'' \<rparr>) :: js_error + CloudflareRoute of
                Inl e \<Rightarrow> Thrown e | Inr updated \<Rightarrow> Returned (route_output updated),
              [\<lparr> req_method = POST, url = ''/accounts/acct/teamnet/routes'',
                 body = Some (JObject [(''network'', JString ''10.0.0.0/8''), (''tunnel_id'', JString ''t1''),
                                       (''comment'', JString ''new'')]) \<rparr>,
               \<lparr> req_method = GET, url = ''/accounts/acct/teamnet/routes?page=1&per_page=100'', body = None \<rparr>,
               \<lparr> req_method = GET, url = ''/accounts/acct/teamnet/routes?page=2&per_page=100'', body = None \<rparr>,
               \<lparr> req_method = PATCH, url = ''/accounts/acct/teamnet/routes/a'',
                 body = Some (JObject [(''comment'', JString ''new'')]) \<rparr>])"
    by (rule TunnelRoute_adopt_applied
          [where tunnelId = "''t1''" and existing = route_a and routes = "[route_a, route_b]"
             and error = "api_error_of 409 ''route already exists'' ''create'' ''route'' ''10.0.0.0/8 -> t1''"
             and log = "[\<lparr> req_method = POST, url = ''/accounts/acct/teamnet/routes'',
                 body = Some (JObject [(''network'', JString ''10.0.0.0/8''), (''tunnel_id'', JString ''t1''),
                                       (''comment'', JString ''new'')]) \<rparr>]"
             and log' = "[\<lparr> req_method = POST, url = ''/accounts/acct/teamnet/routes'',
                 body = Some (JObject [(''network'', JString ''10.0.0.0/8''), (''tunnel_id'', JString ''t1''),
                                       (''comment'', JString ''new'')]) \<rparr>,
               \<lparr> req_method = GET, url = ''/accounts/acct/teamnet/routes?page=1&per_page=100'', body = None \<rparr>,
               \<lparr> req_method = GET, url = ''/accounts/acct/teamnet/routes?page=2&per_page=100'', body = None \<rparr>]"])
       (simp_all add: facts)
  have d3: "tr_id (route_output (route_b \<lparr> cr_comment := Some ''new'' \<rparr>)) = ''b''"
    by (simp add: route_output_def route_b_def)
  from a1 a2 a3 b1 b2 b3 c1 c2 c3 d1 d2 d3 show ?thesis by simp
qed

section \<open>Validation of the props\<close>

lemma Rate_both:
  assumes "ctx_phase this \<noteq> Delete"
    and "createStripeV2Client env (map_option KeySecret (rp_apiKey props)) = Inr client"
    and "rp_unitAmount props \<noteq> None" "rp_tiers props = Some ts" "ts \<noteq> []"
  shows "Rate env this ident props = (Thrown both_error, io0)"
  using assms by (simp add: Rate_def Let_def)

lemma Rate_neither:
  assumes "ctx_phase this \<noteq> Delete"
    and "createStripeV2Client env (map_option KeySecret (rp_apiKey props)) = Inr client"
    and "rp_unitAmount props = None" "rp_tiers props = None \<or> rp_tiers props = Some []"
  shows "Rate env this ident props = (Thrown neither_error, io0)"
  using assms by (auto simp: Rate_def Let_def)

lemma validation_messages:
  "prefix ''Cannot specify both unitAmount and tiers'' (message both_error)"
  "message neither_error = ''Either unitAmount or tiers is required''"
  "prefix ''Cannot specify both requestUrl and expression'' (message both_url_error)"
  by (simp_all add: both_error_def neither_error_def both_url_error_def new_Error_def)

lemma RedirectRule_both:
  assumes "ctx_phase this \<noteq> Delete"
    and "truthy_str (rrp_requestUrl props)" "truthy_str (rrp_expression props)"
    and "resolve_zone env (rrp_zone props) = (Inr (Some zoneId), log)" "zoneId \<noteq> []"
  shows "RedirectRule env (Inr api) this ident props = (Thrown both_url_error, log)"
  using assms by (simp add: RedirectRule_def Let_def)

lemma resolve_zone_no_domain:
  assumes "\<forall>s. z = ZoneString s \<longrightarrow> CHR ''.'' \<notin> set s"
  shows "\<exists>i. resolve_zone env z = (Inr (Some i), [])"
  using assms by (cases z) (simp_all add: resolve_zone_def)

lemma Rate_no_client:
  assumes "createStripeV2Client env (map_option KeySecret (rp_apiKey props)) = Inl e"
  shows "Rate env this ident props = (Thrown e, io0)"
  using assms by (simp add: Rate_def)

lemma RedirectRule_both_any:
  assumes "ctx_phase this \<noteq> Delete"
    and "truthy_str (rrp_requestUrl props)" "truthy_str (rrp_expression props)"
    and "resolve_zone env (rrp_zone props) = (Inr (Some zoneId), log)" "zoneId \<noteq> []"
  shows "RedirectRule env created_api this ident props =
           (case created_api of Inl e \<Rightarrow> (Thrown e, []) | Inr api \<Rightarrow> (Thrown both_url_error, log))"
  using assms by (cases created_api) (simp_all add: RedirectRule_def Let_def)

text \<open>
  C5 (as amended). For every create- or update-phase invocation of Rate for which the
  Stripe client is constructed: props with both \<open>unitAmount\<close> and a non-empty \<open>tiers\<close>
  list throw "Cannot specify both unitAmount and tiers..." and props with neither throw
  "Either unitAmount or tiers is required", in both cases with no request sent. Every
  create- or update-phase invocation of RedirectRule with both \<open>requestUrl\<close> and
  \<open>expression\<close> non-empty, whose API client is constructed and whose zone resolves,
  throws "Cannot specify both requestUrl and expression..." having sent no request but
  those of the zone lookup; there is no zone lookup, and so no request at all, when the
  zone is a Zone resource or an id. When the construction of the client throws, either
  handler throws that error, with no request sent.
\<close>

theorem validation_before_requests:
  "(ctx_phase thisR \<noteq> Delete
      \<and> createStripeV2Client envR (map_option KeySecret (rp_apiKey propsR)) = Inr clientR
      \<and> rp_unitAmount propsR \<noteq> None \<and> rp_tiers propsR = Some ts \<and> ts \<noteq> []
      \<longrightarrow> Rate envR thisR identR propsR = (Thrown both_error, io0))
   \<and> (ctx_phase thisR \<noteq> Delete
      \<and> createStripeV2Client envR (map_option KeySecret (rp_apiKey propsR)) = Inr clientR
      \<and> rp_unitAmount propsR = None \<and> (rp_tiers propsR = None \<or> rp_tiers propsR = Some [])
      \<longrightarrow> Rate envR thisR identR propsR = (Thrown neither_error, io0))
   \<and> (createStripeV2Client envR (map_option KeySecret (rp_apiKey propsR)) = Inl errR
      \<longrightarrow> Rate envR thisR identR propsR = (Thrown errR, io0))
   \<and> prefix ''Cannot specify both unitAmount and tiers'' (message both_error)
   \<and> message neither_error = ''Either unitAmount or tiers is required''
   \<and> sent io0 = [] \<and> slept io0 = []
   \<and> (ctx_phase thisD \<noteq> Delete
      \<and> truthy_str (rrp_requestUrl propsD) \<and> truthy_str (rrp_expression propsD)
      \<and> resolve_zone envD (rrp_zone propsD) = (Inr (Some zoneId), logD) \<and> zoneId \<noteq> []
      \<longrightarrow> RedirectRule envD clientD thisD identD propsD =
            (case clientD of Inl e \<Rightarrow> (Thrown e, []) | Inr api \<Rightarrow> (Thrown both_url_error, logD)))
   \<and> ((\<forall>s. rrp_zone propsD = ZoneString s \<longrightarrow> CHR ''.'' \<notin> set s)
      \<longrightarrow> (\<exists>i. resolve_zone envD (rrp_zone propsD) = (Inr (Some i), [])))
   \<and> prefix ''Cannot specify both requestUrl and expression'' (message both_url_error)"
  using Rate_both [of thisR envR propsR clientR ts identR] Rate_neither [of thisR envR propsR clientR identR]
    Rate_no_client [of envR propsR errR thisR identR]
    RedirectRule_both_any [of thisD propsD envD zoneId logD clientD identD]
    resolve_zone_no_domain [of "rrp_zone propsD" envD] validation_messages
  by (simp add: io0_def)

lemma example_tier_props:
  "rp_apiKey (rate_props \<lparr> rp_tiers := x \<rparr>) = None" "rp_apiKey (rate_props \<lparr> rp_unitAmount := y \<rparr>) = None"
  "rp_unitAmount (rate_props \<lparr> rp_tiers := x \<rparr>) = Some (NumInt 10)"
  "rp_tiers (rate_props \<lparr> rp_unitAmount := y \<rparr>) = None"
  by (simp_all add: rate_props_def)

theorem validation_before_requests_witness:
  "Rate example_stripe \<lparr> ctx_phase = Create, ctx_output = None, ctx_scope = example_scope \<rparr> ''rate''
       (rate_props \<lparr> rp_tiers := Some [\<lparr> upTo = UpToInf, unitAmount = Some (NumInt 5), flatAmount = None \<rparr>] \<rparr>)
     = (Thrown both_error, \<lparr> sent = [], slept = [] \<rparr>)
   \<and> Rate example_stripe \<lparr> ctx_phase = Update, ctx_output = Some rate_out, ctx_scope = example_scope \<rparr> ''rate''
       (rate_props \<lparr> rp_unitAmount := None \<rparr>)
     = (Thrown neither_error, \<lparr> sent = [], slept = [] \<rparr>)
   \<and> Rate (example_stripe \<lparr> env_STRIPE_API_KEY := None \<rparr>)
        \<lparr> ctx_phase = Create, ctx_output = None, ctx_scope = example_scope \<rparr> ''rate'' (rate_props \<lparr> rp_unitAmount := None \<rparr>)
     = (Thrown api_key_required, \<lparr> sent = [], slept = [] \<rparr>)
   \<and> RedirectRule example_redirect_env (Inr example_ruleset_api)
       \<lparr> ctx_phase = Create, ctx_output = None, ctx_scope = example_scope \<rparr> ''rd''
       (redirect_props \<lparr> rrp_zone := ZoneString ''z1'' \<rparr>)
     = (Thrown both_url_error, [])
   \<and> RedirectRule example_redirect_env (Inr example_ruleset_api)
       \<lparr> ctx_phase = Update, ctx_output = Some redirect_out, ctx_scope = example_scope \<rparr> ''rd'' redirect_props
     = (Thrown both_url_error, [\<lparr> req_method = GET, url = ''/zones?name=example.com'', body = None \<rparr>])
   \<and> (\<exists>i. resolve_zone example_redirect_env (rrp_zone (redirect_props \<lparr> rrp_zone := ZoneString ''z1'' \<rparr>))
            = (Inr (Some i), []))"
proof -
  let ?tiers = "[\<lparr> upTo = UpToInf, unitAmount = Some (NumInt 5), flatAmount = None \<rparr>]"
  let ?client = "projr (createStripeV2Client example_stripe None)"
  let ?c = "\<lparr> ctx_phase = Create, ctx_output = None :: Rate option, ctx_scope = example_scope \<rparr>"
  let ?u = "\<lparr> ctx_phase = Update, ctx_output = Some rate_out, ctx_scope = example_scope \<rparr>"
  let ?d = "\<lparr> ctx_phase = Create, ctx_output = None :: RedirectRule option, ctx_scope = example_scope \<rparr>"
  let ?du = "\<lparr> ctx_phase = Update, ctx_output = Some redirect_out, ctx_scope = example_scope \<rparr>"
  let ?nokey = "example_stripe \<lparr> env_STRIPE_API_KEY := None \<rparr>"
  let ?get = "\<lparr> req_method = GET, url = ''/zones?name=example.com'', body = None \<rparr>"
  have h1: "ctx_phase ?c \<noteq> Delete
      \<and> createStripeV2Client example_stripe (map_option KeySecret (rp_apiKey (rate_props \<lparr> rp_tiers := Some ?tiers \<rparr>))) = Inr ?client
      \<and> rp_unitAmount (rate_props \<lparr> rp_tiers := Some ?tiers \<rparr>) \<noteq> None
      \<and> rp_tiers (rate_props \<lparr> rp_tiers := Some ?tiers \<rparr>) = Some ?tiers \<and> ?tiers \<noteq> []"
    using example_client by (simp add: example_tier_props)
  have h2: "ctx_phase ?u \<noteq> Delete
      \<and> createStripeV2Client example_stripe (map_option KeySecret (rp_apiKey (rate_props \<lparr> rp_unitAmount := None \<rparr>))) = Inr ?client
      \<and> rp_unitAmount (rate_props \<lparr> rp_unitAmount := None \<rparr>) = None
      \<and> (rp_tiers (rate_props \<lparr> rp_unitAmount := None \<rparr>) = None \<or> rp_tiers (rate_props \<lparr> rp_unitAmount := None \<rparr>) = Some [])"
    using example_client by (simp add: example_tier_props)
  have h3: "createStripeV2Client ?nokey (map_option KeySecret (rp_apiKey (rate_props \<lparr> rp_unitAmount := None \<rparr>)))
              = Inl api_key_required"
    by (simp add: createStripeV2Client_def example_stripe_def example_tier_props)
  have h4: "ctx_phase ?d \<noteq> Delete
      \<and> truthy_str (rrp_requestUrl (redirect_props \<lparr> rrp_zone := ZoneString ''z1'' \<rparr>))
      \<and> truthy_str (rrp_expression (redirect_props \<lparr> rrp_zone := ZoneString ''z1'' \<rparr>))
      \<and> resolve_zone example_redirect_env (rrp_zone (redirect_props \<lparr> rrp_zone := ZoneString ''z1'' \<rparr>)) = (Inr (Some ''z1''), [])
      \<and> ''z1'' \<noteq> []"
    by (simp add: redirect_props_def resolve_zone_def)
  have h5: "ctx_phase ?du \<noteq> Delete
      \<and> truthy_str (rrp_requestUrl redirect_props) \<and> truthy_str (rrp_expression redirect_props)
      \<and> resolve_zone example_redirect_env (rrp_zone redirect_props) = (Inr (Some ''z1''), [?get])
      \<and> ''z1'' \<noteq> []"
    by (simp add: redirect_props_def resolve_zone_def example_redirect_env_def)
  have h6: "\<forall>s. rrp_zone (redirect_props \<lparr> rrp_zone := ZoneString ''z1'' \<rparr>) = ZoneString s \<longrightarrow> CHR ''.'' \<notin> set s"
    by simp
  note w1 = validation_before_requests
    [where thisR = ?c and envR = example_stripe and propsR = "rate_props \<lparr> rp_tiers := Some ?tiers \<rparr>"
       and clientR = ?client and ts = ?tiers and identR = "''rate''",
     THEN conjunct1, rule_format, OF h1]
  note w2 = validation_before_requests
    [where thisR = ?u and envR = example_stripe and propsR = "rate_props \<lparr> rp_unitAmount := None \<rparr>"
       and clientR = ?client and identR = "''rate''",
     THEN conjunct2, THEN conjunct1, rule_format, OF h2]
  note w3 = validation_before_requests
    [where thisR = ?c and envR = ?nokey and propsR = "rate_props \<lparr> rp_unitAmount := None \<rparr>"
       and errR = api_key_required and identR = "''rate''",
     THEN conjunct2, THEN conjunct2, THEN conjunct1, rule_format, OF h3]
  note w4 = validation_before_requests
    [where thisD = ?d and envD = example_redirect_env and clientD = "Inr example_ruleset_api"
       and propsD = "redirect_props \<lparr> rrp_zone := ZoneString ''z1'' \<rparr>" and identD = "''rd''"
       and zoneId = "''z1''" and logD = "[]",
     THEN conjunct2, THEN conjunct2, THEN conjunct2, THEN conjunct2, THEN conjunct2, THEN conjunct2,
     THEN conjunct2, THEN conjunct1, rule_format, OF h4]
  note w5 = validation_before_requests
    [where thisD = ?du and envD = example_redirect_env and clientD = "Inr example_ruleset_api"
       and propsD = redirect_props and identD = "''rd''" and zoneId = "''z1''" and logD = "[?get]",
     THEN conjunct2, THEN conjunct2, THEN conjunct2, THEN conjunct2, THEN conjunct2, THEN conjunct2,
     THEN conjunct2, THEN conjunct1, rule_format, OF h5]
  note w6 = validation_before_requests
    [where envD = example_redirect_env and propsD = "redirect_props \<lparr> rrp_zone := ZoneString ''z1'' \<rparr>",
     THEN conjunct2, THEN conjunct2, THEN conjunct2, THEN conjunct2, THEN conjunct2, THEN conjunct2,
     THEN conjunct2, THEN conjunct2, THEN conjunct1, THEN mp, OF h6]
  from w1 w2 w3 w4 w5 w6 show ?thesis by (simp add: io0_def)
qed

text \<open>
  The claim as stated fails: for a RedirectRule whose zone is a domain name the zone
  lookup is sent before the props are validated; in the delete phase the props are not
  validated at all; and a RedirectRule whose API client cannot be constructed, like a
  Rate without an API key, throws the error of the construction, not the validation
  error.
\<close>

theorem validation_after_requests:
  "truthy_str (rrp_requestUrl redirect_props) \<and> truthy_str (rrp_expression redirect_props)
   \<and> RedirectRule example_redirect_env (Inr example_ruleset_api)
        \<lparr> ctx_phase = Create, ctx_output = None, ctx_scope = example_scope \<rparr> ''rd'' redirect_props
      = (Thrown both_url_error, [\<lparr> req_method = GET, url = ''/zones?name=example.com'', body = None \<rparr>])
   \<and> RedirectRule example_redirect_env (Inr example_ruleset_api)
        \<lparr> ctx_phase = Delete, ctx_output = Some redirect_out, ctx_scope = example_scope \<rparr> ''rd'' redirect_props
      = (Destroyed, [\<lparr> req_method = GET, url = ''/zones?name=example.com'', body = None \<rparr>,
                     \<lparr> req_method = DELETE, url = ''/zones/z1/rulesets/rs1/rules/rule1'', body = None \<rparr>])
   \<and> RedirectRule example_redirect_env (Inl no_credentials)
        \<lparr> ctx_phase = Create, ctx_output = None, ctx_scope = example_scope \<rparr> ''rd''
        (redirect_props \<lparr> rrp_zone := ZoneString ''z1'' \<rparr>)
      = (Thrown no_credentials, [])
   \<and> Rate (example_stripe \<lparr> env_STRIPE_API_KEY := None \<rparr>)
        \<lparr> ctx_phase = Create, ctx_output = None, ctx_scope = example_scope \<rparr> ''rate''
        (rate_props \<lparr> rp_tiers := Some [\<lparr> upTo = UpToInf, unitAmount = Some (NumInt 5), flatAmount = None \<rparr>] \<rparr>)
      = (Thrown api_key_required, \<lparr> sent = [], slept = [] \<rparr>)"
proof -
  have z: "resolve_zone example_redirect_env (rrp_zone redirect_props)
             = (Inr (Some ''z1''), [\<lparr> req_method = GET, url = ''/zones?name=example.com'', body = None \<rparr>])"
    by (simp add: resolve_zone_def redirect_props_def example_redirect_env_def)
  have t: "truthy_str (rrp_requestUrl redirect_props)" "truthy_str (rrp_expression redirect_props)"
    by (simp_all add: redirect_props_def)
  have 1: "RedirectRule example_redirect_env (Inr example_ruleset_api)
        \<lparr> ctx_phase = Create, ctx_output = None, ctx_scope = example_scope \<rparr> ''rd'' redirect_props
      = (Thrown both_url_error, [\<lparr> req_method = GET, url = ''/zones?name=example.com'', body = None \<rparr>])"
    by (rule RedirectRule_both [OF _ t z]) simp_all
  have 2: "RedirectRule example_redirect_env (Inr example_ruleset_api)
        \<lparr> ctx_phase = Delete, ctx_output = Some redirect_out, ctx_scope = example_scope \<rparr> ''rd'' redirect_props
      = (Destroyed, [\<lparr> req_method = GET, url = ''/zones?name=example.com'', body = None \<rparr>,
                     \<lparr> req_method = DELETE, url = ''/zones/z1/rulesets/rs1/rules/rule1'', body = None \<rparr>])"
    using z by (simp add: RedirectRule_def Let_def deleteRule_def redirect_out_def example_ruleset_api_def)
  have 3: "Rate (example_stripe \<lparr> env_STRIPE_API_KEY := None \<rparr>)
        \<lparr> ctx_phase = Create, ctx_output = None, ctx_scope = example_scope \<rparr> ''rate''
        (rate_props \<lparr> rp_tiers := Some [\<lparr> upTo = UpToInf, unitAmount = Some (NumInt 5), flatAmount = None \<rparr>] \<rparr>)
      = (Thrown api_key_required, \<lparr> sent = [], slept = [] \<rparr>)"
    by (simp add: Rate_def createStripeV2Client_def example_stripe_def example_tier_props io0_def)
  have 4: "RedirectRule example_redirect_env (Inl no_credentials)
        \<lparr> ctx_phase = Create, ctx_output = None, ctx_scope = example_scope \<rparr> ''rd''
        (redirect_props \<lparr> rrp_zone := ZoneString ''z1'' \<rparr>)
      = (Thrown no_credentials, [])"
    by (simp add: RedirectRule_def)
  from t 1 2 3 4 show ?thesis by blast
qed

section \<open>Update in place or replacement\<close>
























end
